theory Spec2Isabelle
  imports Complex_Main "HOL-Library.Multiset"
begin

section \<open>JavaScript values used by the three applications\<close>

text \<open>
  A JavaScript number is modelled as a finite real or \<open>NaN\<close>.  IEEE rounding and the
  two infinities are not modelled: arithmetic on finite numbers is exact.  Every
  operation propagates \<open>NaN\<close> and every comparison with \<open>NaN\<close> is false, as in the
  language.
\<close>

datatype jsnum = Num real | NaN

fun jadd :: "jsnum \<Rightarrow> jsnum \<Rightarrow> jsnum" where
  "jadd (Num a) (Num b) = Num (a + b)"
| "jadd _ _ = NaN"

fun jsub :: "jsnum \<Rightarrow> jsnum \<Rightarrow> jsnum" where
  "jsub (Num a) (Num b) = Num (a - b)"
| "jsub _ _ = NaN"

fun jmul :: "jsnum \<Rightarrow> jsnum \<Rightarrow> jsnum" where
  "jmul (Num a) (Num b) = Num (a * b)"
| "jmul _ _ = NaN"

fun jlt :: "jsnum \<Rightarrow> jsnum \<Rightarrow> bool" where
  "jlt (Num a) (Num b) = (a < b)"
| "jlt _ _ = False"

fun jle :: "jsnum \<Rightarrow> jsnum \<Rightarrow> bool" where
  "jle (Num a) (Num b) = (a \<le> b)"
| "jle _ _ = False"

definition jgt :: "jsnum \<Rightarrow> jsnum \<Rightarrow> bool" where
  "jgt a b = jlt b a"

definition jge :: "jsnum \<Rightarrow> jsnum \<Rightarrow> bool" where
  "jge a b = jle b a"

text \<open>\<^verbatim>\<open>Math.max\<close>, \<^verbatim>\<open>Math.min\<close> and \<^verbatim>\<open>Math.floor\<close>.\<close>

fun jmax :: "jsnum \<Rightarrow> jsnum \<Rightarrow> jsnum" where
  "jmax (Num a) (Num b) = Num (max a b)"
| "jmax _ _ = NaN"

fun jmin :: "jsnum \<Rightarrow> jsnum \<Rightarrow> jsnum" where
  "jmin (Num a) (Num b) = Num (min a b)"
| "jmin _ _ = NaN"

fun jfloor :: "jsnum \<Rightarrow> jsnum" where
  "jfloor (Num a) = Num (of_int \<lfloor>a\<rfloor>)"
| "jfloor NaN = NaN"

text \<open>Truthiness of a number: \<open>0\<close> and \<open>NaN\<close> are falsy.\<close>

fun truthy :: "jsnum \<Rightarrow> bool" where
  "truthy (Num a) = (a \<noteq> 0)"
| "truthy NaN = False"

text \<open>
  \<^verbatim>\<open>x || d\<close> on a possibly undefined number (\<open>None\<close> is \<^verbatim>\<open>undefined\<close>), and the
  comparison \<^verbatim>\<open>x > 0\<close> on one (\<^verbatim>\<open>undefined > 0\<close> is false).
\<close>

fun orElse :: "jsnum option \<Rightarrow> jsnum \<Rightarrow> jsnum" where
  "orElse None d = d"
| "orElse (Some v) d = (if truthy v then v else d)"

fun positive :: "jsnum option \<Rightarrow> bool" where
  "positive None = False"
| "positive (Some v) = jgt v (Num 0)"

text \<open>
  The number of times the body of \<^verbatim>\<open>for (let i = 0; i < n; i++)\<close> runs: the least
  natural number that is not below \<open>n\<close>, and none when \<open>n\<close> is \<open>NaN\<close>.
\<close>

fun iterations :: "jsnum \<Rightarrow> nat" where
  "iterations (Num n) = nat \<lceil>n\<rceil>"
| "iterations NaN = 0"

subsection \<open>Strings\<close>

text \<open>
  A string is a list of characters.  The claims below only use ASCII text, so the
  case conversions act on the letters A to Z and a to z, and white space is the six
  ASCII white-space characters.
\<close>

definition isSpace :: "char \<Rightarrow> bool" where
  "isSpace c = (c \<in> set [CHR '' '', CHR 0x09, CHR 0x0A, CHR 0x0B, CHR 0x0C, CHR 0x0D])"

definition trim :: "string \<Rightarrow> string" where
  "trim s = rev (dropWhile isSpace (rev (dropWhile isSpace s)))"

definition lowerChar :: "char \<Rightarrow> char" where
  "lowerChar c = (let n = (of_char c :: nat) in
                  if 65 \<le> n \<and> n \<le> 90 then char_of (n + 32) else c)"

definition upperChar :: "char \<Rightarrow> char" where
  "upperChar c = (let n = (of_char c :: nat) in
                  if 97 \<le> n \<and> n \<le> 122 then char_of (n - 32) else c)"

definition toLowerCase :: "string \<Rightarrow> string" where
  "toLowerCase s = map lowerChar s"

definition toUpperCase :: "string \<Rightarrow> string" where
  "toUpperCase s = map upperChar s"

text \<open>
  \<^verbatim>\<open>s.split(sep)\<close> for a one-character separator: the pieces between the
  separators, empty pieces included, so the result is never empty.
\<close>

fun split :: "char \<Rightarrow> string \<Rightarrow> string list" where
  "split sep [] = [[]]"
| "split sep (c # cs) =
     (if c = sep then [] # split sep cs
      else (case split sep cs of [] \<Rightarrow> [[c]] | r # rs \<Rightarrow> (c # r) # rs))"

text \<open>\<^verbatim>\<open>xs.join(sep)\<close>.\<close>

fun join :: "string \<Rightarrow> string list \<Rightarrow> string" where
  "join sep [] = []"
| "join sep [x] = x"
| "join sep (x # y # ys) = x @ sep @ join sep (y # ys)"

definition startsWith :: "string \<Rightarrow> string \<Rightarrow> bool" where
  "startsWith s p = (take (length p) s = p)"

fun includesStr :: "string \<Rightarrow> string \<Rightarrow> bool" where
  "includesStr [] sub = (sub = [])"
| "includesStr (c # cs) sub = (startsWith (c # cs) sub \<or> includesStr cs sub)"

text \<open>
  \<^verbatim>\<open>xs[i]\<close> on an array: \<^verbatim>\<open>undefined\<close> (here \<open>None\<close>) outside the array.
\<close>

definition nth_opt :: "'a list \<Rightarrow> nat \<Rightarrow> 'a option" where
  "nth_opt xs i = (if i < length xs then Some (xs ! i) else None)"

text \<open>
  \<^verbatim>\<open>parseInt(s)\<close> without a radix: leading white space is skipped, a sign is read,
  a \<^verbatim>\<open>0x\<close> prefix selects base 16, and the longest run of digits is the value; with
  no digit the result is \<open>NaN\<close>.  Whatever follows the digits is ignored.
\<close>

definition isDigit :: "char \<Rightarrow> bool" where
  "isDigit c = (48 \<le> (of_char c :: nat) \<and> (of_char c :: nat) \<le> 57)"

definition digitVal :: "char \<Rightarrow> nat" where
  "digitVal c = (of_char c :: nat) - 48"

definition isHexDigit :: "char \<Rightarrow> bool" where
  "isHexDigit c = (let n = (of_char c :: nat) in
     (48 \<le> n \<and> n \<le> 57) \<or> (65 \<le> n \<and> n \<le> 70) \<or> (97 \<le> n \<and> n \<le> 102))"

definition hexVal :: "char \<Rightarrow> nat" where
  "hexVal c = (let n = (of_char c :: nat) in
     if n \<le> 57 then n - 48 else if n \<le> 70 then n - 55 else n - 87)"

definition digitsValue :: "string \<Rightarrow> nat" where
  "digitsValue ds = foldl (\<lambda>acc c. 10 * acc + digitVal c) 0 ds"

definition hexValue :: "string \<Rightarrow> nat" where
  "hexValue ds = foldl (\<lambda>acc c. 16 * acc + hexVal c) 0 ds"

definition parseMagnitude :: "string \<Rightarrow> nat option" where
  "parseMagnitude u =
     (if startsWith u ''0x'' \<or> startsWith u ''0X''
      then (let ds = takeWhile isHexDigit (drop 2 u) in
            if ds = [] then None else Some (hexValue ds))
      else (let ds = takeWhile isDigit u in
            if ds = [] then None else Some (digitsValue ds)))"

definition parseInt :: "string \<Rightarrow> jsnum" where
  "parseInt s =
     (let t = dropWhile isSpace s;
          neg = (t \<noteq> [] \<and> hd t = CHR ''-'');
          u = (if t \<noteq> [] \<and> (hd t = CHR ''-'' \<or> hd t = CHR ''+'') then tl t else t)
      in case parseMagnitude u of
           None \<Rightarrow> NaN
         | Some n \<Rightarrow> Num (if neg then - real n else real n))"

subsection \<open>Numbers and strings\<close>

text \<open>
  \<^verbatim>\<open>Number(s)\<close> on a string: white space around the text is dropped and the empty
  text is 0; otherwise the whole text must be a hexadecimal, octal or binary literal,
  or an optionally signed decimal literal with an optional fraction and exponent.
  Anything else is \<open>NaN\<close>.  A decimal literal too large for a double, and the literal
  \<^verbatim>\<open>Infinity\<close>, denote a number that is not finite; the only consumer here is
  \<^verbatim>\<open>Number.isFinite\<close>, so it is represented by \<open>NaN\<close> as well.  A decimal literal
  below the smallest double is 0.
\<close>

definition radixValue :: "nat \<Rightarrow> string \<Rightarrow> jsnum" where
  "radixValue b ds =
     (if ds \<noteq> [] \<and> (\<forall>c \<in> set ds. isHexDigit c \<and> hexVal c < b)
      then Num (real (foldl (\<lambda>acc c. b * acc + hexVal c) 0 ds)) else NaN)"

definition exponentPart :: "string \<Rightarrow> int option" where
  "exponentPart r =
     (if r = [] then Some 0
      else if hd r = CHR ''e'' \<or> hd r = CHR ''E'' then
        (let r1 = tl r;
             neg = (r1 \<noteq> [] \<and> hd r1 = CHR ''-'');
             ds = (if r1 \<noteq> [] \<and> (hd r1 = CHR ''-'' \<or> hd r1 = CHR ''+'') then tl r1 else r1)
         in if ds \<noteq> [] \<and> (\<forall>c \<in> set ds. isDigit c)
            then Some (if neg then - int (digitsValue ds) else int (digitsValue ds))
            else None)
      else None)"

definition scale10 :: "real \<Rightarrow> int \<Rightarrow> real" where
  "scale10 m e = (if 0 \<le> e then m * 10 ^ nat e else m / 10 ^ nat (- e))"

definition unsignedDecimal :: "string \<Rightarrow> jsnum" where
  "unsignedDecimal u =
     (let ip = takeWhile isDigit u;
          r1 = dropWhile isDigit u;
          dot = (r1 \<noteq> [] \<and> hd r1 = CHR ''.'');
          fp = (if dot then takeWhile isDigit (tl r1) else []);
          r2 = (if dot then dropWhile isDigit (tl r1) else r1)
      in if ip = [] \<and> fp = [] then NaN
         else (case exponentPart r2 of
                 None \<Rightarrow> NaN
               | Some e \<Rightarrow> Num (scale10 (real (digitsValue (ip @ fp))) (e - int (length fp)))))"

text \<open>
  The range of doubles: a magnitude that rounds beyond the largest double is not
  finite, one that rounds below the smallest is 0.  The first test only spares the
  evaluation of the two bounds for ordinary magnitudes, which lie between them.
\<close>

definition fitDouble :: "real \<Rightarrow> jsnum" where
  "fitDouble v =
     (if v = 0 \<or> (1 / 1000000 \<le> v \<and> v \<le> 1000000) then Num v
      else if 2 ^ 1024 - 2 ^ 970 \<le> v then NaN
      else if v \<le> 1 / 2 ^ 1075 then Num 0
      else Num v)"

definition stringToNumber :: "string \<Rightarrow> jsnum" where
  "stringToNumber s =
     (let t = trim s in
      if t = [] then Num 0
      else if startsWith t ''0x'' \<or> startsWith t ''0X'' then radixValue 16 (drop 2 t)
      else if startsWith t ''0o'' \<or> startsWith t ''0O'' then radixValue 8 (drop 2 t)
      else if startsWith t ''0b'' \<or> startsWith t ''0B'' then radixValue 2 (drop 2 t)
      else (let neg = (hd t = CHR ''-'');
                u = (if hd t = CHR ''-'' \<or> hd t = CHR ''+'' then tl t else t)
            in if u = ''Infinity'' then NaN
               else (case unsignedDecimal u of
                       NaN \<Rightarrow> NaN
                     | Num v \<Rightarrow>
                         (case fitDouble v of
                            NaN \<Rightarrow> NaN
                          | Num w \<Rightarrow> Num (if neg then - w else w)))))"

text \<open>
  The text of a number, as a template literal or \<^verbatim>\<open>String\<close> produces it.  An
  integer prints its digits.  A fraction prints its digits after a point, here at most
  20 of them (JavaScript prints the shortest text that reads back as the same double,
  at most 17 significant digits).  A positive number below \<open>10\<^sup>-\<^sup>6\<close> prints in
  exponent notation.  Numbers of magnitude \<open>10\<^sup>2\<^sup>1\<close> or more, which JavaScript also
  prints in exponent notation, print as integers here.
\<close>

definition digitChar :: "nat \<Rightarrow> char" where
  "digitChar d = char_of (48 + d)"

fun showNat :: "nat \<Rightarrow> string" where
  "showNat n = (if n < 10 then [digitChar n] else showNat (n div 10) @ [digitChar (n mod 10)])"

declare showNat.simps [simp del]

fun fracDigits :: "nat \<Rightarrow> real \<Rightarrow> string" where
  "fracDigits 0 f = []"
| "fracDigits (Suc k) f =
     (if f = 0 then []
      else digitChar (nat \<lfloor>10 * f\<rfloor>) # fracDigits k (10 * f - of_int \<lfloor>10 * f\<rfloor>))"

definition showFixed :: "real \<Rightarrow> string" where
  "showFixed x =
     showNat (nat \<lfloor>x\<rfloor>) @
     (if x = of_int \<lfloor>x\<rfloor> then [] else CHR ''.'' # fracDigits 20 (x - of_int \<lfloor>x\<rfloor>))"

fun smallExponent :: "nat \<Rightarrow> real \<Rightarrow> nat" where
  "smallExponent 0 x = 0"
| "smallExponent (Suc k) x = (if 1 \<le> x then 0 else Suc (smallExponent k (10 * x)))"

definition showPositive :: "real \<Rightarrow> string" where
  "showPositive x =
     (if x = 0 \<or> 1 / 10 ^ 6 \<le> x then showFixed x
      else (let n = smallExponent 400 x in
            showFixed (x * 10 ^ n) @ ''e-'' @ showNat n))"

fun showNum :: "jsnum \<Rightarrow> string" where
  "showNum NaN = ''NaN''"
| "showNum (Num x) = (if x < 0 then CHR ''-'' # showPositive (- x) else showPositive x)"

subsection \<open>Parsed JSON\<close>

text \<open>
  A value produced by \<^verbatim>\<open>JSON.parse\<close>.  An object is the list of its properties; a
  lookup finds the first entry with the key.  \<^verbatim>\<open>undefined\<close> is \<open>None\<close> of the
  option type.
\<close>

datatype json =
  JNull
| JBool bool
| JNum jsnum
| JStr string
| JArr "json list"
| JObj "(string \<times> json) list"

text \<open>\<^verbatim>\<open>String(v)\<close>: an array prints its elements separated by commas.\<close>

fun jsonToString :: "json \<Rightarrow> string" where
  "jsonToString JNull = ''null''"
| "jsonToString (JBool b) = (if b then ''true'' else ''false'')"
| "jsonToString (JNum n) = showNum n"
| "jsonToString (JStr s) = s"
| "jsonToString (JArr xs) =
     join '','' (map (\<lambda>x. case x of JNull \<Rightarrow> [] | _ \<Rightarrow> jsonToString x) xs)"
| "jsonToString (JObj ps) = ''[object Object]''"

text \<open>\<^verbatim>\<open>Number(v)\<close> and \<^verbatim>\<open>Boolean(v)\<close> on a value that may be undefined.\<close>

fun toNumber :: "json option \<Rightarrow> jsnum" where
  "toNumber None = NaN"
| "toNumber (Some JNull) = Num 0"
| "toNumber (Some (JBool b)) = (if b then Num 1 else Num 0)"
| "toNumber (Some (JNum n)) = n"
| "toNumber (Some (JStr s)) = stringToNumber s"
| "toNumber (Some (JArr xs)) = stringToNumber (jsonToString (JArr xs))"
| "toNumber (Some (JObj ps)) = NaN"

fun toBoolean :: "json option \<Rightarrow> bool" where
  "toBoolean None = False"
| "toBoolean (Some JNull) = False"
| "toBoolean (Some (JBool b)) = b"
| "toBoolean (Some (JNum n)) = truthy n"
| "toBoolean (Some (JStr s)) = (s \<noteq> [])"
| "toBoolean (Some (JArr xs)) = True"
| "toBoolean (Some (JObj ps)) = True"

text \<open>
  Property access \<^verbatim>\<open>v.k\<close> on a parsed value for the keys the code reads, none of
  which is inherited: only objects have them.
\<close>

fun getProp :: "json \<Rightarrow> string \<Rightarrow> json option" where
  "getProp (JObj ps) k = map_of ps k"
| "getProp _ k = None"

subsection \<open>Calls that may throw\<close>

text \<open>
  A thrown error, as far as the code reads it: its \<^verbatim>\<open>message\<close> and the text
  \<^verbatim>\<open>JSON.stringify\<close> makes of it.  A call throws or returns.  The text of a model
  response is absent or empty, or is what \<^verbatim>\<open>JSON.parse\<close> makes of it: a syntax
  error or a value.
\<close>

record jsError =
  message :: "string option"
  asJson :: string

datatype 'a attempt = Throws jsError | Returns 'a

datatype responseText = NoText | Malformed jsError | Parsed json

section \<open>AI Spire: data model (types.ts)\<close>

datatype CardType = ATTACK | SKILL | POWER

datatype CardRarity = COMMON | RARE | LEGENDARY

text \<open>
  Optional fields are options; the optional boolean keywords are only ever tested for
  truthiness, so an absent keyword is \<open>False\<close>.
\<close>

record ICard =
  card_id :: string
  card_name :: string
  card_type :: CardType
  card_rarity :: CardRarity
  cost :: jsnum
  damage :: "jsnum option"
  card_block :: "jsnum option"
  card_description :: string
  specialEffect :: "string option"
  card_emoji :: "string option"
  card_price :: "jsnum option"
  exhaust :: bool
  ethereal :: bool
  innate :: bool
  retain :: bool
  multiHit :: "jsnum option"

record IRelic =
  relic_id :: string
  relic_name :: string
  relic_description :: string
  effectType :: string
  relic_emoji :: string
  relic_price :: "jsnum option"

record IPower =
  power_id :: string
  power_name :: string
  power_description :: string
  power_effectType :: string
  power_icon :: string

record IEntity =
  maxHp :: jsnum
  currentHp :: jsnum
  block :: jsnum
  statuses :: "string \<rightharpoonup> jsnum"

record IPlayer = IEntity +
  gold :: jsnum
  energy :: jsnum
  maxEnergy :: jsnum
  deck :: "ICard list"
  hand :: "ICard list"
  discardPile :: "ICard list"
  drawPile :: "ICard list"
  exhaustPile :: "ICard list"
  relics :: "IRelic list"
  powers :: "IPower list"

record IEnemy = IEntity +
  enemy_name :: string
  intent :: string
  nextMoveDamage :: jsnum
  isElite :: bool
  isBoss :: bool
  enemy_emoji :: "string option"

datatype RoomType = MONSTER | ELITE | SHOP | REST | BOSS

record MapNode =
  node_id :: string
  node_type :: RoomType
  node_name :: string
  node_icon :: string
  node_level :: jsnum

datatype GamePhase =
  MENU | MAP_SELECTION | BATTLE_PLAYER_TURN | BATTLE_ENEMY_TURN | BATTLE_WIN | BATTLE_LOSS
| REWARD | SHOP_PHASE | REST_PHASE

text \<open>The text of a card type, which is its enum value.\<close>

fun cardTypeName :: "CardType \<Rightarrow> string" where
  "cardTypeName ATTACK = ''ATTACK''"
| "cardTypeName SKILL = ''SKILL''"
| "cardTypeName POWER = ''POWER''"

section \<open>AI Spire: constants (constants.ts)\<close>

definition INITIAL_ENERGY :: jsnum where "INITIAL_ENERGY = Num 3"
definition CARDS_PER_TURN :: jsnum where "CARDS_PER_TURN = Num 3"
definition INITIAL_HAND_SIZE :: jsnum where "INITIAL_HAND_SIZE = Num 5"
definition MAX_HAND_SIZE :: nat where "MAX_HAND_SIZE = 10"
definition STARTING_GOLD :: jsnum where "STARTING_GOLD = Num 99"

text \<open>The three emoji of the starting cards are the dagger, the shield and the collision, in UTF-8.\<close>

definition createStrike :: "string \<Rightarrow> ICard" where
  "createStrike i =
     \<lparr> card_id = ''strike-'' @ i, card_name = ''Strike'', card_type = ATTACK,
       card_rarity = COMMON, cost = Num 1, damage = Some (Num 6), card_block = None,
       card_description = ''Deal 6 damage.'', specialEffect = None,
       card_emoji = Some [CHR 0xF0, CHR 0x9F, CHR 0x97, CHR 0xA1, CHR 0xEF, CHR 0xB8, CHR 0x8F],
       card_price = None, exhaust = False, ethereal = False, innate = False, retain = False,
       multiHit = None \<rparr>"

definition createDefend :: "string \<Rightarrow> ICard" where
  "createDefend i =
     \<lparr> card_id = ''defend-'' @ i, card_name = ''Defend'', card_type = SKILL,
       card_rarity = COMMON, cost = Num 1, damage = None, card_block = Some (Num 5),
       card_description = ''Gain 5 Block.'', specialEffect = None,
       card_emoji = Some [CHR 0xF0, CHR 0x9F, CHR 0x9B, CHR 0xA1, CHR 0xEF, CHR 0xB8, CHR 0x8F],
       card_price = None, exhaust = False, ethereal = False, innate = False, retain = False,
       multiHit = None \<rparr>"

definition createBash :: "string \<Rightarrow> ICard" where
  "createBash i =
     \<lparr> card_id = ''bash-'' @ i, card_name = ''Bash'', card_type = ATTACK,
       card_rarity = COMMON, cost = Num 2, damage = Some (Num 8), card_block = Some (Num 0),
       card_description = ''Deal 8 damage. Apply 2 Vulnerable.'',
       specialEffect = Some ''vulnerable_2'',
       card_emoji = Some [CHR 0xF0, CHR 0x9F, CHR 0x92, CHR 0xA5],
       card_price = None, exhaust = False, ethereal = False, innate = False, retain = False,
       multiHit = None \<rparr>"

definition getInitialDeck :: "ICard list" where
  "getInitialDeck =
     [createStrike ''1'', createStrike ''2'', createStrike ''3'', createStrike ''4'',
      createDefend ''1'', createDefend ''2'', createDefend ''3'', createDefend ''4'',
      createBash ''1'']"

section \<open>AI Spire: game state (App.tsx)\<close>

text \<open>
  The card-selection overlay.  Its callback is one of two closures: the one a fetch
  or recover effect installs, which remembers the source pile, and the one the rest
  site installs to remove a card from the deck.
\<close>

datatype PileSource = FromDraw | FromDiscard | FromExhaust | FromDeck

datatype SelectAction = FetchToHand PileSource | RemoveFromDeck

record SelectionState =
  isOpen :: bool
  source :: PileSource
  type_filter :: "string option"
  title :: string
  onSelect :: SelectAction

text \<open>
  The state of the component that the combat rules read and write.  The messages of
  the combat log are not modelled.  The state setters of React queue functions of
  the previous state; they run in the order they were queued, so a handler is the
  composition of its updates.  A handler reads \<^verbatim>\<open>player\<close>, \<^verbatim>\<open>enemy\<close>, \<^verbatim>\<open>phase\<close>
  and \<^verbatim>\<open>level\<close> from the render it was created in: the functions below take that
  render as the argument \<open>cl\<close> and the state they update as \<open>g\<close>.
\<close>

record Game =
  phase :: GamePhase
  game_level :: jsnum
  player :: IPlayer
  enemy :: IEnemy
  selection :: "SelectionState option"
  currentRoom :: "RoomType option"

definition setPlayer :: "(IPlayer \<Rightarrow> IPlayer) \<Rightarrow> Game \<Rightarrow> Game" where
  "setPlayer f g = g\<lparr> player := f (player g) \<rparr>"

definition setEnemy :: "(IEnemy \<Rightarrow> IEnemy) \<Rightarrow> Game \<Rightarrow> Game" where
  "setEnemy f g = g\<lparr> enemy := f (enemy g) \<rparr>"

text \<open>The state of the component when it is mounted; the bird is the emoji of the first enemy.\<close>

definition initialPlayer :: IPlayer where
  "initialPlayer =
     \<lparr> maxHp = Num 60, currentHp = Num 60, block = Num 0, statuses = Map.empty,
       gold = STARTING_GOLD, energy = INITIAL_ENERGY, maxEnergy = INITIAL_ENERGY,
       deck = getInitialDeck, hand = [], discardPile = [], drawPile = [], exhaustPile = [],
       relics = [], powers = [] \<rparr>"

definition initialEnemy :: IEnemy where
  "initialEnemy =
     \<lparr> maxHp = Num 20, currentHp = Num 20, block = Num 0, statuses = Map.empty,
       enemy_name = ''Cultist'', intent = ''Attack'', nextMoveDamage = Num 5,
       isElite = False, isBoss = False,
       enemy_emoji = Some [CHR 0xF0, CHR 0x9F, CHR 0x90, CHR 0xA6] \<rparr>"

definition initialGame :: Game where
  "initialGame =
     \<lparr> phase = MENU, game_level = Num 1, player = initialPlayer, enemy = initialEnemy,
       selection = None, currentRoom = None \<rparr>"

text \<open>\<^verbatim>\<open>s || d\<close> on a possibly undefined string, and an undefined value in a template.\<close>

fun strOr :: "string option \<Rightarrow> string \<Rightarrow> string" where
  "strOr None d = d"
| "strOr (Some s) d = (if s \<noteq> [] then s else d)"

fun templated :: "string option \<Rightarrow> string" where
  "templated None = ''undefined''"
| "templated (Some s) = s"

subsection \<open>Drawing cards\<close>

text \<open>
  The loop of \<^verbatim>\<open>drawCards\<close> over hand, draw pile and discard pile.  The argument
  \<open>sh\<close> is the shuffle, a sort with a random comparison; \<^verbatim>\<open>pop\<close> takes the last
  card of the draw pile.
\<close>

fun drawLoop ::
  "(ICard list \<Rightarrow> ICard list) \<Rightarrow> nat \<Rightarrow> ICard list \<Rightarrow> ICard list \<Rightarrow> ICard list
     \<Rightarrow> ICard list \<times> ICard list \<times> ICard list" where
  "drawLoop sh 0 newHand newDraw newDiscard = (newHand, newDraw, newDiscard)"
| "drawLoop sh (Suc n) newHand newDraw newDiscard =
     (if newDraw = [] then
        (if newDiscard = [] then (newHand, newDraw, newDiscard)
         else
           (let newDraw = sh newDiscard in
            if newDraw \<noteq> [] then drawLoop sh n (newHand @ [last newDraw]) (butlast newDraw) []
            else drawLoop sh n newHand newDraw []))
      else drawLoop sh n (newHand @ [last newDraw]) (butlast newDraw) newDiscard)"

definition drawCards :: "(ICard list \<Rightarrow> ICard list) \<Rightarrow> jsnum \<Rightarrow> IPlayer \<Rightarrow> IPlayer" where
  "drawCards sh cnt prev =
     (if length (hand prev) \<ge> MAX_HAND_SIZE then prev
      else
        (let cardsNeeded = jmin cnt (Num (real (MAX_HAND_SIZE - length (hand prev)))) in
         if jle cardsNeeded (Num 0) then prev
         else
           (case drawLoop sh (iterations cardsNeeded) (hand prev) (drawPile prev) (discardPile prev) of
              (newHand, newDraw, newDiscard) \<Rightarrow>
                prev\<lparr> hand := newHand, drawPile := newDraw, discardPile := newDiscard \<rparr>)))"

subsection \<open>Relic triggers\<close>

text \<open>
  What \<^verbatim>\<open>processRelicTrigger\<close> decodes from the effect token of one relic when the
  trigger \<open>trigger\<close> is processed.
\<close>

record RelicDecoded =
  rTrigger :: string
  rAction :: "string option"
  rAmount :: jsnum

definition decodeRelic :: "string \<Rightarrow> string \<Rightarrow> RelicDecoded" where
  "decodeRelic trigger effect =
     (let parts = split CHR ''_'' effect;
          p = nth_opt parts
      in if hd parts \<in> set [''start'', ''end'', ''turn'', ''play'', ''shop''] then
           (if p 2 = Some ''apply''
            then \<lparr> rTrigger = hd parts @ ''_'' @ templated (p 1), rAction = p 3,
                   rAmount = parseInt (strOr (p 4) ''1'') \<rparr>
            else \<lparr> rTrigger = hd parts @ ''_'' @ templated (p 1), rAction = p 2,
                   rAmount = parseInt (strOr (p 3) ''1'') \<rparr>)
         else if trigger = ''start_combat'' then
           (if hd parts = ''apply''
            then \<lparr> rTrigger = ''start_combat'', rAction = p 1,
                   rAmount = parseInt (strOr (p 2) ''1'') \<rparr>
            else \<lparr> rTrigger = ''start_combat'', rAction = p 0,
                   rAmount = parseInt (strOr (p 1) ''1'') \<rparr>)
         else \<lparr> rTrigger = hd parts, rAction = p 1, rAmount = parseInt (strOr (p 2) ''1'') \<rparr>)"

text \<open>Whether the decoded relic passes the two tests before its action is executed.\<close>

definition relicFires :: "string \<Rightarrow> ICard option \<Rightarrow> RelicDecoded \<Rightarrow> bool" where
  "relicFires trigger contextCard d =
     (trigger = rTrigger d \<and>
      (case contextCard of
         None \<Rightarrow> True
       | Some c \<Rightarrow>
           \<not> (startsWith trigger ''play_'' \<and>
              Some (cardTypeName (card_type c)) \<noteq>
                map_option toUpperCase (nth_opt (split CHR ''_'' trigger) 1))))"

text \<open>The action of a relic that fires: one state update, chosen by the action name.\<close>

definition addStatus :: "string \<Rightarrow> jsnum \<Rightarrow> (string \<rightharpoonup> jsnum) \<Rightarrow> (string \<rightharpoonup> jsnum)" where
  "addStatus k amount st = st(k \<mapsto> jadd (orElse (st k) (Num 0)) amount)"

definition relicAction ::
  "(ICard list \<Rightarrow> ICard list) \<Rightarrow> string option \<Rightarrow> jsnum \<Rightarrow> Game \<Rightarrow> Game" where
  "relicAction sh action amount g =
     (if action = Some ''heal'' then
        setPlayer (\<lambda>p. p\<lparr> currentHp := jmin (maxHp p) (jadd (currentHp p) amount) \<rparr>) g
      else if action = Some ''block'' then
        setPlayer (\<lambda>p. p\<lparr> block := jadd (block p) amount \<rparr>) g
      else if action = Some ''damage'' then
        setEnemy (\<lambda>e. e\<lparr> currentHp := jmax (Num 0) (jsub (currentHp e) amount) \<rparr>) g
      else if action = Some ''energy'' then
        setPlayer (\<lambda>p. p\<lparr> energy := jadd (energy p) amount \<rparr>) g
      else if action = Some ''draw'' then
        setPlayer (drawCards sh amount) g
      else if action \<in> Some ` set [''strength'', ''dexterity'', ''reflect'', ''metallicize'', ''regen''] then
        setPlayer (\<lambda>p. p\<lparr> statuses := addStatus (the action) amount (statuses p) \<rparr>) g
      else if action \<in> Some ` set [''poison'', ''weak'', ''vulnerable''] then
        setEnemy (\<lambda>e. e\<lparr> statuses := addStatus (the action) amount (statuses e) \<rparr>) g
      else g)"

definition relicStep ::
  "(ICard list \<Rightarrow> ICard list) \<Rightarrow> string \<Rightarrow> ICard option \<Rightarrow> Game \<Rightarrow> IRelic \<Rightarrow> Game" where
  "relicStep sh trigger contextCard g relic =
     (if effectType relic = [] then g
      else
        (let d = decodeRelic trigger (effectType relic) in
         if relicFires trigger contextCard d then relicAction sh (rAction d) (rAmount d) g
         else g))"

definition processRelicTrigger ::
  "(ICard list \<Rightarrow> ICard list) \<Rightarrow> string \<Rightarrow> ICard option \<Rightarrow> Game \<Rightarrow> Game \<Rightarrow> Game" where
  "processRelicTrigger sh trigger contextCard cl g =
     foldl (relicStep sh trigger contextCard) g (relics (player cl))"

subsection \<open>Playing a card\<close>

record PlayerStats =
  strength :: jsnum
  dexterity :: jsnum

definition getPlayerStats :: "IPlayer \<Rightarrow> PlayerStats" where
  "getPlayerStats pl =
     \<lparr> strength = orElse (statuses pl ''strength'') (Num 0),
       dexterity = orElse (statuses pl ''dexterity'') (Num 0) \<rparr>"

text \<open>
  The damage of one hit of \<^verbatim>\<open>playCard\<close>.  It is computed from the player and the
  enemy of the render in which the card is played, once per hit and every time with
  the same result.
\<close>

definition hitDamage :: "ICard \<Rightarrow> IPlayer \<Rightarrow> IEnemy \<Rightarrow> jsnum" where
  "hitDamage c pl en =
     (let dmg = jadd (orElse (damage c) (Num 0)) (strength (getPlayerStats pl));
          dmg = (if positive (statuses en ''vulnerable'')
                 then jfloor (jmul dmg (Num 1.5)) else dmg);
          dmg = (if positive (statuses pl ''weak'')
                 then jfloor (jmul dmg (Num 0.75)) else dmg)
      in dmg)"

text \<open>The state update queued for each hit: block absorbs first, the rest reaches HP.\<close>

definition absorbHit :: "jsnum \<Rightarrow> IEnemy \<Rightarrow> IEnemy" where
  "absorbHit dmg e =
     (if jge (block e) dmg
      then e\<lparr> currentHp := jmax (Num 0) (jsub (currentHp e) (Num 0)),
               block := jsub (block e) dmg \<rparr>
      else e\<lparr> currentHp := jmax (Num 0) (jsub (currentHp e) (jsub dmg (block e))),
               block := Num 0 \<rparr>)"

text \<open>
  Step 1 of the card effects in \<^verbatim>\<open>playCard\<close>: \<open>multiHit || 1\<close> hits, for an attack
  card or a card with positive damage.  The damage is computed from the player \<open>pl\<close>
  and the enemy \<open>en\<close> of the render; the hits update the enemy \<open>e\<close> of the state.
\<close>

definition playCardDamage :: "ICard \<Rightarrow> IPlayer \<Rightarrow> IEnemy \<Rightarrow> IEnemy \<Rightarrow> IEnemy" where
  "playCardDamage c pl en e =
     (let hits = orElse (multiHit c) (Num 1) in
      if card_type c = ATTACK \<or> (case damage c of None \<Rightarrow> False
                                  | Some d \<Rightarrow> truthy d \<and> jgt d (Num 0))
      then ((absorbHit (hitDamage c pl en)) ^^ iterations hits) e
      else e)"

text \<open>Step 2: block, raised by dexterity and reduced by frail.\<close>

definition playCardBlock :: "ICard \<Rightarrow> IPlayer \<Rightarrow> IPlayer \<Rightarrow> IPlayer" where
  "playCardBlock c pl p =
     (case card_block c of
        None \<Rightarrow> p
      | Some b \<Rightarrow>
          (if truthy b \<and> jgt b (Num 0) then
             (let blk = jadd b (dexterity (getPlayerStats pl));
                  blk = (if jgt (orElse (statuses pl ''frail'') (Num 0)) (Num 0)
                         then jfloor (jmul blk (Num 0.75)) else blk)
              in p\<lparr> block := jadd (block p) blk \<rparr>)
           else p))"

text \<open>
  \<^verbatim>\<open>applyStatusEffect\<close>: the update of the status counters of the target, player or
  enemy.  The amount is read from the last part of the effect token.
\<close>

definition counterNames :: "string list" where
  "counterNames = [''poison'', ''burn'', ''strength'', ''dexterity'', ''vulnerable'', ''weak'',
                   ''frail'', ''reflect'', ''metallicize'', ''regen'']"

definition applyStatusEffect :: "string \<Rightarrow> (string \<rightharpoonup> jsnum) \<Rightarrow> (string \<rightharpoonup> jsnum)" where
  "applyStatusEffect effectString st =
     (let parts = split CHR ''_'' effectString;
          realType = (if hd parts = ''recurring'' then nth_opt parts 1 else Some (hd parts));
          amount = parseInt (strOr (nth_opt parts (length parts - 1)) ''1'')
      in if realType = Some ''freeze'' \<or> realType = Some ''stun'' then st(''freeze'' \<mapsto> Num 1)
         else if realType \<in> Some ` set counterNames
         then st(the realType \<mapsto> jadd (orElse (st (the realType)) (Num 0)) amount)
         else st)"

text \<open>Step 3: one token of the special effect of the card.\<close>

definition openFetch :: "string list \<Rightarrow> SelectionState" where
  "openFetch parts =
     (let src = nth_opt parts 1;
          flt = (case nth_opt parts 2 of
                   None \<Rightarrow> None
                 | Some f \<Rightarrow> (if f \<noteq> [] then Some (toUpperCase f) else None));
          validSource = (if src = Some ''discard'' then FromDiscard
                         else if src = Some ''exhaust'' then FromExhaust
                         else if src = Some ''deck'' then FromDeck
                         else FromDraw)
      in \<lparr> isOpen = True, source = validSource,
           type_filter = (if flt = Some ''ANY'' \<or> flt = Some ''ALL'' then None else flt),
           title = ''Choose card to hand'', onSelect = FetchToHand validSource \<rparr>)"

definition cardEffect :: "(ICard list \<Rightarrow> ICard list) \<Rightarrow> Game \<Rightarrow> string \<Rightarrow> Game" where
  "cardEffect sh g eff =
     (let parts = split CHR ''_'' eff;
          ty = hd parts;
          p = nth_opt parts
      in if ty = ''fetch'' \<or> ty = ''recover'' then g\<lparr> selection := Some (openFetch parts) \<rparr>
         else if ty \<in> set [''vulnerable'', ''weak'', ''poison'', ''burn'', ''freeze'', ''stun''] then
           setEnemy (\<lambda>e. e\<lparr> statuses := applyStatusEffect eff (statuses e) \<rparr>) g
         else if ty \<in> set [''reflect'', ''strength'', ''dexterity'', ''frail'', ''metallicize'',
                           ''regen''] then
           setPlayer (\<lambda>q. q\<lparr> statuses := applyStatusEffect eff (statuses q) \<rparr>) g
         else if ty = ''draw'' then setPlayer (drawCards sh (parseInt (strOr (p 1) ''1''))) g
         else if ty = ''energy'' then
           setPlayer (\<lambda>q. q\<lparr> energy := jadd (energy q) (parseInt (strOr (p 1) ''1'')) \<rparr>) g
         else if ty = ''heal'' \<and> \<not> includesStr eff ''lifesteal'' then
           setPlayer (\<lambda>q. q\<lparr> currentHp := jmin (maxHp q)
                                (jadd (currentHp q) (parseInt (strOr (p 1) ''1''))) \<rparr>) g
         else if ty = ''self'' \<and> p 1 = Some ''damage'' then
           setPlayer (\<lambda>q. q\<lparr> currentHp := jmax (Num 1)
                                (jsub (currentHp q) (parseInt (strOr (p 2) ''0''))) \<rparr>) g
         else if includesStr eff ''lifesteal'' then
           setPlayer (\<lambda>q. q\<lparr> currentHp := jmin (maxHp q)
                                (jadd (currentHp q) (parseInt (strOr (p 1) ''0''))) \<rparr>) g
         else g)"

text \<open>The last update of \<^verbatim>\<open>playCard\<close>: the card leaves the hand for its pile.\<close>

definition discardPlayed :: "ICard \<Rightarrow> nat \<Rightarrow> IPlayer \<Rightarrow> IPlayer" where
  "discardPlayed c index prev =
     (let newHand = take index (hand prev) @ drop (Suc index) (hand prev) in
      if exhaust c then prev\<lparr> hand := newHand, exhaustPile := exhaustPile prev @ [c] \<rparr>
      else if card_type c = POWER then prev\<lparr> hand := newHand \<rparr>
      else prev\<lparr> hand := newHand, discardPile := discardPile prev @ [c] \<rparr>)"

text \<open>The power a POWER card leaves behind; its default icon is the high-voltage sign.\<close>

definition newPower :: "ICard \<Rightarrow> IPower" where
  "newPower c =
     \<lparr> power_id = card_id c, power_name = card_name c,
       power_description = card_description c,
       power_effectType = strOr (specialEffect c) ''none'',
       power_icon = strOr (card_emoji c) [CHR 0xE2, CHR 0x9A, CHR 0xA1] \<rparr>"

definition playCard :: "(ICard list \<Rightarrow> ICard list) \<Rightarrow> ICard \<Rightarrow> nat \<Rightarrow> Game \<Rightarrow> Game \<Rightarrow> Game" where
  "playCard sh c index cl g =
     (if phase cl \<noteq> BATTLE_PLAYER_TURN then g
      else
        (let g = setPlayer (\<lambda>p. p\<lparr> energy := jsub (energy p) (cost c) \<rparr>) g;
             triggerType = (if card_type c = ATTACK then ''play_attack''
                            else if card_type c = SKILL then ''play_skill'' else ''play_power'');
             g = processRelicTrigger sh triggerType (Some c) cl g;
             g = (if card_type c = POWER
                  then setPlayer (\<lambda>p. p\<lparr> powers := powers p @ [newPower c] \<rparr>) g else g);
             g = setEnemy (playCardDamage c (player cl) (enemy cl)) g;
             g = setPlayer (playCardBlock c (player cl)) g;
             g = (case specialEffect c of
                    None \<Rightarrow> g
                  | Some s \<Rightarrow>
                      (if s = [] then g
                       else foldl (cardEffect sh) g (map trim (split CHR '','' s))))
         in setPlayer (discardPlayed c index) g))"

subsection \<open>The selection overlay\<close>

text \<open>
  A click on a card of the overlay runs the callback and closes the overlay.  The
  fetch callback removes the cards with the chosen id from the source pile (the draw
  pile when the source is the deck) and appends the chosen card to the hand.  The
  rest-site callback removes the card from the deck and goes on to the map.
\<close>

definition fetchToHand :: "PileSource \<Rightarrow> ICard \<Rightarrow> IPlayer \<Rightarrow> IPlayer" where
  "fetchToHand validSource selectedCard p =
     (let keep = filter (\<lambda>c. card_id c \<noteq> card_id selectedCard) in
      case validSource of
        FromDraw \<Rightarrow> p\<lparr> drawPile := keep (drawPile p), hand := hand p @ [selectedCard] \<rparr>
      | FromDiscard \<Rightarrow> p\<lparr> discardPile := keep (discardPile p), hand := hand p @ [selectedCard] \<rparr>
      | FromExhaust \<Rightarrow> p\<lparr> exhaustPile := keep (exhaustPile p), hand := hand p @ [selectedCard] \<rparr>
      | FromDeck \<Rightarrow> p\<lparr> drawPile := keep (drawPile p), hand := hand p @ [selectedCard] \<rparr>)"

definition selectCard :: "SelectionState \<Rightarrow> ICard \<Rightarrow> Game \<Rightarrow> Game" where
  "selectCard sel selectedCard g =
     (case onSelect sel of
        FetchToHand validSource \<Rightarrow>
          (setPlayer (fetchToHand validSource selectedCard) g)\<lparr> selection := None \<rparr>
      | RemoveFromDeck \<Rightarrow>
          (setPlayer (\<lambda>p. p\<lparr> deck := filter (\<lambda>c. card_id c \<noteq> card_id selectedCard) (deck p) \<rparr>) g)
            \<lparr> selection := None, phase := MAP_SELECTION \<rparr>)"

text \<open>The cards the overlay offers: the source pile, filtered by card type.\<close>

definition offeredCards :: "SelectionState \<Rightarrow> IPlayer \<Rightarrow> ICard list" where
  "offeredCards sel pl =
     (let pile = (case source sel of
                    FromDraw \<Rightarrow> drawPile pl
                  | FromDiscard \<Rightarrow> discardPile pl
                  | FromExhaust \<Rightarrow> exhaustPile pl
                  | FromDeck \<Rightarrow> deck pl)
      in case type_filter sel of
           None \<Rightarrow> pile
         | Some f \<Rightarrow> (if f = [] then pile else filter (\<lambda>c. cardTypeName (card_type c) = f) pile))"

subsection \<open>Powers\<close>

text \<open>
  The pattern \<^verbatim>\<open>/(?:recurring|turn_start|start_turn)_([a-zA-Z]+)(?:_(\d+))?/\<close> of
  \<^verbatim>\<open>triggerPlayerPowers\<close>, searched in a token: at the leftmost position where one
  of the three words is followed by an underscore and a letter, the action is the
  longest run of letters and the amount the digits after a further underscore, if
  there are any.
\<close>

definition isLetter :: "char \<Rightarrow> bool" where
  "isLetter c = (let n = (of_char c :: nat) in (65 \<le> n \<and> n \<le> 90) \<or> (97 \<le> n \<and> n \<le> 122))"

definition matchAfter :: "string \<Rightarrow> string \<Rightarrow> (string \<times> string option) option" where
  "matchAfter word s =
     (if startsWith s (word @ ''_'') then
        (let r = drop (length word + 1) s;
             letters = takeWhile isLetter r;
             r2 = dropWhile isLetter r;
             digits = (if r2 \<noteq> [] \<and> hd r2 = CHR ''_'' then takeWhile isDigit (tl r2) else [])
         in if letters = [] then None
            else Some (letters, if digits = [] then None else Some digits))
      else None)"

definition matchHere :: "string \<Rightarrow> (string \<times> string option) option" where
  "matchHere s =
     (case matchAfter ''recurring'' s of
        Some m \<Rightarrow> Some m
      | None \<Rightarrow>
          (case matchAfter ''turn_start'' s of
             Some m \<Rightarrow> Some m
           | None \<Rightarrow> matchAfter ''start_turn'' s))"

fun matchPower :: "string \<Rightarrow> (string \<times> string option) option" where
  "matchPower [] = matchHere []"
| "matchPower (c # cs) =
     (case matchHere (c # cs) of Some m \<Rightarrow> Some m | None \<Rightarrow> matchPower cs)"

text \<open>The totals \<^verbatim>\<open>triggerPlayerPowers\<close> accumulates over the tokens of all powers.\<close>

record PowerEffects =
  fx_energy :: jsnum
  fx_block :: jsnum
  fx_heal :: jsnum
  fx_draw :: jsnum
  fx_damage :: jsnum
  fx_poison :: jsnum
  fx_weak :: jsnum
  fx_vulnerable :: jsnum
  fx_freeze :: jsnum
  fx_burn :: jsnum

definition noEffects :: PowerEffects where
  "noEffects =
     \<lparr> fx_energy = Num 0, fx_block = Num 0, fx_heal = Num 0, fx_draw = Num 0, fx_damage = Num 0,
       fx_poison = Num 0, fx_weak = Num 0, fx_vulnerable = Num 0, fx_freeze = Num 0,
       fx_burn = Num 0 \<rparr>"

definition addOwn :: "string \<Rightarrow> jsnum \<Rightarrow> PowerEffects \<Rightarrow> PowerEffects" where
  "addOwn action amount fx =
     (if action = ''energy'' then fx\<lparr> fx_energy := jadd (fx_energy fx) amount \<rparr>
      else if action = ''block'' then fx\<lparr> fx_block := jadd (fx_block fx) amount \<rparr>
      else if action = ''heal'' then fx\<lparr> fx_heal := jadd (fx_heal fx) amount \<rparr>
      else if action = ''draw'' then fx\<lparr> fx_draw := jadd (fx_draw fx) amount \<rparr>
      else if action = ''damage'' then fx\<lparr> fx_damage := jadd (fx_damage fx) amount \<rparr>
      else if action = ''poison'' then fx\<lparr> fx_poison := jadd (fx_poison fx) amount \<rparr>
      else if action = ''weak'' then fx\<lparr> fx_weak := jadd (fx_weak fx) amount \<rparr>
      else if action = ''vulnerable'' then fx\<lparr> fx_vulnerable := jadd (fx_vulnerable fx) amount \<rparr>
      else if action = ''freeze'' then fx\<lparr> fx_freeze := jadd (fx_freeze fx) amount \<rparr>
      else if action = ''burn'' then fx\<lparr> fx_burn := jadd (fx_burn fx) amount \<rparr>
      else fx)"

definition powerToken :: "PowerEffects \<Rightarrow> string \<Rightarrow> PowerEffects" where
  "powerToken fx eff =
     (case matchPower eff of
        Some (letters, digits) \<Rightarrow>
          (let action = toLowerCase letters;
               amount = (case digits of Some ds \<Rightarrow> parseInt ds | None \<Rightarrow> Num 1);
               fx = addOwn action amount fx;
               fx = (if action = ''regen'' then fx\<lparr> fx_heal := jadd (fx_heal fx) amount \<rparr> else fx);
               fx = (if action = ''metallicize''
                     then fx\<lparr> fx_block := jadd (fx_block fx) amount \<rparr> else fx);
               fx = (if action = ''plates'' then fx\<lparr> fx_block := jadd (fx_block fx) amount \<rparr> else fx);
               fx = (if action = ''apply'' \<and> includesStr eff ''freeze''
                     then fx\<lparr> fx_freeze := Num 1 \<rparr> else fx)
           in fx)
      | None \<Rightarrow>
          (if eff = ''recurring_freeze'' \<or> eff = ''turn_start_freeze''
           then fx\<lparr> fx_freeze := Num 1 \<rparr> else fx))"

definition powerEffects :: "IPower list \<Rightarrow> PowerEffects" where
  "powerEffects pows =
     foldl (\<lambda>fx pow. foldl powerToken fx (map trim (split CHR '','' (power_effectType pow))))
       noEffects pows"

definition powersOnPlayer :: "PowerEffects \<Rightarrow> IPlayer \<Rightarrow> IPlayer" where
  "powersOnPlayer fx prev =
     (let energy1 = (if jgt (fx_energy fx) (Num 0) then jadd (energy prev) (fx_energy fx)
                     else energy prev);
          block1 = (if jgt (fx_block fx) (Num 0) then jadd (block prev) (fx_block fx)
                    else block prev);
          hp1 = (if jgt (fx_heal fx) (Num 0)
                 then jmin (maxHp prev) (jadd (currentHp prev) (fx_heal fx)) else currentHp prev)
      in prev\<lparr> energy := energy1, currentHp := hp1, block := block1 \<rparr>)"

definition powersOnEnemy :: "PowerEffects \<Rightarrow> IEnemy \<Rightarrow> IEnemy" where
  "powersOnEnemy fx prev =
     (let hp1 = (if jgt (fx_damage fx) (Num 0)
                 then jmax (Num 0) (jsub (currentHp prev) (fx_damage fx)) else currentHp prev);
          st = statuses prev;
          st = (if jgt (fx_poison fx) (Num 0) then addStatus ''poison'' (fx_poison fx) st else st);
          st = (if jgt (fx_weak fx) (Num 0) then addStatus ''weak'' (fx_weak fx) st else st);
          st = (if jgt (fx_vulnerable fx) (Num 0)
                then addStatus ''vulnerable'' (fx_vulnerable fx) st else st);
          st = (if jgt (fx_burn fx) (Num 0) then addStatus ''burn'' (fx_burn fx) st else st);
          st = (if jgt (fx_freeze fx) (Num 0) then st(''freeze'' \<mapsto> Num 1) else st)
      in prev\<lparr> currentHp := hp1, statuses := st \<rparr>)"

definition triggerPlayerPowers :: "(ICard list \<Rightarrow> ICard list) \<Rightarrow> Game \<Rightarrow> Game \<Rightarrow> Game" where
  "triggerPlayerPowers sh cl g =
     (let fx = powerEffects (powers (player cl));
          g = setPlayer (powersOnPlayer fx) g;
          g = (if jgt (fx_draw fx) (Num 0) then setPlayer (drawCards sh (fx_draw fx)) g else g)
      in if jgt (fx_damage fx) (Num 0) \<or> jgt (fx_poison fx) (Num 0) \<or> jgt (fx_weak fx) (Num 0) \<or>
            jgt (fx_vulnerable fx) (Num 0) \<or> jgt (fx_freeze fx) (Num 0) \<or> jgt (fx_burn fx) (Num 0)
         then setEnemy (powersOnEnemy fx) g
         else g)"

subsection \<open>Ending the turn\<close>

text \<open>
  \<^verbatim>\<open>endTurn\<close> up to its timers: the enemy's turn begins, ethereal cards leave the
  hand for the exhaust pile, and poison and burn hurt the enemy.
\<close>

definition exhaustEthereal :: "IPlayer \<Rightarrow> IPlayer" where
  "exhaustEthereal prev =
     prev\<lparr> hand := filter (\<lambda>c. \<not> ethereal c) (hand prev),
           exhaustPile := exhaustPile prev @ filter ethereal (hand prev) \<rparr>"

definition poisonTick :: "IEnemy \<Rightarrow> IEnemy" where
  "poisonTick e =
     (let poison = orElse (statuses e ''poison'') (Num 0);
          burn = orElse (statuses e ''burn'') (Num 0);
          hp = currentHp e;
          hp = (if jgt poison (Num 0) then jsub hp poison else hp);
          hp = (if jgt burn (Num 0) then jsub hp burn else hp)
      in e\<lparr> currentHp := jmax (Num 0) hp \<rparr>)"

definition endTurn :: "Game \<Rightarrow> Game" where
  "endTurn g = setEnemy poisonTick (setPlayer exhaustEthereal (g\<lparr> phase := BATTLE_ENEMY_TURN \<rparr>))"

text \<open>The timers of \<^verbatim>\<open>endTurn\<close> are set unless the enemy of the render is dead.\<close>

definition endTurnSetsTimers :: "Game \<Rightarrow> bool" where
  "endTurnSetsTimers cl = (\<not> jle (currentHp (enemy cl)) (Num 0))"

text \<open>
  The first timer, the enemy's move.  A frozen enemy thaws.  Otherwise the attack
  updates the player, and inside that update the reflected damage updates the enemy.
  The function returns the state and whether the player died, in which case a
  further timer sets the phase to \<^verbatim>\<open>BATTLE_LOSS\<close>.
\<close>

definition enemyAttack :: "Game \<Rightarrow> Game \<Rightarrow> Game" where
  "enemyAttack cl g =
     (let p = player g;
          dmg = nextMoveDamage (enemy cl);
          dmg = (if jgt (orElse (statuses (enemy cl) ''weak'') (Num 0)) (Num 0)
                 then jfloor (jmul dmg (Num 0.75)) else dmg);
          dmg = (if jgt (orElse (statuses p ''vulnerable'') (Num 0)) (Num 0)
                 then jfloor (jmul dmg (Num 1.5)) else dmg);
          absorbed = jge (block p) dmg;
          newBlock = (if absorbed then jsub (block p) dmg else Num 0);
          dmg = (if absorbed then Num 0 else jsub dmg (block p));
          reflectDmg = orElse (statuses p ''reflect'') (Num 0);
          g = (if jgt reflectDmg (Num 0) \<and> jge dmg (Num 0)
               then setEnemy (\<lambda>e. e\<lparr> currentHp := jmax (Num 0) (jsub (currentHp e) reflectDmg) \<rparr>) g
               else g);
          newHp = jmax (Num 0) (jsub (currentHp p) dmg)
      in setPlayer (\<lambda>q. q\<lparr> currentHp := newHp, block := newBlock \<rparr>) g)"

definition enemyTurnTimer :: "Game \<Rightarrow> Game \<Rightarrow> Game" where
  "enemyTurnTimer cl g =
     (if jgt (orElse (statuses (enemy cl) ''freeze'') (Num 0)) (Num 0)
      then setEnemy (\<lambda>e. e\<lparr> statuses := (statuses e)(''freeze'' \<mapsto> Num 0) \<rparr>) g
      else enemyAttack cl g)"

definition lossTimer :: "Game \<Rightarrow> Game" where
  "lossTimer g = g\<lparr> phase := BATTLE_LOSS \<rparr>"

text \<open>
  The second timer, the start of the next turn.  \<^verbatim>\<open>if (s[k]) s[k]--\<close> lowers a
  counter that is present and truthy.
\<close>

definition decrement :: "string \<Rightarrow> (string \<rightharpoonup> jsnum) \<Rightarrow> (string \<rightharpoonup> jsnum)" where
  "decrement k s =
     (case s k of
        None \<Rightarrow> s
      | Some v \<Rightarrow> (if truthy v then s(k \<mapsto> jsub v (Num 1)) else s))"

definition playerTurnReset :: "IPlayer \<Rightarrow> IPlayer" where
  "playerTurnReset p =
     p\<lparr> energy := maxEnergy p, block := Num 0,
        statuses := decrement ''frail'' (decrement ''weak'' (decrement ''vulnerable'' (statuses p))) \<rparr>"

definition enemyTurnReset :: "IEnemy \<Rightarrow> IEnemy" where
  "enemyTurnReset e =
     e\<lparr> statuses := decrement ''weak'' (decrement ''vulnerable'' (decrement ''poison'' (statuses e))) \<rparr>"

text \<open>The argument \<open>rnd\<close> is the value of \<^verbatim>\<open>Math.random()\<close>.\<close>

definition turnStartTimer :: "(ICard list \<Rightarrow> ICard list) \<Rightarrow> jsnum \<Rightarrow> Game \<Rightarrow> Game \<Rightarrow> Game" where
  "turnStartTimer sh rnd cl g =
     (if jgt (currentHp (player cl)) (Num 0) then
        (let g = setPlayer playerTurnReset g;
             g = setEnemy enemyTurnReset g;
             g = triggerPlayerPowers sh cl g;
             g = processRelicTrigger sh ''turn_start'' None cl g;
             g = setPlayer (drawCards sh CARDS_PER_TURN) g;
             nextDmg = jadd (jadd (Num 5) (jfloor (jmul (game_level cl) (Num 1.5))))
                            (jfloor (jmul rnd (Num 4)));
             g = setEnemy (\<lambda>e. e\<lparr> nextMoveDamage := nextDmg, block := Num 0 \<rparr>) g
         in g\<lparr> phase := BATTLE_PLAYER_TURN \<rparr>)
      else g)"

subsection \<open>Starting and winning a battle\<close>

text \<open>
  \<^verbatim>\<open>selectPath\<close> with \<^verbatim>\<open>startBattle\<close>, up to the timer and without the content
  requests, whose results arrive in other state variables.  The emoji of the three
  kinds of enemy are the alien monster, the shield and the ogre.
\<close>

definition battleEnemy :: "MapNode \<Rightarrow> IEnemy" where
  "battleEnemy node =
     (let enemyHp = jadd (Num 20) (jmul (node_level node) (Num 8));
          dmg = jadd (Num 5) (jfloor (jmul (node_level node) (Num 1.2)));
          enemyHp = (if node_type node = ELITE then jfloor (jmul enemyHp (Num 1.8))
                     else if node_type node = BOSS then jfloor (jmul enemyHp (Num 3))
                     else enemyHp);
          dmg = (if node_type node = ELITE then jfloor (jmul dmg (Num 1.5))
                 else if node_type node = BOSS then jfloor (jmul dmg (Num 1.8))
                 else dmg)
      in \<lparr> maxHp = enemyHp, currentHp = enemyHp, block = Num 0, statuses = Map.empty,
           enemy_name = (if node_type node = ELITE then ''Elite Sentry''
                         else if node_type node = BOSS then ''Level Boss'' else ''Wanderer''),
           intent = ''Attack'', nextMoveDamage = dmg,
           isElite = (node_type node = ELITE), isBoss = (node_type node = BOSS),
           enemy_emoji = Some (if node_type node = ELITE
                               then [CHR 0xF0, CHR 0x9F, CHR 0x9B, CHR 0xA1, CHR 0xEF, CHR 0xB8, CHR 0x8F]
                               else if node_type node = BOSS then [CHR 0xF0, CHR 0x9F, CHR 0x91, CHR 0xB9]
                               else [CHR 0xF0, CHR 0x9F, CHR 0x91, CHR 0xBE]) \<rparr>)"

definition battlePlayer :: "(ICard list \<Rightarrow> ICard list) \<Rightarrow> IPlayer \<Rightarrow> IPlayer" where
  "battlePlayer sh prev =
     (let deckShuffled = sh (deck prev) in
      prev\<lparr> block := Num 0, energy := maxEnergy prev, hand := [], discardPile := [],
            exhaustPile := [],
            drawPile := filter (\<lambda>c. \<not> innate c) deckShuffled @ filter innate deckShuffled,
            powers := [], statuses := Map.empty \<rparr>)"

definition startBattle :: "(ICard list \<Rightarrow> ICard list) \<Rightarrow> MapNode \<Rightarrow> Game \<Rightarrow> Game" where
  "startBattle sh node g =
     (setPlayer (battlePlayer sh) (setEnemy (\<lambda>e. battleEnemy node) g))
       \<lparr> phase := BATTLE_PLAYER_TURN \<rparr>"

definition selectPath :: "(ICard list \<Rightarrow> ICard list) \<Rightarrow> MapNode \<Rightarrow> Game \<Rightarrow> Game" where
  "selectPath sh node g =
     (let g = g\<lparr> game_level := node_level node, currentRoom := Some (node_type node) \<rparr> in
      if node_type node = SHOP then g\<lparr> phase := SHOP_PHASE \<rparr>
      else if node_type node = REST then g\<lparr> phase := REST_PHASE \<rparr>
      else startBattle sh node g)"

definition startBattleTimer :: "(ICard list \<Rightarrow> ICard list) \<Rightarrow> Game \<Rightarrow> Game \<Rightarrow> Game" where
  "startBattleTimer sh cl g =
     setPlayer (drawCards sh INITIAL_HAND_SIZE) (processRelicTrigger sh ''start_combat'' None cl g)"

text \<open>The effect that checks for a win after a render \<open>cl\<close> in a battle phase.\<close>

definition checkWin :: "(ICard list \<Rightarrow> ICard list) \<Rightarrow> jsnum \<Rightarrow> Game \<Rightarrow> Game \<Rightarrow> Game" where
  "checkWin sh rnd cl g =
     (if (phase cl = BATTLE_PLAYER_TURN \<or> phase cl = BATTLE_ENEMY_TURN) \<and>
         jle (currentHp (enemy cl)) (Num 0)
      then
        (let g = processRelicTrigger sh ''end_combat'' None cl g;
             goldReward = jadd (jadd (jadd (Num 15) (jfloor (jmul rnd (Num 15))))
                                     (if currentRoom cl = Some ELITE then Num 30 else Num 0))
                               (if currentRoom cl = Some BOSS then Num 100 else Num 0);
             g = setPlayer (\<lambda>p. p\<lparr> gold := jadd (gold p) goldReward \<rparr>) g
         in g\<lparr> phase := BATTLE_WIN \<rparr>)
      else g)"

section \<open>AI Spire: content service (services/geminiService.ts)\<close>

subsection \<open>Shop rarity\<close>

















subsection \<open>Validation and sanitization helpers\<close>

definition clampNumber :: "json option \<Rightarrow> real \<Rightarrow> real \<Rightarrow> real \<Rightarrow> jsnum" where
  "clampNumber v lo hi fallback =
     (case toNumber v of
        NaN \<Rightarrow> Num fallback
      | Num n \<Rightarrow> Num (min hi (max lo n)))"

definition ALLOWED_FETCH_SOURCES :: "string list" where
  "ALLOWED_FETCH_SOURCES = [''draw'', ''discard'', ''exhaust'', ''deck'']"

definition ALLOWED_FETCH_FILTERS :: "string list" where
  "ALLOWED_FETCH_FILTERS = [''ATTACK'', ''SKILL'', ''POWER'', ''ANY'', ''ALL'']"

definition ALLOWED_ENEMY_STATUS :: "string list" where
  "ALLOWED_ENEMY_STATUS = [''poison'', ''burn'', ''freeze'', ''stun'', ''weak'', ''vulnerable'']"

definition ALLOWED_PLAYER_STATUS :: "string list" where
  "ALLOWED_PLAYER_STATUS =
     [''strength'', ''dexterity'', ''frail'', ''reflect'', ''metallicize'', ''regen'']"

definition ALLOWED_RECURRING_ACTIONS :: "string list" where
  "ALLOWED_RECURRING_ACTIONS =
     [''energy'', ''block'', ''heal'', ''draw'', ''damage'', ''poison'', ''weak'', ''vulnerable'',
      ''freeze'', ''burn'', ''regen'', ''metallicize'', ''plates'']"

definition ALLOWED_RELIC_TRIGGERS :: "string list" where
  "ALLOWED_RELIC_TRIGGERS =
     [''start_combat'', ''end_combat'', ''turn_start'', ''play_attack'', ''play_skill'',
      ''play_power'', ''shop_enter'']"

definition ALLOWED_RELIC_ACTIONS :: "string list" where
  "ALLOWED_RELIC_ACTIONS =
     [''heal'', ''damage'', ''block'', ''energy'', ''draw'', ''strength'', ''dexterity'',
      ''max_hp'', ''apply'']"

definition ALLOWED_RELIC_APPLY :: "string list" where
  "ALLOWED_RELIC_APPLY = [''poison'', ''weak'', ''vulnerable'']"

text \<open>\<^verbatim>\<open>set.has(x)\<close> for a possibly undefined \<open>x\<close>.\<close>

fun has :: "string list \<Rightarrow> string option \<Rightarrow> bool" where
  "has xs None = False"
| "has xs (Some x) = (x \<in> set xs)"

text \<open>\<^verbatim>\<open>parts[i] ?? d\<close>, as the argument of \<^verbatim>\<open>clampNumber\<close>.\<close>

definition partOr :: "string list \<Rightarrow> nat \<Rightarrow> real \<Rightarrow> json option" where
  "partOr parts i d =
     (case nth_opt parts i of None \<Rightarrow> Some (JNum (Num d)) | Some p \<Rightarrow> Some (JStr p))"

definition sanitizeEffectToken :: "string \<Rightarrow> string option" where
  "sanitizeEffectToken raw =
     (let effect = toLowerCase (trim raw) in
      if effect = [] then None
      else
        (let parts = filter (\<lambda>p. p \<noteq> []) (map trim (split CHR ''_'' effect)) in
         if parts = [] then None
         else
           (let head = hd parts in
            if head = ''fetch'' \<or> head = ''recover'' then
              (let source = nth_opt parts 1 in
               if \<not> has ALLOWED_FETCH_SOURCES source then None
               else
                 (let filterRaw = toUpperCase (case nth_opt parts 2 of None \<Rightarrow> [] | Some f \<Rightarrow> f) in
                  if filterRaw \<in> set ALLOWED_FETCH_FILTERS
                  then Some (head @ ''_'' @ the source @ ''_'' @ filterRaw)
                  else Some (head @ ''_'' @ the source)))
            else if head \<in> set ALLOWED_ENEMY_STATUS \<or> head \<in> set ALLOWED_PLAYER_STATUS then
              Some (head @ ''_'' @ showNum (clampNumber (partOr parts 1 1) 1 50 1))
            else if head = ''draw'' \<or> head = ''energy'' \<or> head = ''heal'' \<or> head = ''lifesteal'' then
              Some (head @ ''_'' @ showNum (clampNumber (partOr parts 1 0) 0 50 0))
            else if head = ''self'' \<and> nth_opt parts 1 = Some ''damage'' then
              Some (''self_damage_'' @ showNum (clampNumber (partOr parts 2 0) 0 30 0))
            else if head = ''recurring'' \<or> head = ''turn_start'' \<or> head = ''start_turn'' then
              (let action = nth_opt parts 1 in
               if \<not> has ALLOWED_RECURRING_ACTIONS action then None
               else Some (head @ ''_'' @ the action @ ''_'' @
                          showNum (clampNumber (partOr parts 2 1) 1 50 1)))
            else None)))"

definition sanitizeSpecialEffect :: "json option \<Rightarrow> string option" where
  "sanitizeSpecialEffect raw =
     (case raw of
        Some (JStr s) \<Rightarrow>
          (let sanitized = filter (\<lambda>t. t \<noteq> [])
                 (map the (filter (\<lambda>t. t \<noteq> None) (map sanitizeEffectToken (split CHR '','' s))))
           in if sanitized \<noteq> [] then Some (join '','' sanitized) else None)
      | _ \<Rightarrow> None)"

definition normalizeCardType :: "json option \<Rightarrow> CardType option" where
  "normalizeCardType v =
     (case v of
        Some (JStr s) \<Rightarrow>
          (let u = toUpperCase s in
           if u = ''ATTACK'' then Some ATTACK
           else if u = ''SKILL'' then Some SKILL
           else if u = ''POWER'' then Some POWER
           else None)
      | _ \<Rightarrow> None)"

definition normalizeCardRarity :: "json option \<Rightarrow> CardRarity option" where
  "normalizeCardRarity v =
     (case v of
        Some (JStr s) \<Rightarrow>
          (let u = toUpperCase s in
           if u = ''COMMON'' then Some COMMON
           else if u = ''RARE'' then Some RARE
           else if u = ''LEGENDARY'' then Some LEGENDARY
           else None)
      | _ \<Rightarrow> None)"

text \<open>The default emoji is the playing-card joker, in UTF-8.\<close>

definition jokerEmoji :: string where
  "jokerEmoji = [CHR 0xF0, CHR 0x9F, CHR 0x83, CHR 0x8F]"

definition sanitizeEmoji :: "json option \<Rightarrow> string" where
  "sanitizeEmoji v =
     (case v of
        Some (JStr s) \<Rightarrow> (if trim s \<noteq> [] then trim s else jokerEmoji)
      | _ \<Rightarrow> jokerEmoji)"

text \<open>\<^verbatim>\<open>raw?.k\<close>: the property of an object, undefined on anything else.\<close>

fun field :: "json option \<Rightarrow> string \<Rightarrow> json option" where
  "field None k = None"
| "field (Some v) k = getProp v k"

text \<open>
  \<^verbatim>\<open>sanitizeCard\<close>.  The argument \<open>rnd\<close> is the value \<^verbatim>\<open>Math.random()\<close> returns
  when the card has no usable id.
\<close>

definition sanitizeCard :: "jsnum \<Rightarrow> json option \<Rightarrow> ICard option" where
  "sanitizeCard rnd raw =
     (case (normalizeCardType (field raw ''type''), normalizeCardRarity (field raw ''rarity'')) of
        (Some ty, Some ra) \<Rightarrow>
          Some \<lparr>
            card_id = (case field raw ''id'' of
                         Some (JStr s) \<Rightarrow> (if s \<noteq> [] then s else ''card-'' @ showNum rnd)
                       | _ \<Rightarrow> ''card-'' @ showNum rnd),
            card_name = (case field raw ''name'' of
                           Some (JStr s) \<Rightarrow> (if trim s \<noteq> [] then take 80 (trim s)
                                            else ''Unnamed Card'')
                         | _ \<Rightarrow> ''Unnamed Card''),
            card_type = ty,
            card_rarity = ra,
            cost = clampNumber (field raw ''cost'') 0 3 1,
            damage = (if field raw ''damage'' \<noteq> None
                      then Some (clampNumber (field raw ''damage'') 0 50 0) else None),
            card_block = (if field raw ''block'' \<noteq> None
                          then Some (clampNumber (field raw ''block'') 0 50 0) else None),
            card_description = (case field raw ''description'' of
                                  Some (JStr s) \<Rightarrow> (if trim s \<noteq> [] then trim s
                                                   else ''No description.'')
                                | _ \<Rightarrow> ''No description.''),
            specialEffect = sanitizeSpecialEffect (field raw ''specialEffect''),
            card_emoji = Some (sanitizeEmoji (field raw ''emoji'')),
            card_price = (if field raw ''price'' \<noteq> None
                          then Some (clampNumber (field raw ''price'') 0 999 0) else None),
            exhaust = toBoolean (field raw ''exhaust''),
            ethereal = toBoolean (field raw ''ethereal''),
            innate = toBoolean (field raw ''innate''),
            retain = toBoolean (field raw ''retain''),
            multiHit = (if field raw ''multiHit'' \<noteq> None
                        then Some (clampNumber (field raw ''multiHit'') 1 5 1) else None) \<rparr>
      | _ \<Rightarrow> None)"

text \<open>
  \<^verbatim>\<open>sanitizeCards\<close>: the cards that survive, in order.  \<open>rnd i\<close> is the random
  number drawn for the card at index \<open>i\<close>.
\<close>

definition sanitizeCards :: "(nat \<Rightarrow> jsnum) \<Rightarrow> json list \<Rightarrow> ICard list" where
  "sanitizeCards rnd rawCards =
     map the (filter (\<lambda>c. c \<noteq> None)
       (map (\<lambda>(i, raw). sanitizeCard (rnd i) (Some raw)) (enumerate 0 rawCards)))"

subsection \<open>Mock content\<close>

text \<open>
  \<^verbatim>\<open>mockGenerateCards\<close>, with the value of \<^verbatim>\<open>Date.now()\<close> as an argument.  The
  three emoji are the snake, the telescope and the fire, in UTF-8.
\<close>

definition mockGenerateCards :: "jsnum \<Rightarrow> jsnum \<Rightarrow> ICard list" where
  "mockGenerateCards level now =
     [ \<lparr> card_id = ''mock-1-'' @ showNum now, card_name = ''Venom Strike'',
         card_type = ATTACK, card_rarity = COMMON, cost = Num 1,
         damage = Some (jadd (Num 4) level), card_block = None,
         card_description = ''Deal '' @ showNum (jadd (Num 4) level) @ '' dmg. Apply 4 Poison.'',
         specialEffect = Some ''poison_4'',
         card_emoji = Some [CHR 0xF0, CHR 0x9F, CHR 0x90, CHR 0x8D], card_price = None,
         exhaust = False, ethereal = False, innate = False, retain = False,
         multiHit = None \<rparr>,
       \<lparr> card_id = ''mock-2-'' @ showNum now, card_name = ''Seeker'',
         card_type = SKILL, card_rarity = RARE, cost = Num 0,
         damage = None, card_block = None,
         card_description = ''Put an Attack from your draw pile into your hand.'',
         specialEffect = Some ''fetch_draw_attack'',
         card_emoji = Some [CHR 0xF0, CHR 0x9F, CHR 0x94, CHR 0xAD], card_price = None,
         exhaust = True, ethereal = False, innate = False, retain = False,
         multiHit = None \<rparr>,
       \<lparr> card_id = ''mock-3-'' @ showNum now, card_name = ''Combustion'',
         card_type = POWER, card_rarity = RARE, cost = Num 1,
         damage = None, card_block = None,
         card_description = ''Apply 5 Burn.'',
         specialEffect = Some ''burn_5'',
         card_emoji = Some [CHR 0xF0, CHR 0x9F, CHR 0x94, CHR 0xA5], card_price = None,
         exhaust = False, ethereal = False, innate = False, retain = False,
         multiHit = None \<rparr> ]"

subsection \<open>Reward cards\<close>

text \<open>
  The own properties an object spread \<^verbatim>\<open>{...c}\<close> copies from a parsed value: the
  properties of an object, the elements of an array and the characters of a string
  under their indices, nothing from the rest.  In \<^verbatim>\<open>{id: g, ...c}\<close> a property
  \<^verbatim>\<open>id\<close> of \<open>c\<close> replaces the generated one, so the generated one comes last in
  the list.
\<close>

fun spread :: "json \<Rightarrow> (string \<times> json) list" where
  "spread (JObj ps) = ps"
| "spread (JArr xs) = map (\<lambda>(i, x). (showNat i, x)) (enumerate 0 xs)"
| "spread (JStr s) = map (\<lambda>(i, c). (showNat i, JStr [c])) (enumerate 0 s)"
| "spread _ = []"

text \<open>
  \<^verbatim>\<open>generateRewardCards\<close>.  Its inputs besides the level: the API key read from the
  environment, the clock, the random id suffix \<open>gen i\<close> and the random number
  \<open>rnd i\<close> drawn for the card at index \<open>i\<close>, and the outcome of the model call.
  A parsed value that is not an array has no \<^verbatim>\<open>map\<close> method: the call throws a
  type error, which the outer handler catches.
\<close>

definition withGeneratedIds :: "jsnum \<Rightarrow> (nat \<Rightarrow> string) \<Rightarrow> json list \<Rightarrow> json list" where
  "withGeneratedIds level gen cs =
     map (\<lambda>(i, c). JObj (spread c @ [(''id'', JStr (''gen-'' @ showNum level @ ''-'' @ gen i))]))
       (enumerate 0 cs)"

definition generateRewardCards ::
  "string \<Rightarrow> jsnum \<Rightarrow> jsnum \<Rightarrow> (nat \<Rightarrow> string) \<Rightarrow> (nat \<Rightarrow> jsnum) \<Rightarrow> responseText attempt
     \<Rightarrow> ICard list" where
  "generateRewardCards apiKey level now gen rnd call =
     (if apiKey = [] then mockGenerateCards level now
      else
        (case call of
           Throws err \<Rightarrow> mockGenerateCards level now
         | Returns response \<Rightarrow>
             (let rawCards = (case response of
                                NoText \<Rightarrow> JArr []
                              | Malformed err \<Rightarrow> JArr []
                              | Parsed v \<Rightarrow> v)
              in case rawCards of
                   JArr cs \<Rightarrow>
                     (let sanitized = sanitizeCards rnd (withGeneratedIds level gen cs)
                      in if sanitized \<noteq> [] then sanitized else mockGenerateCards level now)
                 | _ \<Rightarrow> mockGenerateCards level now)))"

subsection \<open>Relics\<close>

definition sanitizeRelicEffectType :: "json option \<Rightarrow> string option" where
  "sanitizeRelicEffectType raw =
     (case raw of
        Some (JStr s) \<Rightarrow>
          (if trim s = [] then None
           else
             (let parts = filter (\<lambda>p. p \<noteq> []) (map trim (split CHR ''_'' (toLowerCase s))) in
              if parts = [] then None
              else
                (let two = (length parts \<ge> 2 \<and>
                            (parts ! 0 @ ''_'' @ parts ! 1) \<in> set ALLOWED_RELIC_TRIGGERS);
                     one = (\<not> two \<and> parts ! 0 \<in> set ALLOWED_RELIC_TRIGGERS);
                     trigger = (if two then parts ! 0 @ ''_'' @ parts ! 1
                                else if one then parts ! 0 else ''start_combat'');
                     index = (if two then 2 else if one then 1 else 0)
                 in case nth_opt parts index of
                      None \<Rightarrow> None
                    | Some action \<Rightarrow>
                        (if action = ''apply'' then
                           (if \<not> has ALLOWED_RELIC_APPLY (nth_opt parts (index + 1)) then None
                            else Some (trigger @ ''_apply_'' @ the (nth_opt parts (index + 1)) @ ''_'' @
                                       showNum (clampNumber (partOr parts (index + 2) 1) 1 50 1)))
                         else if action = ''max'' \<and> nth_opt parts (index + 1) = Some ''hp'' then
                           Some (''max_hp_'' @ showNum (clampNumber (partOr parts (index + 2) 5) 1 50 5))
                         else if action \<notin> set ALLOWED_RELIC_ACTIONS then None
                         else Some (trigger @ ''_'' @ action @ ''_'' @
                                    showNum (clampNumber (partOr parts (index + 1) 1) 1 50 1))))))
      | _ \<Rightarrow> None)"

definition sanitizeRelic :: "jsnum \<Rightarrow> json option \<Rightarrow> IRelic option" where
  "sanitizeRelic rnd raw =
     (case sanitizeRelicEffectType (field raw ''effectType'') of
        None \<Rightarrow> None
      | Some eff \<Rightarrow>
          Some \<lparr>
            relic_id = (case field raw ''id'' of
                          Some (JStr s) \<Rightarrow> (if s \<noteq> [] then s else ''relic-'' @ showNum rnd)
                        | _ \<Rightarrow> ''relic-'' @ showNum rnd),
            relic_name = (case field raw ''name'' of
                            Some (JStr s) \<Rightarrow> (if trim s \<noteq> [] then take 80 (trim s)
                                             else ''Mystery Relic'')
                          | _ \<Rightarrow> ''Mystery Relic''),
            relic_description = (case field raw ''description'' of
                                   Some (JStr s) \<Rightarrow> (if trim s \<noteq> [] then trim s
                                                    else ''No description.'')
                                 | _ \<Rightarrow> ''No description.''),
            effectType = eff,
            relic_emoji = sanitizeEmoji (field raw ''emoji''),
            relic_price = (if field raw ''price'' \<noteq> None
                           then Some (clampNumber (field raw ''price'') 0 2000 0) else None) \<rparr>)"

text \<open>The two mock relics; their emoji are the drop of blood and the anchor.\<close>

definition mockGenerateRelic :: "jsnum \<Rightarrow> IRelic" where
  "mockGenerateRelic now =
     \<lparr> relic_id = ''mock-r-'' @ showNum now, relic_name = ''Burning Blood'',
       relic_description = ''Heal 6 HP at the end of combat.'',
       effectType = ''end_combat_heal_6'',
       relic_emoji = [CHR 0xF0, CHR 0x9F, CHR 0xA9, CHR 0xB8], relic_price = None \<rparr>"

definition mockAnchor :: IRelic where
  "mockAnchor =
     \<lparr> relic_id = ''r2'', relic_name = ''Anchor'',
       relic_description = ''Start combat with 10 Block.'',
       effectType = ''start_combat_block_10'',
       relic_emoji = [CHR 0xE2, CHR 0x9A, CHR 0x93], relic_price = Some (Num 150) \<rparr>"

subsection \<open>The content that can enter a game\<close>

text \<open>
  A card enters the deck from the starting deck, or from the content service: the
  reward, wish and shop generators return cards that went through
  \<^verbatim>\<open>sanitizeCard\<close>, or mock cards, which the mock shop relabels with a rolled rarity
  and a price.  A relic comes from the shop or an elite battle: it went through
  \<^verbatim>\<open>sanitizeRelic\<close> or is one of the two mock relics.
\<close>

inductive contentCard :: "ICard \<Rightarrow> bool" where
  starting: "c \<in> set getInitialDeck \<Longrightarrow> contentCard c"
| sanitized: "sanitizeCard rnd raw = Some c \<Longrightarrow> contentCard c"
| mock: "c \<in> set (mockGenerateCards lvl now) \<Longrightarrow> contentCard c"
| mock_shop: "c \<in> set (mockGenerateCards lvl now) \<Longrightarrow>
              contentCard (c\<lparr> card_rarity := r, card_price := Some pr \<rparr>)"

inductive contentRelic :: "IRelic \<Rightarrow> bool" where
  sanitized_relic: "sanitizeRelic rnd raw = Some r \<Longrightarrow> contentRelic r"
| mock_relic: "contentRelic (mockGenerateRelic now)"
| mock_anchor: "contentRelic mockAnchor"

section \<open>AI Spire: shop, rest site and rewards (App.tsx)\<close>

definition applyRelicPickupEffect :: "IRelic \<Rightarrow> Game \<Rightarrow> Game" where
  "applyRelicPickupEffect relic g =
     (if includesStr (effectType relic) ''max_hp'' then
        (let parts = split CHR ''_'' (effectType relic);
             amount = parseInt (strOr (nth_opt parts (length parts - 1)) ''0'')
         in setPlayer (\<lambda>p. p\<lparr> maxHp := jadd (maxHp p) amount,
                               currentHp := jadd (currentHp p) amount \<rparr>) g)
      else g)"

definition buyCard :: "ICard \<Rightarrow> Game \<Rightarrow> Game \<Rightarrow> Game" where
  "buyCard c cl g =
     (if jge (gold (player cl)) (orElse (card_price c) (Num 999))
      then setPlayer (\<lambda>p. p\<lparr> gold := jsub (gold p) (orElse (card_price c) (Num 0)),
                            deck := deck p @ [c] \<rparr>) g
      else g)"

definition buyRelic :: "IRelic \<Rightarrow> Game \<Rightarrow> Game \<Rightarrow> Game" where
  "buyRelic relic cl g =
     (if jge (gold (player cl)) (orElse (relic_price relic) (Num 999))
      then applyRelicPickupEffect relic
             (setPlayer (\<lambda>p. p\<lparr> gold := jsub (gold p) (orElse (relic_price relic) (Num 0)),
                                 relics := relics p @ [relic] \<rparr>) g)
      else g)"

definition collectRelic :: "IRelic \<Rightarrow> Game \<Rightarrow> Game" where
  "collectRelic relic g =
     applyRelicPickupEffect relic (setPlayer (\<lambda>p. p\<lparr> relics := relics p @ [relic] \<rparr>) g)"

definition takeReward :: "ICard \<Rightarrow> Game \<Rightarrow> Game" where
  "takeReward c g = (setPlayer (\<lambda>p. p\<lparr> deck := deck p @ [c] \<rparr>) g)\<lparr> phase := MAP_SELECTION \<rparr>"

definition restHeal :: "Game \<Rightarrow> Game" where
  "restHeal g =
     (setPlayer (\<lambda>p. p\<lparr> currentHp := jmin (maxHp p)
                         (jadd (currentHp p) (jfloor (jmul (maxHp p) (Num 0.3)))) \<rparr>) g)
       \<lparr> phase := MAP_SELECTION \<rparr>"

definition restRemove :: "Game \<Rightarrow> Game" where
  "restRemove g =
     g\<lparr> selection := Some \<lparr> isOpen = True, source = FromDeck, type_filter = None,
                            title = ''Choose card to Remove'', onSelect = RemoveFromDeck \<rparr> \<rparr>"

definition startAscension :: "Game \<Rightarrow> Game" where
  "startAscension g = g\<lparr> player := initialPlayer, phase := MAP_SELECTION \<rparr>"

text \<open>While the menu is shown, the draw pile is a shuffle of the deck.\<close>

definition menuShuffle :: "(ICard list \<Rightarrow> ICard list) \<Rightarrow> Game \<Rightarrow> Game" where
  "menuShuffle sh g =
     (if phase g = MENU then setPlayer (\<lambda>p. p\<lparr> drawPile := sh (deck p) \<rparr>) g else g)"

section \<open>AI Spire: the states a game can reach\<close>

text \<open>
  A shuffle permutes its argument.  The reachable states start from the mounted
  component; each rule is one handler, timer or effect of the component, run on a
  reachable state \<open>g\<close> with the closure of a reachable render \<open>cl\<close>.  A card that is
  played lies in the hand of the render; a card chosen in the overlay is one the
  overlay offers; cards and relics are acquired from the content service.  The
  rules do not constrain when a timer fires.
\<close>

definition isShuffle :: "(ICard list \<Rightarrow> ICard list) \<Rightarrow> bool" where
  "isShuffle sh = (\<forall>xs. mset (sh xs) = mset xs)"

inductive reachable :: "Game \<Rightarrow> bool" where
  mounted: "reachable initialGame"
| menu: "reachable g \<Longrightarrow> isShuffle sh \<Longrightarrow> reachable (menuShuffle sh g)"
| ascend: "reachable g \<Longrightarrow> reachable (startAscension g)"
| path: "reachable g \<Longrightarrow> isShuffle sh \<Longrightarrow> reachable (selectPath sh node g)"
| battle_timer: "reachable g \<Longrightarrow> reachable cl \<Longrightarrow> isShuffle sh \<Longrightarrow>
                 reachable (startBattleTimer sh cl g)"
| play: "reachable g \<Longrightarrow> reachable cl \<Longrightarrow> isShuffle sh \<Longrightarrow>
         nth_opt (hand (player cl)) index = Some c \<Longrightarrow> reachable (playCard sh c index cl g)"
| choose: "reachable g \<Longrightarrow> reachable cl \<Longrightarrow> selection cl = Some sel \<Longrightarrow>
           c \<in> set (offeredCards sel (player cl)) \<Longrightarrow> reachable (selectCard sel c g)"
| close_overlay: "reachable g \<Longrightarrow> reachable (g\<lparr> selection := None \<rparr>)"
| end_turn: "reachable g \<Longrightarrow> reachable (endTurn g)"
| enemy_timer: "reachable g \<Longrightarrow> reachable cl \<Longrightarrow> reachable (enemyTurnTimer cl g)"
| loss_timer: "reachable g \<Longrightarrow> reachable (lossTimer g)"
| turn_timer: "reachable g \<Longrightarrow> reachable cl \<Longrightarrow> isShuffle sh \<Longrightarrow>
               reachable (turnStartTimer sh rnd cl g)"
| win: "reachable g \<Longrightarrow> reachable cl \<Longrightarrow> isShuffle sh \<Longrightarrow> reachable (checkWin sh rnd cl g)"
| rewards: "reachable g \<Longrightarrow> reachable (g\<lparr> phase := REWARD \<rparr>)"
| to_map: "reachable g \<Longrightarrow> reachable (g\<lparr> phase := MAP_SELECTION \<rparr>)"
| reward: "reachable g \<Longrightarrow> contentCard c \<Longrightarrow> reachable (takeReward c g)"
| elite_relic: "reachable g \<Longrightarrow> contentRelic r \<Longrightarrow> reachable (collectRelic r g)"
| buy_card: "reachable g \<Longrightarrow> reachable cl \<Longrightarrow> contentCard c \<Longrightarrow> reachable (buyCard c cl g)"
| buy_relic: "reachable g \<Longrightarrow> reachable cl \<Longrightarrow> contentRelic r \<Longrightarrow> reachable (buyRelic r cl g)"
| rest: "reachable g \<Longrightarrow> reachable (restHeal g)"
| rest_remove: "reachable g \<Longrightarrow> reachable (restRemove g)"

section \<open>AI Spire: example content and states\<close>

text \<open>
  Three relics and a card as the content service can return them, and a battle on
  floor 3 in which the player holds that card: an attack that also fetches a card
  from the deck.
\<close>

definition vajra :: IRelic where
  "vajra =
     \<lparr> relic_id = ''shop-r-1'', relic_name = ''Vajra'',
       relic_description = ''Start combat with 1 Strength.'',
       effectType = ''start_combat_strength_1'', relic_emoji = ''*'', relic_price = Some (Num 150) \<rparr>"

definition snakeSkull :: IRelic where
  "snakeSkull =
     \<lparr> relic_id = ''shop-r-2'', relic_name = ''Snake Skull'',
       relic_description = ''Apply 3 Poison at the start of each turn.'',
       effectType = ''turn_start_apply_poison_3'', relic_emoji = ''*'',
       relic_price = Some (Num 150) \<rparr>"

definition shuriken :: IRelic where
  "shuriken =
     \<lparr> relic_id = ''elite-1'', relic_name = ''Shuriken'',
       relic_description = ''Gain 1 Strength when you play an Attack.'',
       effectType = ''play_attack_strength_1'', relic_emoji = ''*'', relic_price = None \<rparr>"

definition bagOfPreparation :: IRelic where
  "bagOfPreparation =
     \<lparr> relic_id = ''shop-r-3'', relic_name = ''Bag of Preparation'',
       relic_description = ''Draw 5 cards at the start of combat.'',
       effectType = ''start_combat_draw_5'', relic_emoji = ''*'', relic_price = Some (Num 150) \<rparr>"

definition recallStrike :: ICard where
  "recallStrike =
     \<lparr> card_id = ''wish-3-recall'', card_name = ''Recall Strike'', card_type = ATTACK,
       card_rarity = RARE, cost = Num 0, damage = Some (Num 50), card_block = None,
       card_description = ''Deal 50 damage. Return a card to your hand.'',
       specialEffect = Some ''fetch_deck'', card_emoji = Some ''*'', card_price = None,
       exhaust = False, ethereal = False, innate = False, retain = False, multiHit = None \<rparr>"

definition floor3Battle :: Game where
  "floor3Battle =
     \<lparr> phase = BATTLE_PLAYER_TURN, game_level = Num 3,
       player = initialPlayer\<lparr> deck := getInitialDeck @ [recallStrike],
                               hand := [recallStrike, createStrike ''1''],
                               drawPile := [createBash ''1''],
                               relics := [bagOfPreparation] \<rparr>,
       enemy = battleEnemy \<lparr> node_id = ''node-3'', node_type = MONSTER, node_name = ''Enemy'',
                             node_icon = ''*'', node_level = Num 3 \<rparr>,
       selection = None, currentRoom = Some MONSTER \<rparr>"

text \<open>
  The events after that render, with a shuffle that happens to keep the order: the
  card is played and kills the enemy while its fetch effect opens the overlay; the
  win is detected; the player opens the rewards, skips them and picks a monster on
  the map, where the overlay is still open; the battle's timer draws the opening
  hand; then the player clicks a card in the overlay.
\<close>

definition afterRecallStrike :: Game where
  "afterRecallStrike = playCard (\<lambda>xs. xs) recallStrike 0 floor3Battle floor3Battle"

definition afterWin :: Game where
  "afterWin = checkWin (\<lambda>xs. xs) (Num 0.5) afterRecallStrike afterRecallStrike"

definition floor4Battle :: Game where
  "floor4Battle =
     selectPath (\<lambda>xs. xs)
       \<lparr> node_id = ''node-4'', node_type = MONSTER, node_name = ''Enemy'', node_icon = ''*'',
         node_level = Num 4 \<rparr>
       (afterWin\<lparr> phase := REWARD \<rparr>\<lparr> phase := MAP_SELECTION \<rparr>)"

definition floor4OpeningHand :: Game where
  "floor4OpeningHand = startBattleTimer (\<lambda>xs. xs) floor4Battle floor4Battle"

definition afterOverlayClick :: Game where
  "afterOverlayClick =
     selectCard (the (selection floor4OpeningHand)) (createStrike ''1'') floor4OpeningHand"

text \<open>
  The first battle of a run, with a shuffle that happens to keep the order: the
  player starts the ascension and picks a monster on floor 1, the battle's timer
  draws the opening hand, and the player plays Bash, the first card of that hand.
\<close>

definition firstBattle :: Game where
  "firstBattle =
     selectPath (\<lambda>xs. xs)
       \<lparr> node_id = ''node-1'', node_type = MONSTER, node_name = ''Enemy'', node_icon = ''*'',
         node_level = Num 1 \<rparr>
       (startAscension initialGame)"

definition firstHand :: Game where
  "firstHand = startBattleTimer (\<lambda>xs. xs) firstBattle firstBattle"

definition afterBash :: Game where
  "afterBash = playCard (\<lambda>xs. xs) (createBash ''1'') 0 firstHand firstHand"

section \<open>AI Spire: what holds of every reachable state\<close>

text \<open>
  A counter is well formed when it is a natural number, in particular not negative
  and not \<open>NaN\<close>.
\<close>

definition natNum :: "jsnum \<Rightarrow> bool" where
  "natNum v = (\<exists>n::nat. v = Num (real n))"

definition natCounters :: "(string \<rightharpoonup> jsnum) \<Rightarrow> bool" where
  "natCounters st = (\<forall>k v. st k = Some v \<longrightarrow> natNum v)"

text \<open>
  The amount \<^verbatim>\<open>applyStatusEffect\<close> reads from a token.  A token is harmless when
  \<^verbatim>\<open>playCard\<close> does not hand it to \<^verbatim>\<open>applyStatusEffect\<close>, or that amount is a
  natural number.  The special effect of a card is harmless when all its tokens are.
\<close>

definition tokenAmount :: "string \<Rightarrow> jsnum" where
  "tokenAmount eff =
     parseInt (strOr (nth_opt (split CHR ''_'' eff) (length (split CHR ''_'' eff) - 1)) ''1'')"

definition statusHeads :: "string list" where
  "statusHeads = [''vulnerable'', ''weak'', ''poison'', ''burn'', ''freeze'', ''stun'',
                  ''reflect'', ''strength'', ''dexterity'', ''frail'', ''metallicize'', ''regen'']"

definition tokenOk :: "string \<Rightarrow> bool" where
  "tokenOk eff = (hd (split CHR ''_'' eff) \<in> set statusHeads \<longrightarrow> natNum (tokenAmount eff))"

definition effectOk :: "string \<Rightarrow> bool" where
  "effectOk s = (\<forall>eff \<in> set (map trim (split CHR '','' s)). tokenOk eff)"

definition cardOk :: "ICard \<Rightarrow> bool" where
  "cardOk c = (case specialEffect c of None \<Rightarrow> True | Some s \<Rightarrow> effectOk s)"

text \<open>
  A relic is harmless when, under every trigger, it decodes to an action that is not
  a status, or to a natural amount.
\<close>

definition relicStatuses :: "string list" where
  "relicStatuses = [''strength'', ''dexterity'', ''reflect'', ''metallicize'', ''regen'',
                    ''poison'', ''weak'', ''vulnerable'']"

definition relicOk :: "IRelic \<Rightarrow> bool" where
  "relicOk r =
     (\<forall>trigger. rAction (decodeRelic trigger (effectType r)) \<in> Some ` set relicStatuses
                 \<longrightarrow> natNum (rAmount (decodeRelic trigger (effectType r))))"

text \<open>A token without white space and commas survives the joining and splitting unchanged.\<close>

definition cleanToken :: "string \<Rightarrow> bool" where
  "cleanToken t = (t \<noteq> [] \<and> (\<forall>c \<in> set t. \<not> isSpace c \<and> c \<noteq> CHR '',''))"

definition cardsOf :: "IPlayer \<Rightarrow> ICard set" where
  "cardsOf p = set (deck p) \<union> set (hand p) \<union> set (drawPile p) \<union> set (discardPile p) \<union>
               set (exhaustPile p)"

definition playerOk :: "IPlayer \<Rightarrow> bool" where
  "playerOk p = (natCounters (statuses p) \<and> (\<forall>c \<in> cardsOf p. cardOk c) \<and>
                 (\<forall>r \<in> set (relics p). relicOk r))"

definition enemyOk :: "IEnemy \<Rightarrow> bool" where
  "enemyOk e = natCounters (statuses e)"

definition gameOk :: "Game \<Rightarrow> bool" where
  "gameOk g = (playerOk (player g) \<and> enemyOk (enemy g))"

text \<open>
  The characters of a number printed by \<^verbatim>\<open>String(n)\<close>: digits, a decimal point, and
  the letter and the sign of an exponent.
\<close>

definition numChars :: "string \<Rightarrow> bool" where
  "numChars s = (\<forall>c \<in> set s. isDigit c \<or> c = CHR ''.'' \<or> c = CHR ''e'' \<or> c = CHR ''-'')"

text \<open>The totals of the powers that reach the counters of the enemy are natural numbers.\<close>

definition effectsOk :: "PowerEffects \<Rightarrow> bool" where
  "effectsOk fx = (natNum (fx_poison fx) \<and> natNum (fx_weak fx) \<and> natNum (fx_vulnerable fx) \<and>
                   natNum (fx_burn fx))"

section \<open>AI Alchemy: reaction discovery (services/geminiService.ts)\<close>

text \<open>
  The proposed reaction, with the fields as the model sent them: the service copies
  them without validation, so each is a parsed value or undefined.
\<close>

record ReactionResult =
  result_name :: "json option"
  color :: "json option"
  physics :: "json option"
  description :: "json option"
  growthChance :: "json option"
  decayChance :: "json option"
  growthStyle :: "json option"
  relatedElementId :: "json option"

text \<open>
  The handler of \<^verbatim>\<open>discoverReaction\<close> for anything thrown in its body: an error
  whose message mentions a quota is thrown again as \<^verbatim>\<open>RATE_LIMIT\<close>, any other
  error yields \<^verbatim>\<open>null\<close>.
\<close>

definition rateLimitError :: jsError where
  "rateLimitError = \<lparr> message = Some ''RATE_LIMIT'', asJson = ''{}'' \<rparr>"

definition onDiscoveryError :: "jsError \<Rightarrow> jsError + ReactionResult option" where
  "onDiscoveryError err =
     (let errorMessage = (case message err of
                            Some m \<Rightarrow> (if m \<noteq> [] then m else asJson err)
                          | None \<Rightarrow> asJson err)
      in if includesStr errorMessage ''429'' \<or> includesStr errorMessage ''quota'' \<or>
            includesStr errorMessage ''RESOURCE_EXHAUSTED''
         then Inl rateLimitError
         else Inr None)"

text \<open>
  \<^verbatim>\<open>discoverReaction\<close>.  The prompt only influences the outcome of the model call,
  which is an input, as is the API key read from the environment.  The result is
  \<open>Inl\<close> for a thrown error, \<open>Inr None\<close> for \<^verbatim>\<open>null\<close>.  Reading a property of a
  parsed \<^verbatim>\<open>null\<close> throws a type error.
\<close>

definition discoverReaction :: "string \<Rightarrow> responseText attempt \<Rightarrow> jsError + ReactionResult option" where
  "discoverReaction apiKey call =
     (if apiKey = [] then
        onDiscoveryError \<lparr> message = Some ''API Key not found'', asJson = ''{}'' \<rparr>
      else
        (case call of
           Throws err \<Rightarrow> onDiscoveryError err
         | Returns NoText \<Rightarrow> Inr None
         | Returns (Malformed err) \<Rightarrow> onDiscoveryError err
         | Returns (Parsed JNull) \<Rightarrow>
             onDiscoveryError
               \<lparr> message = Some ''Cannot read properties of null (reading 'reactionOccurred')'',
                 asJson = ''{}'' \<rparr>
         | Returns (Parsed data) \<Rightarrow>
             (if toBoolean (getProp data ''reactionOccurred'') \<and> toBoolean (getProp data ''result'')
              then
                (let result = getProp data ''result'';
                     gChance = field result ''growthChance'';
                     gChance = (case gChance of
                                  Some (JNum g) \<Rightarrow> (if jgt g (Num 0.15) then Some (JNum (Num 0.15))
                                                  else gChance)
                                | _ \<Rightarrow> gChance)
                 in Inr (Some \<lparr> result_name = field result ''name'',
                                color = field result ''color'',
                                physics = field result ''physics'',
                                description = field result ''description'',
                                growthChance = gChance,
                                decayChance = field result ''decayChance'',
                                growthStyle = field result ''growthStyle'',
                                relatedElementId = field result ''relatedElementId'' \<rparr>))
              else Inr None)))"

section \<open>AI Alchemy: the sandbox's reaction cache (components/Sandbox.tsx)\<close>

text \<open>
  An element, as far as the reaction bookkeeping reads it, and the mutable references
  of the sandbox component that the bookkeeping uses.  The cache maps a pair key to an
  element id, or to 0 for "no reaction".  The set of pending keys keeps its insertion
  order, which decides the next batch; the names awaiting an id are iterated, so they
  are a list of entries as well.  The grids are typed arrays: \<^verbatim>\<open>Int32Array\<close> stores
  a number as its 32-bit two's complement value, and a store outside the array does
  nothing.
\<close>

record ElementDef =
  elem_id :: int
  elem_name :: string
  elem_physics :: string

record SandboxRefs =
  reactionsCache :: "string \<rightharpoonup> int"
  pendingResolution :: "(string \<times> string) list"
  pendingReactions :: "string list"
  inflightReactions :: "string set"
  activeRequestCount :: int
  isRateLimited :: bool
  nextGrid :: "int list"
  nextDensity :: "real list"

definition MAX_QUEUE_SIZE :: nat where
  "MAX_QUEUE_SIZE = 50"

definition toInt32 :: "int \<Rightarrow> int" where
  "toInt32 v = (v + 2 ^ 31) mod 2 ^ 32 - 2 ^ 31"

definition pairKey :: "int \<Rightarrow> int \<Rightarrow> string" where
  "pairKey id1 id2 =
     (if id1 < id2 then showNum (Num (of_int id1)) @ '':'' @ showNum (Num (of_int id2))
      else showNum (Num (of_int id2)) @ '':'' @ showNum (Num (of_int id1)))"

text \<open>\<^verbatim>\<open>Set.add\<close> and \<^verbatim>\<open>Set.delete\<close> on the ordered set of pending keys.\<close>

definition setAdd :: "string \<Rightarrow> string list \<Rightarrow> string list" where
  "setAdd k ks = (if k \<in> set ks then ks else ks @ [k])"

definition setDelete :: "string \<Rightarrow> string list \<Rightarrow> string list" where
  "setDelete k ks = filter (\<lambda>x. x \<noteq> k) ks"

text \<open>\<^verbatim>\<open>Map.has\<close>, \<^verbatim>\<open>Map.set\<close> and \<^verbatim>\<open>Map.delete\<close> on the names awaiting an id.\<close>

definition entryHas :: "string \<Rightarrow> (string \<times> string) list \<Rightarrow> bool" where
  "entryHas k m = (k \<in> fst ` set m)"

definition entrySet :: "string \<Rightarrow> string \<Rightarrow> (string \<times> string) list \<Rightarrow> (string \<times> string) list" where
  "entrySet k v m =
     (if entryHas k m then map (\<lambda>(k', v'). if k' = k then (k', v) else (k', v')) m
      else m @ [(k, v)])"

definition entryDelete :: "string \<Rightarrow> (string \<times> string) list \<Rightarrow> (string \<times> string) list" where
  "entryDelete k m = filter (\<lambda>(k', v'). k' \<noteq> k) m"

text \<open>
  \<^verbatim>\<open>queueReaction\<close>, called for the cell at index \<open>i\<close> with the ids of the cell
  and of a neighbour or of the energy on the cell.
\<close>

definition queueReaction :: "nat \<Rightarrow> int \<Rightarrow> int \<Rightarrow> SandboxRefs \<Rightarrow> SandboxRefs" where
  "queueReaction i id1 id2 st =
     (if id1 = id2 then st
      else
        (let key = pairKey id1 id2 in
         case reactionsCache st key of
           Some res \<Rightarrow>
             (if res \<noteq> 0 \<and> res > 0
              then st\<lparr> nextGrid := (nextGrid st)[i := toInt32 res],
                       nextDensity := (nextDensity st)[i := 1] \<rparr>
              else st)
         | None \<Rightarrow>
             (if \<not> entryHas key (pendingResolution st) \<and>
                 key \<notin> inflightReactions st \<and>
                 \<not> isRateLimited st \<and>
                 length (pendingReactions st) < MAX_QUEUE_SIZE
              then st\<lparr> pendingReactions := setAdd key (pendingReactions st) \<rparr>
              else st)))"

text \<open>
  \<^verbatim>\<open>processReactions\<close>, for one key of the batch.  Up to the model call: the key
  leaves the pending set and, unless it is already settled or in flight, becomes in
  flight.
\<close>

definition beginRequest :: "string \<Rightarrow> SandboxRefs \<Rightarrow> SandboxRefs" where
  "beginRequest reactionKey st =
     (let st = st\<lparr> pendingReactions := setDelete reactionKey (pendingReactions st) \<rparr> in
      if reactionKey \<in> dom (reactionsCache st) \<or> entryHas reactionKey (pendingResolution st) \<or>
         reactionKey \<in> inflightReactions st
      then st
      else st\<lparr> inflightReactions := insert reactionKey (inflightReactions st),
               activeRequestCount := activeRequestCount st + 1 \<rparr>)"

definition findByName :: "ElementDef list \<Rightarrow> string \<Rightarrow> ElementDef option" where
  "findByName elements n =
     find (\<lambda>e. toLowerCase (elem_name e) = toLowerCase n) elements"

text \<open>
  After the model call, given what \<^verbatim>\<open>discoverReaction\<close> returned or threw: a known
  result name is cached under its id, an unknown one awaits its id, no result and
  any error but the rate limit are cached as 0.  A result whose name is not a string
  throws a type error inside the handler's scope, which is such an error.  Then the
  key stops being in flight.
\<close>

definition endRequest ::
  "ElementDef list \<Rightarrow> string \<Rightarrow> jsError + ReactionResult option \<Rightarrow> SandboxRefs \<Rightarrow> SandboxRefs" where
  "endRequest elements reactionKey outcome st =
     (let st =
        (case outcome of
           Inr (Some result) \<Rightarrow>
             (case result_name result of
                Some (JStr n) \<Rightarrow>
                  (case findByName elements n of
                     Some existing \<Rightarrow>
                       st\<lparr> reactionsCache := (reactionsCache st)(reactionKey \<mapsto> elem_id existing) \<rparr>
                   | None \<Rightarrow>
                       st\<lparr> pendingResolution := entrySet reactionKey n (pendingResolution st) \<rparr>)
              | _ \<Rightarrow> st\<lparr> reactionsCache := (reactionsCache st)(reactionKey \<mapsto> 0) \<rparr>)
         | Inr None \<Rightarrow> st\<lparr> reactionsCache := (reactionsCache st)(reactionKey \<mapsto> 0) \<rparr>
         | Inl err \<Rightarrow>
             (if message err = Some ''RATE_LIMIT'' then st\<lparr> isRateLimited := True \<rparr>
              else st\<lparr> reactionsCache := (reactionsCache st)(reactionKey \<mapsto> 0) \<rparr>))
      in st\<lparr> inflightReactions := inflightReactions st - {reactionKey},
               activeRequestCount := activeRequestCount st - 1 \<rparr>)"

text \<open>
  The effect that runs when the element list changes: names that now have an element
  move into the cache, and the standard exclusions are cached as 0.
\<close>

definition resolveOne :: "ElementDef list \<Rightarrow> SandboxRefs \<Rightarrow> string \<times> string \<Rightarrow> SandboxRefs" where
  "resolveOne elements st entry =
     (case findByName elements (snd entry) of
        Some existing \<Rightarrow>
          st\<lparr> reactionsCache := (reactionsCache st)(fst entry \<mapsto> elem_id existing),
              pendingResolution := entryDelete (fst entry) (pendingResolution st) \<rparr>
      | None \<Rightarrow> st)"

definition resolvePending :: "ElementDef list \<Rightarrow> SandboxRefs \<Rightarrow> SandboxRefs" where
  "resolvePending elements st = foldl (resolveOne elements) st (pendingResolution st)"

definition ignore :: "int option \<Rightarrow> int option \<Rightarrow> SandboxRefs \<Rightarrow> SandboxRefs" where
  "ignore id1 id2 st =
     (case (id1, id2) of
        (Some a, Some b) \<Rightarrow> st\<lparr> reactionsCache := (reactionsCache st)(pairKey a b \<mapsto> 0) \<rparr>
      | _ \<Rightarrow> st)"

text \<open>
  The histories of the references: each step is one of the operations above, the end
  of a rate-limit pause, or any writes of the physics loop to the two grids.
\<close>

inductive evolves :: "SandboxRefs \<Rightarrow> SandboxRefs \<Rightarrow> bool" where
  start: "evolves s s"
| queue: "evolves s t \<Longrightarrow> evolves s (queueReaction i id1 id2 t)"
| begin_request: "evolves s t \<Longrightarrow> evolves s (beginRequest k t)"
| end_request: "evolves s t \<Longrightarrow> evolves s (endRequest elements k outcome t)"
| resolve: "evolves s t \<Longrightarrow> evolves s (resolvePending elements t)"
| exclude: "evolves s t \<Longrightarrow> evolves s (ignore id1 id2 t)"
| resume: "evolves s t \<Longrightarrow> evolves s (t\<lparr> isRateLimited := False \<rparr>)"
| physics: "evolves s t \<Longrightarrow> evolves s (t\<lparr> nextGrid := g, nextDensity := d \<rparr>)"

text \<open>
  A small state of the references: the pair of elements 3 and 7 is known not to
  react, the pair of 4 and 6 yields element 9, and the grid has four cells.
\<close>

definition exampleRefs :: SandboxRefs where
  "exampleRefs =
     \<lparr> reactionsCache = [''3:7'' \<mapsto> 0, ''4:6'' \<mapsto> 9], pendingResolution = [],
       pendingReactions = [], inflightReactions = {}, activeRequestCount = 0,
       isRateLimited = False, nextGrid = [0, 4, 0, 0], nextDensity = [0, 1, 0, 0] \<rparr>"

section \<open>Cosmic Voyager: narration service (services/geminiService.ts)\<close>

text \<open>
  The built-in table of paragraphs, in the order of the source.  A lookup finds the
  first entry with the name; properties inherited from the object prototype are not
  modelled.
\<close>

definition FALLBACK_DESCRIPTIONS :: "(string \<times> string) list" where
  "FALLBACK_DESCRIPTIONS =
   [(''Mercury'',
     ''Mercury is the smallest planet in the Solar System and the closest to the Sun.'' @
     '' It orbits the Sun in just 88 Earth days. \<newline>\<newline>Fun Fact: Despit'' @
     ''e being closest to the Sun, Mercury is not the hottest planet; Venus holds tha'' @
     ''t title due to its thick atmosphere.''),
    (''Venus'',
     ''Venus is the second planet from the Sun and is Earth's closest planetary neigh'' @
     ''bor. It has a thick, toxic atmosphere filled with carbon dioxide and shrouded '' @
     ''in thick yellowish clouds of sulfuric acid that trap heat, causing a runaway g'' @
     ''reenhouse effect.\<newline>\<newline>Fun Fact: Venus spins in the opposite dir'' @
     ''ection (retrograde rotation) to most other planets.''),
    (''Earth'',
     ''Earth is the third planet from the Sun and the only astronomical object known '' @
     ''to harbor life. About 29% of Earth's surface is land consisting of continents '' @
     ''and islands, while the remaining 71% is covered with water.\<newline>'' @
     ''\<newline>Fun Fact: Earth is the only planet not named after a Greek or Roman '' @
     ''god or goddess.''),
    (''Mars'',
     ''Mars is the fourth planet from the Sun and the second-smallest planet in the S'' @
     ''olar System, being larger than only Mercury. It is often referred to as the 'R'' @
     ''ed Planet' because the iron oxide prevalent on its surface gives it a reddish '' @
     ''appearance.\<newline>\<newline>Fun Fact: Mars is home to Olympus Mons, the tal'' @
     ''lest volcano and known mountain in the solar system.''),
    (''Jupiter'',
     ''Jupiter is the fifth planet from the Sun and the largest in the Solar System. '' @
     ''It is a gas giant with a mass more than two and a half times that of all the o'' @
     ''ther planets in the Solar System combined, but slightly less than one-thousand'' @
     ''th the mass of the Sun.\<newline>\<newline>Fun Fact: Jupiter has the shortest '' @
     ''day of all the planets, spinning around its axis in just under 10 hours.''),
    (''Saturn'',
     ''Saturn is the sixth planet from the Sun and the second-largest in the Solar Sy'' @
     ''stem, after Jupiter. It is a gas giant with an average radius of about nine an'' @
     ''d a half times that of Earth. It is famous for its prominent ring system.'' @
     ''\<newline>\<newline>Fun Fact: Saturn is the only planet in our solar system th'' @
     ''at is less dense than water; if there were a bathtub big enough, it would floa'' @
     ''t.''),
    (''Uranus'',
     ''Uranus is the seventh planet from the Sun. It has the third-largest planetary '' @
     ''radius and fourth-largest planetary mass in the Solar System. Uranus is simila'' @
     ''r in composition to Neptune, and both have bulk chemical compositions which di'' @
     ''ffer from that of the larger gas giants Jupiter and Saturn.\<newline>'' @
     ''\<newline>Fun Fact: Uranus rotates on its side, making it the only planet whos'' @
     ''e equator is nearly at a right angle to its orbit.''),
    (''Neptune'',
     ''Neptune is the eighth and farthest-known Solar planet from the Sun. In the Sol'' @
     ''ar System, it is the fourth-largest planet by diameter, the third-most-massive'' @
     '' planet, and the densest giant planet. It is 17 times the mass of Earth.'' @
     ''\<newline>\<newline>Fun Fact: Neptune has the strongest winds in the solar sys'' @
     ''tem, reaching speeds of up to 1,300 miles per hour (2,100 km/h).''),
    (''The Sun'',
     ''The Sun is the star at the center of the Solar System. It is a nearly perfect '' @
     ''sphere of hot plasma, heated to incandescence by nuclear fusion reactions in i'' @
     ''ts core. It radiates this energy mainly as visible light, ultraviolet light, a'' @
     ''nd infrared radiation.\<newline>\<newline>Fun Fact: The Sun accounts for 99.86'' @
     ''% of the mass in the solar system.'')]"

datatype ViewMode = orbit | fly | landed

text \<open>
  The request: the body's name, the optional body type and fallback text, and the
  optional fields of the view context.
\<close>

record PlanetDetailRequest =
  name :: string
  bodyType :: "string option"
  fallbackText :: "string option"
  mode :: "ViewMode option"
  cameraDistance :: "jsnum option"
  sunAltitude :: "jsnum option"
  targetName :: "string option"

text \<open>
  The prompt sent to the model only influences the outcome of the call, which is an
  input here: the call throws, or answers with a response whose text may be absent.
\<close>

definition communicationsDown :: string where
  "communicationsDown =
     ''Communications with the Galactic Database (Gemini) are currently down. '' @
     ''Please try again later.''"

text \<open>\<^verbatim>\<open>a || b\<close> on possibly absent strings: the empty string is falsy.\<close>

fun orString :: "string option \<Rightarrow> string option \<Rightarrow> string option" where
  "orString (Some s) b = (if s \<noteq> [] then Some s else b)"
| "orString None b = b"

definition getPlanetDetails :: "PlanetDetailRequest \<Rightarrow> string option attempt \<Rightarrow> string" where
  "getPlanetDetails request call =
     (let planetName = name request;
          fallbackText = map_option trim (fallbackText request)
      in case call of
           Returns text \<Rightarrow>
             the (orString (orString (orString text (map_of FALLBACK_DESCRIPTIONS planetName))
                                     fallbackText)
                           (Some ''Unable to retrieve planetary data.''))
         | Throws err \<Rightarrow>
             (case orString (map_of FALLBACK_DESCRIPTIONS planetName) None of
                Some d \<Rightarrow> d
              | None \<Rightarrow>
                  (case orString fallbackText None of
                     Some f \<Rightarrow> f
                   | None \<Rightarrow> communicationsDown)))"

text \<open>The eight planets and the star, as the scene names them.\<close>

definition narratedBodies :: "string list" where
  "narratedBodies = [''Mercury'', ''Venus'', ''Earth'', ''Mars'', ''Jupiter'', ''Saturn'',
                     ''Uranus'', ''Neptune'', ''The Sun'']"

section \<open>AI Spire: properties\<close>

lemma enemy_setPlayer: "enemy (setPlayer f g) = enemy g"
  by (simp add: setPlayer_def)

lemma enemy_setEnemy: "enemy (setEnemy f g) = f (enemy g)"
  by (simp add: setEnemy_def)

lemma relicAction_enemy_body:
  assumes "action \<noteq> Some ''damage''"
  shows "currentHp (enemy (relicAction sh action amount g)) = currentHp (enemy g) \<and>
         block (enemy (relicAction sh action amount g)) = block (enemy g)"
  using assms by (simp add: relicAction_def enemy_setPlayer enemy_setEnemy del: set_simps)

lemma relicStep_enemy_body:
  assumes "rAction (decodeRelic trigger (effectType relic)) \<noteq> Some ''damage''"
  shows "currentHp (enemy (relicStep sh trigger contextCard g relic)) = currentHp (enemy g) \<and>
         block (enemy (relicStep sh trigger contextCard g relic)) = block (enemy g)"
  using relicAction_enemy_body [OF assms] by (simp add: relicStep_def Let_def)

lemma relics_enemy_body:
  assumes "\<forall>r \<in> set rs. rAction (decodeRelic trigger (effectType r)) \<noteq> Some ''damage''"
  shows "currentHp (enemy (foldl (relicStep sh trigger contextCard) g rs)) = currentHp (enemy g) \<and>
         block (enemy (foldl (relicStep sh trigger contextCard) g rs)) = block (enemy g)"
  using assms
proof (induction rs arbitrary: g)
  case Nil
  then show ?case by simp
next
  case (Cons r rs)
  then show ?case
    using relicStep_enemy_body [of trigger r sh contextCard g] by simp
qed

lemma cardEffect_enemy_body:
  "currentHp (enemy (cardEffect sh g eff)) = currentHp (enemy g) \<and>
   block (enemy (cardEffect sh g eff)) = block (enemy g)"
  by (simp add: cardEffect_def Let_def enemy_setPlayer enemy_setEnemy del: set_simps)

lemma cardEffects_enemy_body:
  "currentHp (enemy (foldl (cardEffect sh) g effs)) = currentHp (enemy g) \<and>
   block (enemy (foldl (cardEffect sh) g effs)) = block (enemy g)"
  by (induction effs arbitrary: g) (simp_all add: cardEffect_enemy_body)

lemma vulnerable_hit:
  assumes "damage c = Some (Num 6)"
    and "statuses pl ''strength'' \<in> {None, Some (Num 0)}"
    and "statuses pl ''weak'' \<in> {None, Some (Num 0)}"
    and "statuses en ''vulnerable'' = Some (Num 1)"
  shows "hitDamage c pl en = Num 9"
  using assms by (auto simp: hitDamage_def getPlayerStats_def jgt_def Let_def)

lemma one_hit:
  assumes "card_type c = ATTACK" and "multiHit c = Some (Num 1)"
  shows "playCardDamage c pl en e = absorbHit (hitDamage c pl en) e"
  using assms by (simp add: playCardDamage_def Let_def)

lemma absorb_nine:
  assumes "block e = Num 5" and "currentHp e = Num hp" and "4 \<le> hp"
  shows "currentHp (absorbHit (Num 9) e) = Num (hp - 4) \<and> block (absorbHit (Num 9) e) = Num 0"
  using assms by (simp add: absorbHit_def jge_def)


text \<open>
  Claim C1.  An attack card with damage 6 and multiHit 1 is played, in the player's
  turn, against an enemy with one stack of vulnerable and 5 block, by a player with
  no strength who is not weak.  The hit is worth 6 and becomes 9 after the
  vulnerable multiplier; \<^verbatim>\<open>playCard\<close> lets the block absorb 5 of it, the enemy
  loses exactly 4 HP and its block ends at 0.  \<^verbatim>\<open>playCard\<close> reads the strength, the
  weakness and the vulnerability from the render \<open>cl\<close> in which the card is played
  and updates the enemy of the state \<open>g\<close>; before the hit it runs the relics of the
  render, so the statement is about a player none of whose relics decodes to a
  damage action.  It holds for every such card, whatever its special effect, and
  every such render and state.
\<close>

theorem combat_damage_math:
  assumes "phase cl = BATTLE_PLAYER_TURN"
    and "card_type c = ATTACK" and "damage c = Some (Num 6)" and "multiHit c = Some (Num 1)"
    and "statuses (player cl) ''strength'' \<in> {None, Some (Num 0)}"
    and "statuses (player cl) ''weak'' \<in> {None, Some (Num 0)}"
    and "statuses (enemy cl) ''vulnerable'' = Some (Num 1)"
    and "block (enemy g) = Num 5" and "currentHp (enemy g) = Num hp" and "4 \<le> hp"
    and "\<forall>r \<in> set (relics (player cl)).
           rAction (decodeRelic ''play_attack'' (effectType r)) \<noteq> Some ''damage''"
  shows "hitDamage c (player cl) (enemy cl) = Num 9 \<and>
         currentHp (enemy (playCard sh c index cl g)) = Num (hp - 4) \<and>
         block (enemy (playCard sh c index cl g)) = Num 0"
proof -
  let ?g1 = "processRelicTrigger sh ''play_attack'' (Some c) cl
               (setPlayer (\<lambda>p. p\<lparr> energy := jsub (energy p) (cost c) \<rparr>) g)"
  have hit: "hitDamage c (player cl) (enemy cl) = Num 9"
    using assms(3,5,6,7) by (rule vulnerable_hit)
  have g1: "currentHp (enemy ?g1) = Num hp \<and> block (enemy ?g1) = Num 5"
    unfolding processRelicTrigger_def
    using relics_enemy_body [OF assms(11)] assms(8,9) by (simp add: enemy_setPlayer)
  have dmg: "currentHp (playCardDamage c (player cl) (enemy cl) (enemy ?g1)) = Num (hp - 4) \<and>
             block (playCardDamage c (player cl) (enemy cl) (enemy ?g1)) = Num 0"
    unfolding one_hit [OF assms(2,4)] hit
    using g1 assms(10) by (intro absorb_nine) simp_all
  have "currentHp (enemy (playCard sh c index cl g)) = Num (hp - 4) \<and>
        block (enemy (playCard sh c index cl g)) = Num 0"
    using dmg assms(1,2)
    by (simp add: playCard_def Let_def enemy_setPlayer enemy_setEnemy cardEffects_enemy_body
        split: option.splits)
  with hit show ?thesis by simp
qed

theorem combat_damage_math_witness:
  "currentHp (enemy (playCard (\<lambda>xs. xs) ((createStrike ''1'')\<lparr> multiHit := Some (Num 1) \<rparr>) 0
      (initialGame\<lparr> phase := BATTLE_PLAYER_TURN,
         enemy := initialEnemy\<lparr> block := Num 5, statuses := [''vulnerable'' \<mapsto> Num 1] \<rparr> \<rparr>)
      (initialGame\<lparr> phase := BATTLE_PLAYER_TURN,
         enemy := initialEnemy\<lparr> block := Num 5, statuses := [''vulnerable'' \<mapsto> Num 1] \<rparr> \<rparr>)))
   = Num 16 \<and>
   block (enemy (playCard (\<lambda>xs. xs) ((createStrike ''1'')\<lparr> multiHit := Some (Num 1) \<rparr>) 0
      (initialGame\<lparr> phase := BATTLE_PLAYER_TURN,
         enemy := initialEnemy\<lparr> block := Num 5, statuses := [''vulnerable'' \<mapsto> Num 1] \<rparr> \<rparr>)
      (initialGame\<lparr> phase := BATTLE_PLAYER_TURN,
         enemy := initialEnemy\<lparr> block := Num 5, statuses := [''vulnerable'' \<mapsto> Num 1] \<rparr> \<rparr>)))
   = Num 0"
  using combat_damage_math
    [of "initialGame\<lparr> phase := BATTLE_PLAYER_TURN,
           enemy := initialEnemy\<lparr> block := Num 5, statuses := [''vulnerable'' \<mapsto> Num 1] \<rparr> \<rparr>"
        "(createStrike ''1'')\<lparr> multiHit := Some (Num 1) \<rparr>"
        "initialGame\<lparr> phase := BATTLE_PLAYER_TURN,
           enemy := initialEnemy\<lparr> block := Num 5, statuses := [''vulnerable'' \<mapsto> Num 1] \<rparr> \<rparr>"
        20 "\<lambda>xs. xs" 0]
  by (simp add: createStrike_def initialGame_def initialPlayer_def initialEnemy_def)

lemma decode_vajra:
  "decodeRelic ''start_combat'' ''start_combat_strength_1'' =
     \<lparr> rTrigger = ''start_combat'', rAction = Some ''strength'', rAmount = Num 1 \<rparr>"
  by code_simp

lemma decode_poison_relic:
  "decodeRelic ''turn_start'' ''turn_start_apply_poison_3'' =
     \<lparr> rTrigger = ''turn_start'', rAction = Some ''poison'', rAmount = Num 3 \<rparr>"
  by code_simp

lemma play_attack_requires_attack:
  "startsWith ''play_attack'' ''play_'' \<and>
   map_option toUpperCase (nth_opt (split CHR ''_'' ''play_attack'') 1) = Some ''ATTACK''"
  by code_simp

lemma relic_vajra_step:
  assumes "effectType relic = ''start_combat_strength_1''"
  shows "relicStep sh ''start_combat'' None g relic =
           g\<lparr> player := (player g)\<lparr> statuses := (statuses (player g))
                  (''strength'' \<mapsto> jadd (orElse (statuses (player g) ''strength'') (Num 0)) (Num 1)) \<rparr> \<rparr>"
  using assms
  by (simp add: relicStep_def decode_vajra relicFires_def relicAction_def setPlayer_def
        addStatus_def)

lemma relic_poison_step:
  assumes "effectType relic = ''turn_start_apply_poison_3''"
  shows "relicStep sh ''turn_start'' None g relic =
           g\<lparr> enemy := (enemy g)\<lparr> statuses := (statuses (enemy g))
                  (''poison'' \<mapsto> jadd (orElse (statuses (enemy g) ''poison'') (Num 0)) (Num 3)) \<rparr> \<rparr>"
  using assms
  by (simp add: relicStep_def decode_poison_relic relicFires_def relicAction_def setEnemy_def
        addStatus_def)

lemma relic_play_attack_skill:
  assumes "rTrigger (decodeRelic trigger (effectType relic)) = ''play_attack''"
    and "card_type c = SKILL"
  shows "relicStep sh trigger (Some c) g relic = g"
proof (cases "trigger = ''play_attack''")
  case True
  have "startsWith trigger ''play_''"
    and "map_option toUpperCase (nth_opt (split CHR ''_'' trigger) 1) = Some ''ATTACK''"
    using play_attack_requires_attack by (simp_all only: True)
  with assms(2) have "\<not> relicFires trigger (Some c) (decodeRelic trigger (effectType relic))"
    unfolding relicFires_def by auto
  then show ?thesis by (simp add: relicStep_def)
next
  case False
  with assms(1) have "\<not> relicFires trigger (Some c) (decodeRelic trigger (effectType relic))"
    by (simp add: relicFires_def)
  then show ?thesis by (simp add: relicStep_def)
qed

lemma relics_append:
  assumes "relics (player cl) = rs @ [relic]"
  shows "processRelicTrigger sh trigger contextCard cl g =
         relicStep sh trigger contextCard
           (processRelicTrigger sh trigger contextCard (cl\<lparr> player := (player cl)\<lparr> relics := rs \<rparr> \<rparr>) g)
           relic"
  using assms by (simp add: processRelicTrigger_def)

lemma relics_skip:
  assumes "\<And>g r. P r \<Longrightarrow> relicStep sh trigger contextCard g r = g"
  shows "foldl (relicStep sh trigger contextCard) g rs =
         foldl (relicStep sh trigger contextCard) g (filter (\<lambda>r. \<not> P r) rs)"
  by (induction rs arbitrary: g) (simp_all add: assms)


text \<open>
  Claim C3.  \<^verbatim>\<open>processRelicTrigger\<close> runs the relics of the render in their order.
  When the last of them carries the token start_combat_strength_1 and the trigger is
  start_combat, the processor does what it does for the relics before it and then
  adds exactly 1 to the player's strength counter (an absent counter counts as 0),
  changing nothing else; when the last relic carries turn_start_apply_poison_3 and
  the trigger is turn_start, it adds exactly 3 to the enemy's poison counter.  When
  the card played is a SKILL card, the processor does what it would do without the
  relics whose decoded trigger is play_attack: none of them executes its action,
  whatever trigger is being processed.
\<close>

theorem relic_trigger_decoding:
  "(relics (player cl) = rs @ [relic] \<and> effectType relic = ''start_combat_strength_1'' \<longrightarrow>
      processRelicTrigger sh ''start_combat'' None cl g =
        (let g' = processRelicTrigger sh ''start_combat'' None
                    (cl\<lparr> player := (player cl)\<lparr> relics := rs \<rparr> \<rparr>) g
         in g'\<lparr> player := (player g')\<lparr> statuses := (statuses (player g'))
               (''strength'' \<mapsto> jadd (orElse (statuses (player g') ''strength'') (Num 0)) (Num 1)) \<rparr> \<rparr>)) \<and>
   (relics (player cl) = rs @ [relic] \<and> effectType relic = ''turn_start_apply_poison_3'' \<longrightarrow>
      processRelicTrigger sh ''turn_start'' None cl g =
        (let g' = processRelicTrigger sh ''turn_start'' None
                    (cl\<lparr> player := (player cl)\<lparr> relics := rs \<rparr> \<rparr>) g
         in g'\<lparr> enemy := (enemy g')\<lparr> statuses := (statuses (enemy g'))
               (''poison'' \<mapsto> jadd (orElse (statuses (enemy g') ''poison'') (Num 0)) (Num 3)) \<rparr> \<rparr>)) \<and>
   (card_type c = SKILL \<longrightarrow>
      processRelicTrigger sh trigger (Some c) cl g =
        processRelicTrigger sh trigger (Some c)
          (cl\<lparr> player := (player cl)\<lparr> relics :=
                filter (\<lambda>r. rTrigger (decodeRelic trigger (effectType r)) \<noteq> ''play_attack'')
                  (relics (player cl)) \<rparr> \<rparr>) g)"
proof (intro conjI impI)
  assume "relics (player cl) = rs @ [relic] \<and> effectType relic = ''start_combat_strength_1''"
  then show "processRelicTrigger sh ''start_combat'' None cl g =
        (let g' = processRelicTrigger sh ''start_combat'' None
                    (cl\<lparr> player := (player cl)\<lparr> relics := rs \<rparr> \<rparr>) g
         in g'\<lparr> player := (player g')\<lparr> statuses := (statuses (player g'))
               (''strength'' \<mapsto> jadd (orElse (statuses (player g') ''strength'') (Num 0)) (Num 1)) \<rparr> \<rparr>)"
    by (simp only: relics_append relic_vajra_step Let_def)
next
  assume "relics (player cl) = rs @ [relic] \<and> effectType relic = ''turn_start_apply_poison_3''"
  then show "processRelicTrigger sh ''turn_start'' None cl g =
        (let g' = processRelicTrigger sh ''turn_start'' None
                    (cl\<lparr> player := (player cl)\<lparr> relics := rs \<rparr> \<rparr>) g
         in g'\<lparr> enemy := (enemy g')\<lparr> statuses := (statuses (enemy g'))
               (''poison'' \<mapsto> jadd (orElse (statuses (enemy g') ''poison'') (Num 0)) (Num 3)) \<rparr> \<rparr>)"
    by (simp only: relics_append relic_poison_step Let_def)
next
  assume c: "card_type c = SKILL"
  have "foldl (relicStep sh trigger (Some c)) g (relics (player cl)) =
        foldl (relicStep sh trigger (Some c)) g
          (filter (\<lambda>r. \<not> rTrigger (decodeRelic trigger (effectType r)) = ''play_attack'')
             (relics (player cl)))"
    by (rule relics_skip) (rule relic_play_attack_skill [OF _ c])
  then show "processRelicTrigger sh trigger (Some c) cl g =
        processRelicTrigger sh trigger (Some c)
          (cl\<lparr> player := (player cl)\<lparr> relics :=
                filter (\<lambda>r. rTrigger (decodeRelic trigger (effectType r)) \<noteq> ''play_attack'')
                  (relics (player cl)) \<rparr> \<rparr>) g"
    by (simp add: processRelicTrigger_def)
qed

theorem relic_trigger_decoding_witness:
  "statuses (player (processRelicTrigger (\<lambda>xs. xs) ''start_combat'' None
      (initialGame\<lparr> player := initialPlayer\<lparr> relics := [vajra] \<rparr> \<rparr>) initialGame)) ''strength'' =
     Some (Num 1) \<and>
   statuses (enemy (processRelicTrigger (\<lambda>xs. xs) ''turn_start'' None
      (initialGame\<lparr> player := initialPlayer\<lparr> relics := [snakeSkull] \<rparr> \<rparr>) initialGame)) ''poison'' =
     Some (Num 3) \<and>
   processRelicTrigger (\<lambda>xs. xs) ''play_skill'' (Some (createDefend ''1''))
      (initialGame\<lparr> player := initialPlayer\<lparr> relics := [shuriken] \<rparr> \<rparr>) initialGame = initialGame"
proof -
  let ?cl = "\<lambda>r. initialGame\<lparr> player := initialPlayer\<lparr> relics := [r] \<rparr> \<rparr>"
  have d: "rTrigger (decodeRelic ''play_skill'' (effectType shuriken)) = ''play_attack''"
    by code_simp
  have e: "processRelicTrigger sh trigger contextCard cl g = g" if "relics (player cl) = []"
    for sh trigger contextCard cl g
    using that by (simp add: processRelicTrigger_def)
  have "processRelicTrigger (\<lambda>xs. xs) ''start_combat'' None (?cl vajra) initialGame =
          (let g' = processRelicTrigger (\<lambda>xs. xs) ''start_combat'' None
                      ((?cl vajra)\<lparr> player := (player (?cl vajra))\<lparr> relics := [] \<rparr> \<rparr>) initialGame
           in g'\<lparr> player := (player g')\<lparr> statuses := (statuses (player g'))
               (''strength'' \<mapsto> jadd (orElse (statuses (player g') ''strength'') (Num 0)) (Num 1)) \<rparr> \<rparr>)"
    by (rule relic_trigger_decoding [THEN conjunct1, rule_format, where relic = vajra])
      (simp add: vajra_def)
  moreover have "processRelicTrigger (\<lambda>xs. xs) ''turn_start'' None (?cl snakeSkull) initialGame =
          (let g' = processRelicTrigger (\<lambda>xs. xs) ''turn_start'' None
                      ((?cl snakeSkull)\<lparr> player := (player (?cl snakeSkull))\<lparr> relics := [] \<rparr> \<rparr>)
                      initialGame
           in g'\<lparr> enemy := (enemy g')\<lparr> statuses := (statuses (enemy g'))
               (''poison'' \<mapsto> jadd (orElse (statuses (enemy g') ''poison'') (Num 0)) (Num 3)) \<rparr> \<rparr>)"
    by (rule relic_trigger_decoding [THEN conjunct2, THEN conjunct1, rule_format,
          where relic = snakeSkull])
      (simp add: snakeSkull_def)
  moreover have "processRelicTrigger (\<lambda>xs. xs) ''play_skill'' (Some (createDefend ''1''))
          (?cl shuriken) initialGame =
        processRelicTrigger (\<lambda>xs. xs) ''play_skill'' (Some (createDefend ''1''))
          ((?cl shuriken)\<lparr> player := (player (?cl shuriken))\<lparr> relics :=
                filter (\<lambda>r. rTrigger (decodeRelic ''play_skill'' (effectType r)) \<noteq> ''play_attack'')
                  (relics (player (?cl shuriken))) \<rparr> \<rparr>) initialGame"
    by (rule relic_trigger_decoding [THEN conjunct2, THEN conjunct2, rule_format])
      (simp add: createDefend_def)
  ultimately show ?thesis
    by (simp add: e d Let_def) (simp add: initialGame_def initialPlayer_def initialEnemy_def)
qed

lemma drawLoop_hand_length:
  "length (fst (drawLoop sh n h d ds)) \<le> length h + n"
proof (induction n arbitrary: h d ds)
  case 0
  show ?case by simp
next
  case (Suc n)
  show ?case
    using Suc.IH [of "h @ [last (sh ds)]" "butlast (sh ds)" "[]"]
          Suc.IH [of h "sh ds" "[]"]
          Suc.IH [of "h @ [last d]" "butlast d" ds]
    by (auto simp: Let_def)
qed

lemma iterations_capped: "iterations (jmin cnt (Num (real k))) \<le> k"
  by (cases cnt) (auto simp: min_def ceiling_le_iff)

text \<open>
  Drawing is capped: \<^verbatim>\<open>drawCards\<close> never brings a hand of at most 10 cards above
  10 cards, whatever the count asked for and whatever the shuffle.
\<close>

lemma drawCards_hand_capped:
  assumes "length (hand p) \<le> MAX_HAND_SIZE"
  shows "length (hand (drawCards sh cnt p)) \<le> MAX_HAND_SIZE"
proof (cases "length (hand p) \<ge> MAX_HAND_SIZE \<or>
              jle (jmin cnt (Num (real (MAX_HAND_SIZE - length (hand p))))) (Num 0)")
  case True
  with assms show ?thesis by (auto simp: drawCards_def Let_def)
next
  case False
  let ?k = "MAX_HAND_SIZE - length (hand p)"
  obtain h d ds where r: "drawLoop sh (iterations (jmin cnt (Num (real ?k))))
                            (hand p) (drawPile p) (discardPile p) = (h, d, ds)"
    by (cases "drawLoop sh (iterations (jmin cnt (Num (real ?k)))) (hand p) (drawPile p) (discardPile p)")
  have "length h \<le> length (hand p) + iterations (jmin cnt (Num (real ?k)))"
    using drawLoop_hand_length [of sh "iterations (jmin cnt (Num (real ?k)))"
            "hand p" "drawPile p" "discardPile p"] r by simp
  also have "\<dots> \<le> length (hand p) + ?k"
    using iterations_capped [of cnt ?k] by simp
  also have "\<dots> \<le> MAX_HAND_SIZE" using assms by simp
  finally have "length h \<le> MAX_HAND_SIZE" .
  with False r show ?thesis by (simp add: drawCards_def Let_def)
qed

text \<open>The fetch callback has no such cap: it always makes the hand one card longer.\<close>

lemma fetchToHand_hand_length:
  "length (hand (fetchToHand src selectedCard p)) = Suc (length (hand p))"
  by (cases src) (simp_all add: fetchToHand_def)

text \<open>
  Claim C4.  The hand never exceeds 10 cards: drawing is capped by the remaining
  capacity, and a fetch or recover effect never brings the hand above 10 cards.  The
  code caps the draws only.  In the sequence of events defined above, which starts
  from a battle on floor 3 and uses cards and a relic the sanitizers return, the
  click in the overlay leaves the player with 11 cards in hand.
\<close>

theorem fetch_overflows_hand:
  "length (hand (player floor4OpeningHand)) = 10 \<and>
   selection floor4OpeningHand \<noteq> None \<and>
   createStrike ''1'' \<in> set (offeredCards (the (selection floor4OpeningHand))
                                (player floor4OpeningHand)) \<and>
   length (hand (player afterOverlayClick)) = 11"
  by code_simp

section \<open>AI Spire: the status counters of a reachable state\<close>

lemma isDigit_digitChar: "d < 10 \<Longrightarrow> isDigit (digitChar d)"
  by (simp add: isDigit_def digitChar_def)

lemma digitVal_digitChar: "d < 10 \<Longrightarrow> digitVal (digitChar d) = d"
  by (simp add: digitVal_def digitChar_def)

lemma showNat_digits: "c \<in> set (showNat n) \<Longrightarrow> isDigit c"
proof (induction n rule: showNat.induct)
  case (1 n)
  show ?case
  proof (cases "n < 10")
    case True
    with "1.prems" show ?thesis
      by (subst (asm) showNat.simps) (simp add: isDigit_digitChar)
  next
    case False
    with "1.prems" "1.IH" show ?thesis
      by (subst (asm) showNat.simps) (auto simp: isDigit_digitChar)
  qed
qed

lemma showNat_nonempty: "showNat n \<noteq> []"
  by (subst showNat.simps) simp

lemma digitsValue_snoc: "digitsValue (ds @ [d]) = 10 * digitsValue ds + digitVal d"
  by (simp add: digitsValue_def)

lemma digitsValue_showNat: "digitsValue (showNat n) = n"
proof (induction n rule: showNat.induct)
  case (1 n)
  show ?case
  proof (cases "n < 10")
    case True
    then show ?thesis
      by (subst showNat.simps) (simp add: digitsValue_def digitVal_digitChar)
  next
    case False
    with "1.IH" show ?thesis
      by (subst showNat.simps) (simp add: digitsValue_snoc digitVal_digitChar)
  qed
qed

lemma showNat_hd: "0 < n \<Longrightarrow> hd (showNat n) \<noteq> CHR ''0''"
proof (induction n rule: showNat.induct)
  case (1 n)
  show ?case
  proof (cases "n < 10")
    case True
    with "1.prems" digitVal_digitChar [of n] show ?thesis
      by (subst showNat.simps) (auto simp: digitVal_def)
  next
    case False
    then have "0 < n div 10" by simp
    with False "1.IH" show ?thesis
      by (subst showNat.simps) (simp add: showNat_nonempty)
  qed
qed


subsection \<open>Splitting and trimming\<close>

lemma split_no_sep: "c \<notin> set s \<Longrightarrow> split c s = [s]"
  by (induction s) auto

lemma split_append: "c \<notin> set x \<Longrightarrow> split c (x @ c # r) = x # split c r"
  by (induction x) auto

lemma split_join:
  assumes "xs \<noteq> []" and "\<forall>x \<in> set xs. c \<notin> set x"
  shows "split c (join [c] xs) = xs"
  using assms
proof (induction "[c]" xs rule: join.induct)
  case 1
  then show ?case by simp
next
  case (2 x)
  then show ?case by (simp add: split_no_sep)
next
  case (3 x y ys)
  then show ?case by (simp add: split_append)
qed

lemma trim_noop: "\<forall>c \<in> set s. \<not> isSpace c \<Longrightarrow> trim s = s"
proof -
  assume a: "\<forall>c \<in> set s. \<not> isSpace c"
  have d: "\<And>t. \<forall>c \<in> set t. \<not> isSpace c \<Longrightarrow> dropWhile isSpace t = t"
    by (metis dropWhile_eq_self_iff list.set_sel(1))
  from a have "dropWhile isSpace s = s" by (rule d)
  moreover from a have "dropWhile isSpace (rev s) = rev s" by (intro d) simp
  ultimately show ?thesis by (simp add: trim_def)
qed

subsection \<open>The text of a number\<close>

lemma numChars_append: "numChars (a @ b) = (numChars a \<and> numChars b)"
  by (auto simp: numChars_def)

lemma numChars_Cons: "numChars (c # s) = ((isDigit c \<or> c = CHR ''.'' \<or> c = CHR ''e'' \<or> c = CHR ''-'') \<and> numChars s)"
  by (auto simp: numChars_def)

lemma numChars_showNat: "numChars (showNat n)"
  using showNat_digits by (auto simp: numChars_def)

lemma fracDigits_digits:
  "0 \<le> f \<Longrightarrow> f < 1 \<Longrightarrow> c \<in> set (fracDigits k f) \<Longrightarrow> isDigit c"
proof (induction k arbitrary: f)
  case 0
  then show ?case by simp
next
  case (Suc k)
  let ?d = "\<lfloor>10 * f\<rfloor>"
  have d0: "0 \<le> ?d" using Suc.prems(1) by simp
  have d9: "?d < 10" using Suc.prems(2) by (simp add: floor_less_iff)
  have r0: "0 \<le> 10 * f - of_int ?d" by simp
  have r1: "10 * f - of_int ?d < 1" by linarith
  from Suc.prems(3) consider "c = digitChar (nat ?d)" | "c \<in> set (fracDigits k (10 * f - of_int ?d))"
    by (auto split: if_splits)
  then show ?case
  proof cases
    case 1
    from d0 d9 have "nat ?d < 10" by linarith
    with 1 show ?thesis by (simp add: isDigit_digitChar)
  next
    case 2
    with Suc.IH [OF r0 r1] show ?thesis by simp
  qed
qed

lemma numChars_showFixed: "0 \<le> x \<Longrightarrow> numChars (showFixed x)"
proof -
  assume "0 \<le> x"
  have "\<And>c. c \<in> set (fracDigits 20 (x - of_int \<lfloor>x\<rfloor>)) \<Longrightarrow> isDigit c"
    by (rule fracDigits_digits [of "x - of_int \<lfloor>x\<rfloor>"]) (simp, linarith, simp)
  then show ?thesis
    using numChars_showNat [of "nat \<lfloor>x\<rfloor>"]
    by (auto simp: showFixed_def numChars_def)
qed

lemma numChars_showPositive: "0 \<le> x \<Longrightarrow> numChars (showPositive x)"
proof -
  assume x: "0 \<le> x"
  then have "0 \<le> x * 10 ^ smallExponent 400 x" by simp
  then have "numChars (showFixed (x * 10 ^ smallExponent 400 x))"
    by (rule numChars_showFixed)
  moreover have "numChars ''e-''" by (simp add: numChars_def)
  ultimately show ?thesis
    using x numChars_showFixed [of x] numChars_showNat
    by (simp add: showPositive_def Let_def numChars_append numChars_Cons)
qed

lemma numChars_showNum: "0 \<le> x \<Longrightarrow> numChars (showNum (Num x))"
  by (simp add: numChars_showPositive)

lemma showFixed_nonempty: "showFixed x \<noteq> []"
  by (simp add: showFixed_def showNat_nonempty)

lemma showNum_nonempty: "0 \<le> x \<Longrightarrow> showNum (Num x) \<noteq> []"
  by (simp add: showPositive_def Let_def showFixed_nonempty)

lemma numChars_clean: "numChars s \<Longrightarrow> c \<in> set s \<Longrightarrow> \<not> isSpace c \<and> c \<noteq> CHR '','' \<and> c \<noteq> CHR ''_''"
  by (auto simp: numChars_def isDigit_def isSpace_def)

subsection \<open>Reading a printed number back\<close>

lemma dropWhile_space_digits: "s \<noteq> [] \<Longrightarrow> isDigit (hd s) \<Longrightarrow> dropWhile isSpace s = s"
  by (cases s) (auto simp: isDigit_def isSpace_def)

lemma takeWhile_digits_dot:
  "\<forall>c \<in> set ds. isDigit c \<Longrightarrow> r = [] \<or> hd r = CHR ''.'' \<Longrightarrow> takeWhile isDigit (ds @ r) = ds"
  by (cases r) (auto simp: takeWhile_append isDigit_def)

lemma parseInt_showFixed:
  assumes "1 \<le> x"
  shows "parseInt (showFixed x) = Num (real (nat \<lfloor>x\<rfloor>))"
proof -
  let ?n = "nat \<lfloor>x\<rfloor>"
  let ?ds = "showNat ?n"
  obtain r where r: "showFixed x = ?ds @ r" "r = [] \<or> hd r = CHR ''.''"
    by (auto simp: showFixed_def)
  have n: "0 < ?n" using assms by simp
  have ne: "?ds \<noteq> []" by (rule showNat_nonempty)
  have dig: "\<forall>c \<in> set ?ds. isDigit c" using showNat_digits by blast
  have h: "hd (?ds @ r) = hd ?ds" using ne by simp
  have hdig: "isDigit (hd ?ds)" using ne dig by simp
  have h0: "hd ?ds \<noteq> CHR ''0''" using n by (rule showNat_hd)
  have nosign: "hd ?ds \<noteq> CHR ''-'' \<and> hd ?ds \<noteq> CHR ''+''"
    using hdig by (auto simp: isDigit_def)
  have dw: "dropWhile isSpace (?ds @ r) = ?ds @ r"
    using ne hdig h by (intro dropWhile_space_digits) auto
  have nohex: "\<not> startsWith (?ds @ r) ''0x'' \<and> \<not> startsWith (?ds @ r) ''0X''"
    using h0 ne by (cases ?ds) (auto simp: startsWith_def)
  have tw: "takeWhile isDigit (?ds @ r) = ?ds"
    using dig r(2) by (rule takeWhile_digits_dot)
  have "parseMagnitude (?ds @ r) = Some ?n"
    using nohex tw ne by (simp add: parseMagnitude_def digitsValue_showNat)
  then show ?thesis
    using dw nosign h ne by (simp add: parseInt_def r(1) Let_def)
qed

lemma showNum_large: "1 \<le> x \<Longrightarrow> showNum (Num x) = showFixed x"
proof -
  assume x: "1 \<le> x"
  have "(1::real) / 10 ^ 6 \<le> 1" by simp
  with x have "1 / 10 ^ 6 \<le> x" by linarith
  with x show ?thesis by (simp add: showPositive_def)
qed

lemma parseInt_showNum:
  "1 \<le> x \<Longrightarrow> parseInt (showNum (Num x)) = Num (real (nat \<lfloor>x\<rfloor>))"
  by (simp only: showNum_large parseInt_showFixed)

lemma clampNumber_range:
  assumes "lo \<le> hi" and "lo \<le> fb" and "fb \<le> hi"
  shows "\<exists>a. clampNumber v lo hi fb = Num a \<and> lo \<le> a \<and> a \<le> hi"
  using assms by (cases "toNumber v") (auto simp: clampNumber_def)


subsection \<open>Sanitized effect tokens\<close>

lemma split_nonempty: "split c s \<noteq> []"
  by (induction s) (auto split: list.splits)

lemma hd_split_append: "hd (split c (x @ c # r)) = hd (split c x)"
proof (induction x)
  case Nil
  show ?case by simp
next
  case (Cons a x)
  then show ?case
    using split_nonempty [of c "x @ c # r"] split_nonempty [of c x]
    by (auto split: list.splits)
qed

lemma natNum_real: "natNum (Num (real n))"
  by (auto simp: natNum_def)

lemma natNum_floor: "1 \<le> x \<Longrightarrow> natNum (parseInt (showNum (Num x)))"
  by (metis parseInt_showNum natNum_real)

lemma showNum_no_sep: "0 \<le> x \<Longrightarrow> CHR ''_'' \<notin> set (showNum (Num x))"
  using numChars_clean [OF numChars_showNum] by blast

lemma cleanToken_num: "0 \<le> x \<Longrightarrow> cleanToken (showNum (Num x))"
  unfolding cleanToken_def
  using numChars_clean [OF numChars_showNum] showNum_nonempty by blast

lemma cleanToken_append: "cleanToken a \<Longrightarrow> cleanToken b \<Longrightarrow> cleanToken (a @ b)"
  by (auto simp: cleanToken_def)

lemma tokenAmount_two:
  assumes "CHR ''_'' \<notin> set h" and "1 \<le> x"
  shows "natNum (tokenAmount (h @ ''_'' @ showNum (Num x)))"
proof -
  have x0: "0 \<le> x" using assms(2) by simp
  have "split CHR ''_'' (h @ ''_'' @ showNum (Num x)) = [h, showNum (Num x)]"
    using assms(1) showNum_no_sep [OF x0] by (simp add: split_append split_no_sep)
  then show ?thesis
    using showNum_nonempty [OF x0] natNum_floor [OF assms(2)]
    by (simp add: tokenAmount_def nth_opt_def)
qed

lemma tokenOk_other:
  assumes "hd (split CHR ''_'' h) \<notin> set statusHeads"
  shows "tokenOk (h @ ''_'' @ r)"
  using assms hd_split_append [of "CHR ''_''" h r] by (simp add: tokenOk_def)

lemma tokenOk_whole:
  assumes "hd (split CHR ''_'' t) \<notin> set statusHeads"
  shows "tokenOk t"
  using assms by (simp add: tokenOk_def)

lemma status_token:
  assumes "h \<in> set ALLOWED_ENEMY_STATUS \<union> set ALLOWED_PLAYER_STATUS" and "1 \<le> x"
  shows "tokenOk (h @ ''_'' @ showNum (Num x)) \<and> cleanToken (h @ ''_'' @ showNum (Num x))"
proof -
  from assms(1) have h: "CHR ''_'' \<notin> set h" and c: "cleanToken (h @ ''_'')"
    by (auto simp: ALLOWED_ENEMY_STATUS_def ALLOWED_PLAYER_STATUS_def cleanToken_def isSpace_def)
  from assms(2) have "cleanToken (showNum (Num x))" by (intro cleanToken_num) simp
  with c have "cleanToken ((h @ ''_'') @ showNum (Num x))" by (rule cleanToken_append)
  moreover have "tokenOk (h @ ''_'' @ showNum (Num x))"
    using tokenAmount_two [OF h assms(2)] by (simp add: tokenOk_def)
  ultimately show ?thesis by simp
qed

lemma amount_token:
  assumes "h \<in> {''draw'', ''energy'', ''heal'', ''lifesteal'', ''self_damage''}" and "0 \<le> x"
  shows "tokenOk (h @ ''_'' @ showNum (Num x)) \<and> cleanToken (h @ ''_'' @ showNum (Num x))"
proof -
  from assms(1) have h: "hd (split CHR ''_'' h) \<notin> set statusHeads" and c: "cleanToken (h @ ''_'')"
    by (auto simp: statusHeads_def cleanToken_def isSpace_def)
  from assms(2) have "cleanToken (showNum (Num x))" by (rule cleanToken_num)
  with c have "cleanToken ((h @ ''_'') @ showNum (Num x))" by (rule cleanToken_append)
  with tokenOk_other [OF h] show ?thesis by simp
qed

lemma recurring_token:
  assumes "h \<in> {''recurring'', ''turn_start'', ''start_turn''}"
    and "act \<in> set ALLOWED_RECURRING_ACTIONS" and "0 \<le> x"
  shows "tokenOk (h @ ''_'' @ act @ ''_'' @ showNum (Num x)) \<and>
         cleanToken (h @ ''_'' @ act @ ''_'' @ showNum (Num x))"
proof -
  from assms(1) have h: "hd (split CHR ''_'' h) \<notin> set statusHeads" and c: "cleanToken (h @ ''_'')"
    by (auto simp: statusHeads_def cleanToken_def isSpace_def)
  from assms(2) have a: "cleanToken (act @ ''_'')"
    by (auto simp: ALLOWED_RECURRING_ACTIONS_def cleanToken_def isSpace_def)
  from assms(3) have "cleanToken (showNum (Num x))" by (rule cleanToken_num)
  with a have "cleanToken ((act @ ''_'') @ showNum (Num x))" by (rule cleanToken_append)
  with c have "cleanToken ((h @ ''_'') @ (act @ ''_'') @ showNum (Num x))"
    by (rule cleanToken_append)
  with tokenOk_other [OF h] show ?thesis by simp
qed

lemma fetch_token:
  assumes "h \<in> {''fetch'', ''recover''}" and "src \<in> set ALLOWED_FETCH_SOURCES"
  shows "tokenOk (h @ ''_'' @ src) \<and> cleanToken (h @ ''_'' @ src)"
    and "f \<in> set ALLOWED_FETCH_FILTERS \<Longrightarrow>
         tokenOk (h @ ''_'' @ src @ ''_'' @ f) \<and> cleanToken (h @ ''_'' @ src @ ''_'' @ f)"
proof -
  from assms(1) have h: "hd (split CHR ''_'' h) \<notin> set statusHeads" and c: "cleanToken (h @ ''_'')"
    by (auto simp: statusHeads_def cleanToken_def isSpace_def)
  from assms(2) have s: "cleanToken src" and s': "cleanToken (src @ ''_'')"
    by (auto simp: ALLOWED_FETCH_SOURCES_def cleanToken_def isSpace_def)
  from c s have "cleanToken ((h @ ''_'') @ src)" by (rule cleanToken_append)
  with tokenOk_other [OF h] show "tokenOk (h @ ''_'' @ src) \<and> cleanToken (h @ ''_'' @ src)"
    by simp
  assume "f \<in> set ALLOWED_FETCH_FILTERS"
  then have "cleanToken f"
    by (auto simp: ALLOWED_FETCH_FILTERS_def cleanToken_def isSpace_def)
  with s' have "cleanToken ((src @ ''_'') @ f)" by (rule cleanToken_append)
  with c have "cleanToken ((h @ ''_'') @ (src @ ''_'') @ f)" by (rule cleanToken_append)
  with tokenOk_other [OF h]
  show "tokenOk (h @ ''_'' @ src @ ''_'' @ f) \<and> cleanToken (h @ ''_'' @ src @ ''_'' @ f)"
    by simp
qed


lemma has_Some: "has xs v \<Longrightarrow> \<exists>x. v = Some x \<and> x \<in> set xs"
  by (cases v) auto

lemma sanitized_token:
  assumes "sanitizeEffectToken raw = Some t"
  shows "tokenOk t \<and> cleanToken t"
proof -
  define parts where "parts = filter (\<lambda>p. p \<noteq> []) (map trim (split CHR ''_'' (toLowerCase (trim raw))))"
  obtain a1 where a1: "clampNumber (partOr parts 1 1) 1 50 1 = Num a1" "1 \<le> a1"
    using clampNumber_range [of 1 50 1 "partOr parts 1 1"] by auto
  obtain a2 where a2: "clampNumber (partOr parts 1 0) 0 50 0 = Num a2" "0 \<le> a2"
    using clampNumber_range [of 0 50 0 "partOr parts 1 0"] by auto
  obtain a3 where a3: "clampNumber (partOr parts 2 0) 0 30 0 = Num a3" "0 \<le> a3"
    using clampNumber_range [of 0 30 0 "partOr parts 2 0"] by auto
  obtain a4 where a4: "clampNumber (partOr parts 2 1) 1 50 1 = Num a4" "0 \<le> a4"
    using clampNumber_range [of 1 50 1 "partOr parts 2 1"] by auto
  have st: "hd parts \<in> set ALLOWED_ENEMY_STATUS \<or> hd parts \<in> set ALLOWED_PLAYER_STATUS \<Longrightarrow>
            tokenOk (hd parts @ ''_'' @ showNum (Num a1)) \<and>
            cleanToken (hd parts @ ''_'' @ showNum (Num a1))"
    using status_token [of "hd parts" a1] a1(2) by blast
  have am: "hd parts = ''draw'' \<or> hd parts = ''energy'' \<or> hd parts = ''heal'' \<or>
            hd parts = ''lifesteal'' \<Longrightarrow>
            tokenOk (hd parts @ ''_'' @ showNum (Num a2)) \<and>
            cleanToken (hd parts @ ''_'' @ showNum (Num a2))"
    using amount_token [of "hd parts" a2] a2(2) by blast
  have sd: "tokenOk (''self_damage_'' @ showNum (Num a3)) \<and>
            cleanToken (''self_damage_'' @ showNum (Num a3))"
    using amount_token [of "''self_damage''" a3] a3(2) by simp
  have rc: "\<And>act. hd parts = ''recurring'' \<or> hd parts = ''turn_start'' \<or> hd parts = ''start_turn'' \<Longrightarrow>
            act \<in> set ALLOWED_RECURRING_ACTIONS \<Longrightarrow>
            tokenOk (hd parts @ ''_'' @ act @ ''_'' @ showNum (Num a4)) \<and>
            cleanToken (hd parts @ ''_'' @ act @ ''_'' @ showNum (Num a4))"
    using recurring_token [of "hd parts" _ a4] a4(2) by blast
  have ft: "\<And>src. hd parts = ''fetch'' \<or> hd parts = ''recover'' \<Longrightarrow>
            src \<in> set ALLOWED_FETCH_SOURCES \<Longrightarrow>
            tokenOk (hd parts @ ''_'' @ src) \<and> cleanToken (hd parts @ ''_'' @ src)"
    using fetch_token(1) [of "hd parts"] by blast
  have ff: "\<And>src f. hd parts = ''fetch'' \<or> hd parts = ''recover'' \<Longrightarrow>
            src \<in> set ALLOWED_FETCH_SOURCES \<Longrightarrow> f \<in> set ALLOWED_FETCH_FILTERS \<Longrightarrow>
            tokenOk (hd parts @ ''_'' @ src @ ''_'' @ f) \<and>
            cleanToken (hd parts @ ''_'' @ src @ ''_'' @ f)"
    using fetch_token(2) [of "hd parts"] by blast
  from assms show ?thesis
    unfolding sanitizeEffectToken_def Let_def parts_def [symmetric]
    by (simp only: a1 a2 a3 a4 split: if_splits)
       (use st am sd rc ft ff in \<open>auto simp del: showNum.simps append.simps dest!: has_Some\<close>)
qed


subsection \<open>The special effects of the cards in a game\<close>

lemma clean_tokens_roundtrip:
  assumes "toks \<noteq> []" and "\<forall>t \<in> set toks. cleanToken t"
  shows "map trim (split CHR '','' (join '','' toks)) = toks"
proof -
  from assms(2) have "\<forall>t \<in> set toks. CHR '','' \<notin> set t"
    by (auto simp: cleanToken_def)
  with assms(1) have "split CHR '','' (join '','' toks) = toks"
    by (rule split_join)
  moreover have "map trim toks = toks"
    using assms(2) by (intro map_idI trim_noop) (auto simp: cleanToken_def)
  ultimately show ?thesis by simp
qed

lemma effectOk_tokens:
  assumes "toks \<noteq> []" and "\<forall>t \<in> set toks. tokenOk t \<and> cleanToken t"
  shows "effectOk (join '','' toks)"
  using assms clean_tokens_roundtrip [of toks] by (simp add: effectOk_def)

lemma sanitized_effect:
  assumes "sanitizeSpecialEffect raw = Some s"
  shows "effectOk s"
proof -
  from assms obtain str where raw: "raw = Some (JStr str)"
    by (auto simp: sanitizeSpecialEffect_def split: option.splits json.splits)
  define toks where "toks = filter (\<lambda>t. t \<noteq> [])
      (map the (filter (\<lambda>t. t \<noteq> None) (map sanitizeEffectToken (split CHR '','' str))))"
  from assms raw have s: "toks \<noteq> []" "s = join '','' toks"
    by (auto simp: sanitizeSpecialEffect_def Let_def toks_def split: if_splits)
  have "\<forall>t \<in> set toks. tokenOk t \<and> cleanToken t"
  proof
    fix t assume "t \<in> set toks"
    then obtain piece where "sanitizeEffectToken piece = Some t"
      by (auto simp: toks_def)
    then show "tokenOk t \<and> cleanToken t" by (rule sanitized_token)
  qed
  with s show ?thesis by (simp add: effectOk_tokens)
qed

lemma effectOk_single:
  assumes "tokenOk t" and "cleanToken t"
  shows "effectOk t"
  using effectOk_tokens [of "[t]"] assms by simp

lemma showNum_small: "showNum (Num 2) = ''2''" "showNum (Num 4) = ''4''" "showNum (Num 5) = ''5''"
  by code_simp+

lemma fixed_status_effect:
  assumes "h \<in> set ALLOWED_ENEMY_STATUS \<union> set ALLOWED_PLAYER_STATUS" and "1 \<le> x"
    and "s = h @ ''_'' @ showNum (Num x)"
  shows "effectOk s"
  using status_token [OF assms(1,2)] assms(3) by (simp only: effectOk_single)

lemma fixed_effects:
  "effectOk ''vulnerable_2''" "effectOk ''poison_4''" "effectOk ''burn_5''"
  "effectOk ''fetch_draw_attack''"
proof -
  show "effectOk ''vulnerable_2''"
    by (rule fixed_status_effect [of "''vulnerable''" 2])
       (simp_all add: showNum_small ALLOWED_ENEMY_STATUS_def del: showNum.simps)
  show "effectOk ''poison_4''"
    by (rule fixed_status_effect [of "''poison''" 4])
       (simp_all add: showNum_small ALLOWED_ENEMY_STATUS_def del: showNum.simps)
  show "effectOk ''burn_5''"
    by (rule fixed_status_effect [of "''burn''" 5])
       (simp_all add: showNum_small ALLOWED_ENEMY_STATUS_def del: showNum.simps)
  show "effectOk ''fetch_draw_attack''"
    by (intro effectOk_single tokenOk_whole)
       (simp_all add: statusHeads_def cleanToken_def isSpace_def)
qed

lemma contentCard_ok: "contentCard c \<Longrightarrow> cardOk c"
proof (induction rule: contentCard.induct)
  case (starting c)
  then show ?case
    by (auto simp: getInitialDeck_def createStrike_def createDefend_def createBash_def
          cardOk_def fixed_effects)
next
  case (sanitized rnd raw c)
  then have "specialEffect c = sanitizeSpecialEffect (field raw ''specialEffect'')"
    by (auto simp: sanitizeCard_def split: option.splits)
  then show ?case
    using sanitized_effect by (auto simp: cardOk_def split: option.splits)
next
  case (mock c lvl now)
  then show ?case
    by (auto simp: mockGenerateCards_def cardOk_def fixed_effects)
next
  case (mock_shop c lvl now r pr)
  then show ?case
    by (auto simp: mockGenerateCards_def cardOk_def fixed_effects)
qed

lemma nth_opt_simps:
  "nth_opt [] k = None"
  "nth_opt (x # xs) 0 = Some x"
  "nth_opt (x # xs) (Suc n) = nth_opt xs n"
  "nth_opt (x # xs) 1 = nth_opt xs 0"
  "nth_opt (x # xs) (numeral m) = nth_opt xs (pred_numeral m)"
  by (simp_all add: nth_opt_def numeral_eq_Suc)

lemma two_words:
  assumes "t1 \<in> set [''start'', ''end'', ''turn'', ''play'', ''shop'']" and "CHR ''_'' \<notin> set t1" and "CHR ''_'' \<notin> set t2"
  shows "\<exists>a b. t1 @ ''_'' @ t2 = a @ ''_'' @ b \<and> a \<in> set [''start'', ''end'', ''turn'', ''play'', ''shop''] \<and>
               CHR ''_'' \<notin> set a \<and> CHR ''_'' \<notin> set b"
  using assms by blast

lemma trigger_words:
  assumes "trig \<in> set ALLOWED_RELIC_TRIGGERS"
  shows "\<exists>a b. trig = a @ ''_'' @ b \<and> a \<in> set [''start'', ''end'', ''turn'', ''play'', ''shop''] \<and>
               CHR ''_'' \<notin> set a \<and> CHR ''_'' \<notin> set b"
proof -
  have s: "''start_combat'' = ''start'' @ ''_'' @ ''combat''"
          "''end_combat'' = ''end'' @ ''_'' @ ''combat''"
          "''turn_start'' = ''turn'' @ ''_'' @ ''start''"
          "''play_attack'' = ''play'' @ ''_'' @ ''attack''"
          "''play_skill'' = ''play'' @ ''_'' @ ''skill''"
          "''play_power'' = ''play'' @ ''_'' @ ''power''"
          "''shop_enter'' = ''shop'' @ ''_'' @ ''enter''"
    by simp_all
  from assms have "trig = ''start_combat'' \<or> trig = ''end_combat'' \<or> trig = ''turn_start'' \<or>
      trig = ''play_attack'' \<or> trig = ''play_skill'' \<or> trig = ''play_power'' \<or>
      trig = ''shop_enter''"
    by (simp add: ALLOWED_RELIC_TRIGGERS_def)
  then show ?thesis
    apply (elim disjE)
          apply (simp_all only: s)
          apply (rule two_words; simp)+
    done
qed

lemma decode_two_words:
  assumes "t1 \<in> set [''start'', ''end'', ''turn'', ''play'', ''shop'']"
    and "CHR ''_'' \<notin> set t1" and "CHR ''_'' \<notin> set t2"
  shows "decodeRelic trigger (t1 @ ''_'' @ t2 @ ''_'' @ rest) =
           (if nth_opt (split CHR ''_'' rest) 0 = Some ''apply''
            then \<lparr> rTrigger = t1 @ ''_'' @ t2, rAction = nth_opt (split CHR ''_'' rest) 1,
                   rAmount = parseInt (strOr (nth_opt (split CHR ''_'' rest) 2) ''1'') \<rparr>
            else \<lparr> rTrigger = t1 @ ''_'' @ t2, rAction = nth_opt (split CHR ''_'' rest) 0,
                   rAmount = parseInt (strOr (nth_opt (split CHR ''_'' rest) 1) ''1'') \<rparr>)"
proof -
  have sp: "split CHR ''_'' (t1 @ ''_'' @ t2 @ ''_'' @ rest) = t1 # t2 # split CHR ''_'' rest"
    using assms(2,3) by (simp add: split_append del: split.simps)
  have n: "nth_opt (t1 # t2 # split CHR ''_'' rest) 1 = Some t2"
          "nth_opt (t1 # t2 # split CHR ''_'' rest) 2 = nth_opt (split CHR ''_'' rest) 0"
          "nth_opt (t1 # t2 # split CHR ''_'' rest) 3 = nth_opt (split CHR ''_'' rest) 1"
          "nth_opt (t1 # t2 # split CHR ''_'' rest) 4 = nth_opt (split CHR ''_'' rest) 2"
    by (simp_all add: nth_opt_simps del: split.simps)
  show ?thesis
    unfolding decodeRelic_def Let_def sp
    by (simp only: n list.sel templated.simps if_P [OF assms(1)])
qed


lemma decode_apply_shape:
  assumes "trig \<in> set ALLOWED_RELIC_TRIGGERS" and "st \<in> set ALLOWED_RELIC_APPLY"
    and "CHR ''_'' \<notin> set num" and "num \<noteq> []" and "natNum (parseInt num)"
  shows "natNum (rAmount (decodeRelic trigger (trig @ ''_apply_'' @ st @ ''_'' @ num)))"
proof -
  from assms(1) obtain t1 t2 where t: "trig = t1 @ ''_'' @ t2"
    "t1 \<in> set [''start'', ''end'', ''turn'', ''play'', ''shop'']"
    "CHR ''_'' \<notin> set t1" "CHR ''_'' \<notin> set t2"
    using trigger_words by blast
  from assms(2) have st: "CHR ''_'' \<notin> set st"
    by (auto simp: ALLOWED_RELIC_APPLY_def)
  have a: "CHR ''_'' \<notin> set ''apply''" by simp
  have "split CHR ''_'' (''apply'' @ CHR ''_'' # (st @ CHR ''_'' # num)) = [''apply'', st, num]"
    by (simp only: split_append [OF a] split_append [OF st] split_no_sep [OF assms(3)])
  then have sp: "split CHR ''_'' (''apply_'' @ st @ ''_'' @ num) = [''apply'', st, num]"
    by simp
  have e: "trig @ ''_apply_'' @ st @ ''_'' @ num =
           t1 @ ''_'' @ t2 @ ''_'' @ (''apply_'' @ st @ ''_'' @ num)"
    by (simp add: t(1))
  show ?thesis
    unfolding e decode_two_words [OF t(2,3,4)] sp
    using assms(4,5) by (simp add: nth_opt_simps)
qed


lemma parseInt_one: "parseInt ''1'' = Num (real 1)"
  by code_simp

lemma decode_simple_action:
  assumes "trig \<in> set ALLOWED_RELIC_TRIGGERS" and "CHR ''_'' \<notin> set act"
    and "CHR ''_'' \<notin> set num" and "num \<noteq> []" and "natNum (parseInt num)"
  shows "natNum (rAmount (decodeRelic trigger (trig @ ''_'' @ act @ ''_'' @ num)))"
proof -
  from assms(1) obtain t1 t2 where t: "trig = t1 @ ''_'' @ t2"
    "t1 \<in> set [''start'', ''end'', ''turn'', ''play'', ''shop'']"
    "CHR ''_'' \<notin> set t1" "CHR ''_'' \<notin> set t2"
    using trigger_words by blast
  have "split CHR ''_'' (act @ CHR ''_'' # num) = [act, num]"
    by (simp only: split_append [OF assms(2)] split_no_sep [OF assms(3)])
  then have sp: "split CHR ''_'' (act @ ''_'' @ num) = [act, num]"
    by simp
  have e: "trig @ ''_'' @ act @ ''_'' @ num = t1 @ ''_'' @ t2 @ ''_'' @ (act @ ''_'' @ num)"
    by (simp add: t(1))
  have one: "natNum (parseInt ''1'')"
    using natNum_real [of 1] parseInt_one by simp
  show ?thesis
    unfolding e decode_two_words [OF t(2,3,4)] sp
    using assms(4,5) one by (simp add: nth_opt_simps)
qed

lemma decode_max_hp_action:
  assumes "trig \<in> set ALLOWED_RELIC_TRIGGERS" and "CHR ''_'' \<notin> set num"
  shows "rAction (decodeRelic trigger (trig @ ''_'' @ ''max_hp'' @ ''_'' @ num)) = Some ''max''"
proof -
  from assms(1) obtain t1 t2 where t: "trig = t1 @ ''_'' @ t2"
    "t1 \<in> set [''start'', ''end'', ''turn'', ''play'', ''shop'']"
    "CHR ''_'' \<notin> set t1" "CHR ''_'' \<notin> set t2"
    using trigger_words by blast
  have m: "CHR ''_'' \<notin> set ''max''" and h: "CHR ''_'' \<notin> set ''hp''" by simp_all
  have "split CHR ''_'' (''max'' @ CHR ''_'' # (''hp'' @ CHR ''_'' # num)) = [''max'', ''hp'', num]"
    by (simp only: split_append [OF m] split_append [OF h] split_no_sep [OF assms(2)])
  then have sp: "split CHR ''_'' (''max_hp'' @ ''_'' @ num) = [''max'', ''hp'', num]"
    by simp
  have e: "trig @ ''_'' @ ''max_hp'' @ ''_'' @ num =
           t1 @ ''_'' @ t2 @ ''_'' @ (''max_hp'' @ ''_'' @ num)"
    by (simp add: t(1))
  show ?thesis
    unfolding e decode_two_words [OF t(2,3,4)] sp
    by (simp add: nth_opt_simps)
qed

lemma decode_max_hp_shape:
  assumes "CHR ''_'' \<notin> set num"
  shows "rAction (decodeRelic trigger (''max_hp_'' @ num)) \<in> {Some ''max'', Some ''hp''}"
proof -
  have m: "CHR ''_'' \<notin> set ''max''" and h: "CHR ''_'' \<notin> set ''hp''" by simp_all
  have "split CHR ''_'' (''max'' @ CHR ''_'' # (''hp'' @ CHR ''_'' # num)) = [''max'', ''hp'', num]"
    by (simp only: split_append [OF m] split_append [OF h] split_no_sep [OF assms])
  then have sp: "split CHR ''_'' (''max_hp_'' @ num) = [''max'', ''hp'', num]"
    by simp
  show ?thesis
    unfolding decodeRelic_def Let_def sp
    by (simp add: nth_opt_simps)
qed

lemma relic_statuses_not: "Some ''max'' \<notin> Some ` set relicStatuses" "Some ''hp'' \<notin> Some ` set relicStatuses"
  by (simp_all add: relicStatuses_def)

lemma decode_action_shape:
  assumes "trig \<in> set ALLOWED_RELIC_TRIGGERS" and "act \<in> set ALLOWED_RELIC_ACTIONS"
    and "CHR ''_'' \<notin> set num" and "num \<noteq> []" and "natNum (parseInt num)"
  shows "rAction (decodeRelic trigger (trig @ ''_'' @ act @ ''_'' @ num)) \<in> Some ` set relicStatuses
         \<longrightarrow> natNum (rAmount (decodeRelic trigger (trig @ ''_'' @ act @ ''_'' @ num)))"
proof (cases "act = ''max_hp''")
  case True
  then show ?thesis
    using decode_max_hp_action [OF assms(1,3)] relic_statuses_not by simp
next
  case False
  with assms(2) have "CHR ''_'' \<notin> set act"
    by (auto simp: ALLOWED_RELIC_ACTIONS_def)
  then show ?thesis
    using decode_simple_action [OF assms(1) _ assms(3,4,5)] by blast
qed


lemma relic_amount:
  assumes "1 \<le> fb" and "fb \<le> 50"
  shows "CHR ''_'' \<notin> set (showNum (clampNumber v 1 50 fb)) \<and>
         showNum (clampNumber v 1 50 fb) \<noteq> [] \<and>
         natNum (parseInt (showNum (clampNumber v 1 50 fb)))"
proof -
  obtain a where a: "clampNumber v 1 50 fb = Num a" "1 \<le> a"
    using clampNumber_range [of 1 50 fb v] assms by auto
  then have "0 \<le> a" by simp
  then show ?thesis
    unfolding a(1)
    using showNum_no_sep showNum_nonempty natNum_floor [OF a(2)] by blast
qed

lemma sanitized_relic_effect:
  assumes "sanitizeRelicEffectType raw = Some e"
  shows "rAction (decodeRelic trigger e) \<in> Some ` set relicStatuses
         \<longrightarrow> natNum (rAmount (decodeRelic trigger e))"
proof -
  have sc: "''start_combat'' \<in> set ALLOWED_RELIC_TRIGGERS"
    by (simp add: ALLOWED_RELIC_TRIGGERS_def)
  from assms obtain s where raw: "raw = Some (JStr s)"
    by (cases raw; cases "the raw") (auto simp: sanitizeRelicEffectType_def)
  define parts where "parts = filter (\<lambda>p. p \<noteq> []) (map trim (split CHR ''_'' (toLowerCase s)))"
  define two where "two = (length parts \<ge> 2 \<and>
                            (parts ! 0 @ ''_'' @ parts ! 1) \<in> set ALLOWED_RELIC_TRIGGERS)"
  define one where "one = (\<not> two \<and> parts ! 0 \<in> set ALLOWED_RELIC_TRIGGERS)"
  define trig where "trig = (if two then parts ! 0 @ ''_'' @ parts ! 1
                                else if one then parts ! 0 else ''start_combat'')"
  define idx :: nat where "idx = (if two then 2 else if one then 1 else 0)"
  have trig: "trig \<in> set ALLOWED_RELIC_TRIGGERS"
    using sc by (simp add: trig_def two_def one_def)
  define rest where "rest = (case nth_opt parts idx of
                      None \<Rightarrow> None
                    | Some action \<Rightarrow>
                        (if action = ''apply'' then
                           (if \<not> has ALLOWED_RELIC_APPLY (nth_opt parts (idx + 1)) then None
                            else Some (trig @ ''_apply_'' @ the (nth_opt parts (idx + 1)) @ ''_'' @
                                       showNum (clampNumber (partOr parts (idx + 2) 1) 1 50 1)))
                         else if action = ''max'' \<and> nth_opt parts (idx + 1) = Some ''hp'' then
                           Some (''max_hp_'' @ showNum (clampNumber (partOr parts (idx + 2) 5) 1 50 5))
                         else if action \<notin> set ALLOWED_RELIC_ACTIONS then None
                         else Some (trig @ ''_'' @ action @ ''_'' @
                                    showNum (clampNumber (partOr parts (idx + 1) 1) 1 50 1))))"
  have un: "sanitizeRelicEffectType raw =
            (if trim s = [] then None else if parts = [] then None else rest)"
    unfolding rest_def idx_def trig_def one_def two_def parts_def
    by (simp only: raw sanitizeRelicEffectType_def Let_def option.case json.case)
  have "rest = Some e"
    using assms unfolding un by (simp split: if_splits)
  then have body: "(case nth_opt parts idx of
                      None \<Rightarrow> None
                    | Some action \<Rightarrow>
                        (if action = ''apply'' then
                           (if \<not> has ALLOWED_RELIC_APPLY (nth_opt parts (idx + 1)) then None
                            else Some (trig @ ''_apply_'' @ the (nth_opt parts (idx + 1)) @ ''_'' @
                                       showNum (clampNumber (partOr parts (idx + 2) 1) 1 50 1)))
                         else if action = ''max'' \<and> nth_opt parts (idx + 1) = Some ''hp'' then
                           Some (''max_hp_'' @ showNum (clampNumber (partOr parts (idx + 2) 5) 1 50 5))
                         else if action \<notin> set ALLOWED_RELIC_ACTIONS then None
                         else Some (trig @ ''_'' @ action @ ''_'' @
                                    showNum (clampNumber (partOr parts (idx + 1) 1) 1 50 1)))) = Some e"
    unfolding rest_def .
  then obtain action where action: "nth_opt parts idx = Some action"
    by (cases "nth_opt parts idx") simp_all
  have shape:
    "(\<exists>trig st v. trig \<in> set ALLOWED_RELIC_TRIGGERS \<and> st \<in> set ALLOWED_RELIC_APPLY \<and>
        e = trig @ ''_apply_'' @ st @ ''_'' @ showNum (clampNumber v 1 50 1)) \<or>
     (\<exists>v. e = ''max_hp_'' @ showNum (clampNumber v 1 50 5)) \<or>
     (\<exists>trig act v. trig \<in> set ALLOWED_RELIC_TRIGGERS \<and> act \<in> set ALLOWED_RELIC_ACTIONS \<and>
        e = trig @ ''_'' @ act @ ''_'' @ showNum (clampNumber v 1 50 1))"
  proof (cases "action = ''apply''")
    case True
    with body action obtain st where "nth_opt parts (idx + 1) = Some st" "st \<in> set ALLOWED_RELIC_APPLY"
      "e = trig @ ''_apply_'' @ st @ ''_'' @ showNum (clampNumber (partOr parts (idx + 2) 1) 1 50 1)"
      by (cases "nth_opt parts (idx + 1)") (simp_all split: if_splits)
    with trig show ?thesis by blast
  next
    case False
    show ?thesis
    proof (cases "action = ''max'' \<and> nth_opt parts (idx + 1) = Some ''hp''")
      case True
      with body action False have "e = ''max_hp_'' @ showNum (clampNumber (partOr parts (idx + 2) 5) 1 50 5)"
        by simp
      then show ?thesis by blast
    next
      case nm: False
      with body action False have "action \<in> set ALLOWED_RELIC_ACTIONS"
        "e = trig @ ''_'' @ action @ ''_'' @ showNum (clampNumber (partOr parts (idx + 1) 1) 1 50 1)"
        by (simp_all split: if_splits)
      with trig show ?thesis by blast
    qed
  qed
  then show ?thesis
  proof (elim disjE exE conjE)
    fix trig st v
    assume "trig \<in> set ALLOWED_RELIC_TRIGGERS" "st \<in> set ALLOWED_RELIC_APPLY"
      and e: "e = trig @ ''_apply_'' @ st @ ''_'' @ showNum (clampNumber v 1 50 1)"
    then show ?thesis
      unfolding e using decode_apply_shape relic_amount [of 1 v] by simp
  next
    fix v
    assume e: "e = ''max_hp_'' @ showNum (clampNumber v 1 50 5)"
    show ?thesis
      unfolding e
      using decode_max_hp_shape [of "showNum (clampNumber v 1 50 5)" trigger]
        relic_amount [of 5 v] relic_statuses_not by auto
  next
    fix trig act v
    assume "trig \<in> set ALLOWED_RELIC_TRIGGERS" "act \<in> set ALLOWED_RELIC_ACTIONS"
      and e: "e = trig @ ''_'' @ act @ ''_'' @ showNum (clampNumber v 1 50 1)"
    then show ?thesis
      unfolding e using decode_action_shape relic_amount [of 1 v] by simp
  qed
qed

lemma parseInt_six: "parseInt ''6'' = Num (real 6)"
  by code_simp

lemma parseInt_ten: "parseInt ''10'' = Num (real 10)"
  by code_simp

lemma mock_relic_ok: "relicOk (mockGenerateRelic now)"
proof -
  have t: "''end_combat'' \<in> set ALLOWED_RELIC_TRIGGERS"
    by (simp add: ALLOWED_RELIC_TRIGGERS_def)
  have n: "natNum (parseInt ''6'')"
    unfolding parseInt_six by (rule natNum_real)
  have "natNum (rAmount (decodeRelic trigger (''end_combat'' @ ''_'' @ ''heal'' @ ''_'' @ ''6'')))"
    for trigger
    by (rule decode_simple_action [OF t _ _ _ n]) simp_all
  then show ?thesis
    by (simp add: relicOk_def mockGenerateRelic_def)
qed

lemma mock_anchor_ok: "relicOk mockAnchor"
proof -
  have t: "''start_combat'' \<in> set ALLOWED_RELIC_TRIGGERS"
    by (simp add: ALLOWED_RELIC_TRIGGERS_def)
  have n: "natNum (parseInt ''10'')"
    unfolding parseInt_ten by (rule natNum_real)
  have "natNum (rAmount (decodeRelic trigger (''start_combat'' @ ''_'' @ ''block'' @ ''_'' @ ''10'')))"
    for trigger
    by (rule decode_simple_action [OF t _ _ _ n]) simp_all
  then show ?thesis
    by (simp add: relicOk_def mockAnchor_def)
qed

lemma contentRelic_ok: "contentRelic r \<Longrightarrow> relicOk r"
proof (induction rule: contentRelic.induct)
  case (sanitized_relic rnd raw r)
  then obtain e where "sanitizeRelicEffectType (field raw ''effectType'') = Some e" "effectType r = e"
    by (auto simp: sanitizeRelic_def split: option.splits)
  then show ?case
    unfolding relicOk_def using sanitized_relic_effect by blast
qed (rule mock_relic_ok mock_anchor_ok)+

subsection \<open>Natural counters\<close>

lemma natNum_jadd: "natNum a \<Longrightarrow> natNum b \<Longrightarrow> natNum (jadd a b)"
  unfolding natNum_def
proof (elim exE)
  fix n m :: nat
  assume "a = Num (real n)" "b = Num (real m)"
  then have "jadd a b = Num (real (n + m))" by simp
  then show "\<exists>k::nat. jadd a b = Num (real k)" by blast
qed

lemma natNum_zero: "natNum (Num 0)"
  using natNum_real [of 0] by simp

lemma natNum_one: "natNum (Num 1)"
  using natNum_real [of 1] by simp

lemma natNum_orElse: "natCounters st \<Longrightarrow> natNum (orElse (st k) (Num 0))"
  by (cases "st k") (auto simp: natCounters_def natNum_zero)

lemma natCounters_empty: "natCounters Map.empty"
  by (simp add: natCounters_def)

lemma natCounters_upd: "natCounters st \<Longrightarrow> natNum v \<Longrightarrow> natCounters (st(k \<mapsto> v))"
  by (simp add: natCounters_def)

lemma natCounters_addStatus:
  "natCounters st \<Longrightarrow> natNum a \<Longrightarrow> natCounters (addStatus k a st)"
  unfolding addStatus_def
  by (intro natCounters_upd natNum_jadd natNum_orElse)

lemma natNum_pred:
  assumes "natNum v" and "truthy v"
  shows "natNum (jsub v (Num 1))"
proof -
  from assms(1) obtain n :: nat where v: "v = Num (real n)"
    by (auto simp: natNum_def)
  with assms(2) have "0 < n" by simp
  then have "jsub v (Num 1) = Num (real (n - 1))"
    by (simp add: v of_nat_diff)
  then show ?thesis
    unfolding natNum_def by blast
qed

lemma natCounters_decrement: "natCounters st \<Longrightarrow> natCounters (decrement k st)"
proof (cases "st k")
  case None
  assume "natCounters st"
  with None show ?thesis by (simp add: decrement_def)
next
  case (Some v)
  assume st: "natCounters st"
  then have "natNum v" using Some by (simp add: natCounters_def)
  then show ?thesis
    using st Some by (simp add: decrement_def natCounters_upd natNum_pred)
qed

lemma parseInt_digits:
  assumes "ds \<noteq> []" and "\<forall>c \<in> set ds. isDigit c"
  shows "natNum (parseInt ds)"
proof -
  have hdig: "isDigit (hd ds)" using assms by simp
  have dw: "dropWhile isSpace ds = ds"
    using assms(1) hdig by (rule dropWhile_space_digits)
  have nosign: "hd ds \<noteq> CHR ''-'' \<and> hd ds \<noteq> CHR ''+''"
    using hdig by (auto simp: isDigit_def)
  have x: "\<not> isDigit CHR ''x''" "\<not> isDigit CHR ''X''"
    by (simp_all add: isDigit_def)
  have nohex: "\<not> startsWith ds ''0x'' \<and> \<not> startsWith ds ''0X''"
  proof (cases ds)
    case Nil
    with assms(1) show ?thesis by simp
  next
    case (Cons a r)
    show ?thesis
    proof (cases r)
      case Nil
      with Cons show ?thesis by (simp add: startsWith_def)
    next
      case (Cons b r')
      with \<open>ds = a # r\<close> assms(2) have "isDigit b" by simp
      with x have "b \<noteq> CHR ''x''" "b \<noteq> CHR ''X''" by auto
      with Cons \<open>ds = a # r\<close> show ?thesis by (simp add: startsWith_def)
    qed
  qed
  have tw: "takeWhile isDigit ds = ds"
    using assms(2) by (simp add: takeWhile_eq_all_conv)
  have "parseMagnitude ds = Some (digitsValue ds)"
    using nohex assms(1) by (simp add: parseMagnitude_def Let_def tw)
  then have "parseInt ds = Num (real (digitsValue ds))"
    using dw nosign assms(1) by (simp add: parseInt_def Let_def)
  then show ?thesis
    by (simp add: natNum_real)
qed


subsection \<open>Updates of the player and the enemy\<close>

lemma playerOk_mono:
  assumes "playerOk p" and "natCounters (statuses q)"
    and "cardsOf q \<subseteq> cardsOf p \<union> C" and "\<forall>c \<in> C. cardOk c"
    and "set (relics q) \<subseteq> set (relics p) \<union> R" and "\<forall>r \<in> R. relicOk r"
  shows "playerOk q"
  unfolding playerOk_def
proof (intro conjI ballI)
  show "natCounters (statuses q)" by (rule assms(2))
next
  fix c assume "c \<in> cardsOf q"
  with assms(3) have "c \<in> cardsOf p \<or> c \<in> C" by blast
  with assms(1,4) show "cardOk c" by (auto simp: playerOk_def)
next
  fix r assume "r \<in> set (relics q)"
  with assms(5) have "r \<in> set (relics p) \<or> r \<in> R" by blast
  with assms(1,6) show "relicOk r" by (auto simp: playerOk_def)
qed

lemma playerOk_same:
  assumes "playerOk p" and "statuses q = statuses p" and "cardsOf q \<subseteq> cardsOf p"
    and "relics q = relics p"
  shows "playerOk q"
  using assms by (intro playerOk_mono [where C = "{}" and R = "{}", OF assms(1)])
    (auto simp: playerOk_def)

lemma playerOk_cards:
  assumes "playerOk p" and "statuses q = statuses p" and "cardsOf q \<subseteq> cardsOf p \<union> {c}"
    and "cardOk c" and "relics q = relics p"
  shows "playerOk q"
  using assms by (intro playerOk_mono [where C = "{c}" and R = "{}", OF assms(1)])
    (auto simp: playerOk_def)

lemma playerOk_counters:
  "playerOk p \<Longrightarrow> natCounters st \<Longrightarrow> playerOk (p\<lparr> statuses := st \<rparr>)"
  by (simp add: playerOk_def cardsOf_def)

lemma playerOk_statuses: "playerOk p \<Longrightarrow> natCounters (statuses p)"
  by (simp add: playerOk_def)

lemma enemyOk_counters: "natCounters st \<Longrightarrow> enemyOk (e\<lparr> statuses := st \<rparr>)"
  by (simp add: enemyOk_def)

lemma gameOk_setPlayer: "gameOk g \<Longrightarrow> playerOk (f (player g)) \<Longrightarrow> gameOk (setPlayer f g)"
  by (simp add: gameOk_def setPlayer_def)

lemma gameOk_setEnemy: "gameOk g \<Longrightarrow> enemyOk (f (enemy g)) \<Longrightarrow> gameOk (setEnemy f g)"
  by (simp add: gameOk_def setEnemy_def)

lemma gameOk_player: "gameOk g \<Longrightarrow> playerOk (player g)"
  by (simp add: gameOk_def)

lemma gameOk_enemy: "gameOk g \<Longrightarrow> enemyOk (enemy g)"
  by (simp add: gameOk_def)

lemma gameOk_phase: "gameOk (g\<lparr> phase := ph \<rparr>) = gameOk g"
  by (simp add: gameOk_def)

lemma gameOk_selection: "gameOk (g\<lparr> selection := s \<rparr>) = gameOk g"
  by (simp add: gameOk_def)

lemma gameOk_room: "gameOk (g\<lparr> game_level := l, currentRoom := r \<rparr>) = gameOk g"
  by (simp add: gameOk_def)

subsection \<open>Drawing cards\<close>

lemma shuffle_set: "isShuffle sh \<Longrightarrow> set (sh xs) = set xs"
  unfolding isShuffle_def by (metis mset_eq_setD)

lemma drawLoop_cards:
  assumes "isShuffle sh"
  shows "drawLoop sh n h d x = (h', d', x') \<Longrightarrow> set h' \<union> set d' \<union> set x' \<subseteq> set h \<union> set d \<union> set x"
proof (induction n arbitrary: h d x)
  case 0
  then show ?case by auto
next
  case (Suc n)
  show ?case
  proof (cases "d = []")
    case False
    with Suc.prems have "drawLoop sh n (h @ [last d]) (butlast d) x = (h', d', x')"
      by simp
    from Suc.IH [OF this] have "set h' \<union> set d' \<union> set x' \<subseteq> set (h @ [last d]) \<union> set (butlast d) \<union> set x" .
    moreover have "last d \<in> set d" using False by simp
    moreover have "set (butlast d) \<subseteq> set d" by (auto dest: in_set_butlastD)
    ultimately show ?thesis by auto
  next
    case True
    note d = True
    show ?thesis
    proof (cases "x = []")
      case True
      with d Suc.prems show ?thesis by auto
    next
      case False
      note x = False
      have sx: "set (sh x) = set x" using assms by (rule shuffle_set)
      show ?thesis
      proof (cases "sh x = []")
        case True
        with d x Suc.prems have "drawLoop sh n h [] [] = (h', d', x')"
          by simp
        from Suc.IH [OF this] show ?thesis by auto
      next
        case False
        with d x Suc.prems
        have "drawLoop sh n (h @ [last (sh x)]) (butlast (sh x)) [] = (h', d', x')"
          by (simp add: Let_def)
        from Suc.IH [OF this]
        have "set h' \<union> set d' \<union> set x' \<subseteq> set (h @ [last (sh x)]) \<union> set (butlast (sh x)) \<union> set []" .
        moreover have "last (sh x) \<in> set (sh x)" using False by simp
        moreover have "set (butlast (sh x)) \<subseteq> set (sh x)" by (auto dest: in_set_butlastD)
        ultimately show ?thesis using sx by auto
      qed
    qed
  qed
qed

lemma drawCards_statuses: "statuses (drawCards sh n p) = statuses p"
  by (simp add: drawCards_def Let_def split: prod.splits)

lemma drawCards_relics: "relics (drawCards sh n p) = relics p"
  by (simp add: drawCards_def Let_def split: prod.splits)

lemma drawCards_cards:
  assumes "isShuffle sh"
  shows "cardsOf (drawCards sh n p) \<subseteq> cardsOf p"
proof -
  have "cardsOf (p\<lparr> hand := h', drawPile := d', discardPile := x' \<rparr>) \<subseteq> cardsOf p"
    if "drawLoop sh k (hand p) (drawPile p) (discardPile p) = (h', d', x')" for k h' d' x'
    using drawLoop_cards [OF assms that] by (auto simp: cardsOf_def)
  then show ?thesis
    by (simp add: drawCards_def Let_def split: prod.splits)
qed

lemma playerOk_drawCards: "isShuffle sh \<Longrightarrow> playerOk p \<Longrightarrow> playerOk (drawCards sh n p)"
  by (rule playerOk_same [where p = p])
    (simp_all add: drawCards_statuses drawCards_relics drawCards_cards)


subsection \<open>Relics\<close>

lemma playerOk_fields:
  "playerOk (p\<lparr> currentHp := h \<rparr>) = playerOk p"
  "playerOk (p\<lparr> block := b \<rparr>) = playerOk p"
  "playerOk (p\<lparr> energy := e \<rparr>) = playerOk p"
  "playerOk (p\<lparr> maxHp := m \<rparr>) = playerOk p"
  "playerOk (p\<lparr> gold := gd \<rparr>) = playerOk p"
  "playerOk (p\<lparr> powers := pw \<rparr>) = playerOk p"
  by (simp_all add: playerOk_def cardsOf_def)

lemma enemyOk_fields:
  "enemyOk (e\<lparr> currentHp := h \<rparr>) = enemyOk e"
  "enemyOk (e\<lparr> block := b \<rparr>) = enemyOk e"
  "enemyOk (e\<lparr> nextMoveDamage := d \<rparr>) = enemyOk e"
  by (simp_all add: enemyOk_def)

lemma gameOk_if: "(c \<Longrightarrow> gameOk a) \<Longrightarrow> (\<not> c \<Longrightarrow> gameOk b) \<Longrightarrow> gameOk (if c then a else b)"
  by simp

lemma gameOk_relicAction:
  assumes "isShuffle sh" and "gameOk g"
    and "action \<in> Some ` set relicStatuses \<longrightarrow> natNum amount"
  shows "gameOk (relicAction sh action amount g)"
proof -
  have pl: "playerOk (player g)" and en: "enemyOk (enemy g)"
    using assms(2) by (simp_all add: gameOk_def)
  have s1: "action \<in> Some ` set [''strength'', ''dexterity'', ''reflect'', ''metallicize'', ''regen'']
            \<Longrightarrow> natNum amount"
    using assms(3) by (auto simp: relicStatuses_def)
  have s2: "action \<in> Some ` set [''poison'', ''weak'', ''vulnerable''] \<Longrightarrow> natNum amount"
    using assms(3) by (auto simp: relicStatuses_def)
  show ?thesis
    unfolding relicAction_def
  proof (intro gameOk_if)
    show "gameOk (setPlayer (\<lambda>p. p\<lparr>currentHp := jmin (maxHp p) (jadd (currentHp p) amount)\<rparr>) g)"
      using pl by (intro gameOk_setPlayer assms(2)) (simp add: playerOk_fields)
    show "gameOk (setPlayer (\<lambda>p. p\<lparr>block := jadd (block p) amount\<rparr>) g)"
      using pl by (intro gameOk_setPlayer assms(2)) (simp add: playerOk_fields)
    show "gameOk (setEnemy (\<lambda>e. e\<lparr>currentHp := jmax (Num 0) (jsub (currentHp e) amount)\<rparr>) g)"
      using en by (intro gameOk_setEnemy assms(2)) (simp add: enemyOk_fields)
    show "gameOk (setPlayer (\<lambda>p. p\<lparr>energy := jadd (energy p) amount\<rparr>) g)"
      using pl by (intro gameOk_setPlayer assms(2)) (simp add: playerOk_fields)
    show "gameOk (setPlayer (drawCards sh amount) g)"
      using pl assms(1) by (intro gameOk_setPlayer assms(2) playerOk_drawCards)
    show "gameOk (setPlayer (\<lambda>p. p\<lparr>statuses := addStatus (the action) amount (statuses p)\<rparr>) g)"
      if "action \<in> Some ` set [''strength'', ''dexterity'', ''reflect'', ''metallicize'', ''regen'']"
      using pl s1 [OF that]
      by (intro gameOk_setPlayer assms(2) playerOk_counters natCounters_addStatus
          playerOk_statuses)
    show "gameOk (setEnemy (\<lambda>e. e\<lparr>statuses := addStatus (the action) amount (statuses e)\<rparr>) g)"
      if "action \<in> Some ` set [''poison'', ''weak'', ''vulnerable'']"
      using en s2 [OF that]
      by (intro gameOk_setEnemy assms(2) enemyOk_counters natCounters_addStatus)
        (simp_all add: enemyOk_def)
    show "gameOk g" by (rule assms(2))
  qed
qed

lemma gameOk_relicStep:
  assumes "isShuffle sh" and "gameOk g" and "relicOk relic"
  shows "gameOk (relicStep sh trigger contextCard g relic)"
  unfolding relicStep_def Let_def
  using assms(2) assms(3) [unfolded relicOk_def, rule_format, of trigger]
    gameOk_relicAction [OF assms(1,2)]
  by (intro gameOk_if) blast+

lemma gameOk_relics:
  assumes "isShuffle sh" and "\<forall>r \<in> set rs. relicOk r"
  shows "gameOk g \<Longrightarrow> gameOk (foldl (relicStep sh trigger contextCard) g rs)"
  using assms(2)
proof (induction rs arbitrary: g)
  case Nil
  then show ?case by simp
next
  case (Cons r rs)
  then show ?case
    using gameOk_relicStep [OF assms(1)] by simp
qed

lemma gameOk_processRelicTrigger:
  assumes "isShuffle sh" and "gameOk cl" and "gameOk g"
  shows "gameOk (processRelicTrigger sh trigger contextCard cl g)"
  unfolding processRelicTrigger_def
  using assms by (intro gameOk_relics) (auto simp: gameOk_def playerOk_def)

subsection \<open>Playing a card\<close>

lemma gameOk_player_update:
  "gameOk g \<Longrightarrow> (playerOk (player g) \<Longrightarrow> playerOk (f (player g))) \<Longrightarrow> gameOk (setPlayer f g)"
  by (simp add: gameOk_def setPlayer_def)

lemma gameOk_enemy_update:
  "gameOk g \<Longrightarrow> (enemyOk (enemy g) \<Longrightarrow> enemyOk (f (enemy g))) \<Longrightarrow> gameOk (setEnemy f g)"
  by (simp add: gameOk_def setEnemy_def)

lemma gameOk_case_option:
  "gameOk a \<Longrightarrow> (\<And>x. v = Some x \<Longrightarrow> gameOk (f x)) \<Longrightarrow>
   gameOk (case v of None \<Rightarrow> a | Some x \<Rightarrow> f x)"
  by (cases v) simp_all

lemma natCounters_applyStatusEffect:
  assumes "natNum (tokenAmount eff)" and "natCounters st"
  shows "natCounters (applyStatusEffect eff st)"
proof -
  have amt: "natNum (parseInt (strOr (nth_opt (split CHR ''_'' eff)
                                     (length (split CHR ''_'' eff) - 1)) ''1''))"
    using assms(1) by (simp add: tokenAmount_def)
  show ?thesis
    unfolding applyStatusEffect_def Let_def
    using amt assms(2)
    by (simp add: natCounters_upd natNum_jadd natNum_orElse natNum_one del: set_simps)
qed

lemma gameOk_cardEffect:
  assumes "isShuffle sh" and "gameOk g" and "tokenOk eff"
  shows "gameOk (cardEffect sh g eff)"
proof -
  have pl: "playerOk (player g)" and en: "enemyOk (enemy g)"
    using assms(2) by (simp_all add: gameOk_def)
  have s1: "natNum (tokenAmount eff)"
    if "hd (split CHR ''_'' eff) \<in> set [''vulnerable'', ''weak'', ''poison'', ''burn'', ''freeze'', ''stun'']"
    using that assms(3) by (auto simp: tokenOk_def statusHeads_def)
  have s2: "natNum (tokenAmount eff)"
    if "hd (split CHR ''_'' eff) \<in> set [''reflect'', ''strength'', ''dexterity'', ''frail'',
                                        ''metallicize'', ''regen'']"
    using that assms(3) by (auto simp: tokenOk_def statusHeads_def)
  show ?thesis
    unfolding cardEffect_def Let_def
  proof (intro gameOk_if)
    show "gameOk (g\<lparr>selection := Some (openFetch (split CHR ''_'' eff))\<rparr>)"
      using assms(2) by (simp only: gameOk_selection)
    show "gameOk (setEnemy (\<lambda>e. e\<lparr>statuses := applyStatusEffect eff (statuses e)\<rparr>) g)"
      if "hd (split CHR ''_'' eff) \<in> set [''vulnerable'', ''weak'', ''poison'', ''burn'', ''freeze'', ''stun'']"
      using en s1 [OF that]
      by (intro gameOk_setEnemy assms(2) enemyOk_counters natCounters_applyStatusEffect)
        (simp_all add: enemyOk_def)
    show "gameOk (setPlayer (\<lambda>q. q\<lparr>statuses := applyStatusEffect eff (statuses q)\<rparr>) g)"
      if "hd (split CHR ''_'' eff) \<in> set [''reflect'', ''strength'', ''dexterity'', ''frail'',
                                          ''metallicize'', ''regen'']"
      using pl s2 [OF that]
      by (intro gameOk_setPlayer assms(2) playerOk_counters natCounters_applyStatusEffect
          playerOk_statuses)
    show "gameOk (setPlayer (drawCards sh (parseInt (strOr (nth_opt (split CHR ''_'' eff) 1) ''1''))) g)"
      using pl assms(1) by (intro gameOk_setPlayer assms(2) playerOk_drawCards)
    show "gameOk (setPlayer (\<lambda>q. q\<lparr>energy := jadd (energy q)
             (parseInt (strOr (nth_opt (split CHR ''_'' eff) 1) ''1''))\<rparr>) g)"
      using pl by (intro gameOk_setPlayer assms(2)) (simp add: playerOk_fields)
    show "gameOk (setPlayer (\<lambda>q. q\<lparr>currentHp := jmin (maxHp q)
             (jadd (currentHp q) (parseInt (strOr (nth_opt (split CHR ''_'' eff) 1) ''1'')))\<rparr>) g)"
      using pl by (intro gameOk_setPlayer assms(2)) (simp add: playerOk_fields)
    show "gameOk (setPlayer (\<lambda>q. q\<lparr>currentHp := jmax (Num 1)
             (jsub (currentHp q) (parseInt (strOr (nth_opt (split CHR ''_'' eff) 2) ''0'')))\<rparr>) g)"
      using pl by (intro gameOk_setPlayer assms(2)) (simp add: playerOk_fields)
    show "gameOk (setPlayer (\<lambda>q. q\<lparr>currentHp := jmin (maxHp q)
             (jadd (currentHp q) (parseInt (strOr (nth_opt (split CHR ''_'' eff) 1) ''0'')))\<rparr>) g)"
      using pl by (intro gameOk_setPlayer assms(2)) (simp add: playerOk_fields)
    show "gameOk g" by (rule assms(2))
  qed
qed

lemma gameOk_cardEffects:
  assumes "isShuffle sh"
  shows "\<forall>eff \<in> set effs. tokenOk eff \<Longrightarrow> gameOk g \<Longrightarrow> gameOk (foldl (cardEffect sh) g effs)"
proof (induction effs arbitrary: g)
  case Nil
  then show ?case by simp
next
  case (Cons e effs)
  then show ?case
    using gameOk_cardEffect [OF assms] by simp
qed

lemma absorbHit_statuses: "statuses ((absorbHit d ^^ n) e) = statuses e"
  by (induction n) (simp_all add: absorbHit_def)

lemma enemyOk_playCardDamage: "enemyOk e \<Longrightarrow> enemyOk (playCardDamage c pl en e)"
  by (simp add: enemyOk_def playCardDamage_def Let_def absorbHit_statuses)

lemma playerOk_playCardBlock: "playerOk p \<Longrightarrow> playerOk (playCardBlock c pl p)"
  by (simp add: playCardBlock_def Let_def playerOk_fields split: option.splits)

lemma playerOk_discardPlayed:
  assumes "cardOk c" and "playerOk p"
  shows "playerOk (discardPlayed c i p)"
proof (rule playerOk_cards [OF assms(2) _ _ assms(1)])
  show "statuses (discardPlayed c i p) = statuses p"
    by (simp add: discardPlayed_def Let_def)
  show "relics (discardPlayed c i p) = relics p"
    by (simp add: discardPlayed_def Let_def)
  have "set (take i (hand p)) \<subseteq> set (hand p)" "set (drop (Suc i) (hand p)) \<subseteq> set (hand p)"
    by (rule set_take_subset set_drop_subset)+
  then show "cardsOf (discardPlayed c i p) \<subseteq> cardsOf p \<union> {c}"
    by (auto simp: discardPlayed_def Let_def cardsOf_def)
qed

lemma nth_opt_set: "nth_opt xs i = Some x \<Longrightarrow> x \<in> set xs"
  by (auto simp: nth_opt_def split: if_splits)

lemma gameOk_playCard:
  assumes "isShuffle sh" and "gameOk cl" and "gameOk g"
    and "nth_opt (hand (player cl)) index = Some c"
  shows "gameOk (playCard sh c index cl g)"
proof -
  have "c \<in> cardsOf (player cl)"
    using nth_opt_set [OF assms(4)] by (simp add: cardsOf_def)
  then have c: "cardOk c"
    using assms(2) by (simp add: gameOk_def playerOk_def)
  have toks: "\<forall>eff \<in> set (map trim (split CHR '','' s)). tokenOk eff" if "specialEffect c = Some s" for s
    using c that by (simp add: cardOk_def effectOk_def)
  show ?thesis
    unfolding playCard_def Let_def
    by (intro gameOk_if gameOk_player_update gameOk_enemy_update gameOk_case_option
        gameOk_cardEffects gameOk_processRelicTrigger assms(1,2,3) toks
        playerOk_discardPlayed playerOk_playCardBlock enemyOk_playCardDamage c)
      (simp_all add: playerOk_fields)
qed

subsection \<open>The selection overlay\<close>

lemma offeredCards_subset: "set (offeredCards sel p) \<subseteq> cardsOf p"
  by (cases "source sel") (auto simp: offeredCards_def Let_def cardsOf_def split: option.splits)

lemma playerOk_fetchToHand:
  assumes "cardOk c" and "playerOk p"
  shows "playerOk (fetchToHand src c p)"
proof (rule playerOk_cards [OF assms(2) _ _ assms(1)])
  show "statuses (fetchToHand src c p) = statuses p"
    by (cases src) (simp_all add: fetchToHand_def Let_def)
  show "relics (fetchToHand src c p) = relics p"
    by (cases src) (simp_all add: fetchToHand_def Let_def)
  show "cardsOf (fetchToHand src c p) \<subseteq> cardsOf p \<union> {c}"
    by (cases src) (auto simp: fetchToHand_def Let_def cardsOf_def)
qed

lemma playerOk_deck_filter: "playerOk p \<Longrightarrow> playerOk (p\<lparr> deck := filter f (deck p) \<rparr>)"
  by (rule playerOk_same [where p = p]) (auto simp: cardsOf_def)

lemma gameOk_selectCard:
  assumes "gameOk cl" and "gameOk g" and "c \<in> set (offeredCards sel (player cl))"
  shows "gameOk (selectCard sel c g)"
proof -
  have "c \<in> cardsOf (player cl)"
    using assms(3) offeredCards_subset by blast
  then have c: "cardOk c"
    using assms(1) by (simp add: gameOk_def playerOk_def)
  have pl: "playerOk (player g)" and en: "enemyOk (enemy g)"
    using assms(2) by (simp_all add: gameOk_def)
  show ?thesis
  proof (cases "onSelect sel")
    case (FetchToHand src)
    then show ?thesis
      using playerOk_fetchToHand [OF c pl, of src] en
      by (simp add: selectCard_def gameOk_def setPlayer_def)
  next
    case RemoveFromDeck
    then show ?thesis
      using playerOk_deck_filter [OF pl, of "\<lambda>x. card_id x \<noteq> card_id c"] en
      by (simp add: selectCard_def gameOk_def setPlayer_def)
  qed
qed

subsection \<open>Powers\<close>

lemma matchAfter_digits:
  "matchAfter w s = Some (letters, Some ds) \<Longrightarrow> ds \<noteq> [] \<and> (\<forall>c \<in> set ds. isDigit c)"
  by (auto simp: matchAfter_def Let_def split: if_splits dest: set_takeWhileD)

lemma matchHere_digits:
  "matchHere s = Some (letters, Some ds) \<Longrightarrow> ds \<noteq> [] \<and> (\<forall>c \<in> set ds. isDigit c)"
  unfolding matchHere_def
  by (auto split: option.splits dest: matchAfter_digits)

lemma matchPower_digits:
  "matchPower s = Some (letters, Some ds) \<Longrightarrow> ds \<noteq> [] \<and> (\<forall>c \<in> set ds. isDigit c)"
proof (induction s)
  case Nil
  then show ?case using matchHere_digits by simp
next
  case (Cons a s)
  then show ?case
    using matchHere_digits [of "a # s" letters ds] by (simp split: option.splits)
qed

lemma effectsOk_addOwn: "natNum amount \<Longrightarrow> effectsOk fx \<Longrightarrow> effectsOk (addOwn action amount fx)"
  by (simp add: addOwn_def effectsOk_def natNum_jadd)

lemma effectsOk_other:
  "effectsOk (fx\<lparr> fx_heal := h \<rparr>) = effectsOk fx"
  "effectsOk (fx\<lparr> fx_block := b \<rparr>) = effectsOk fx"
  "effectsOk (fx\<lparr> fx_freeze := f \<rparr>) = effectsOk fx"
  by (simp_all add: effectsOk_def)

lemma effectsOk_powerToken:
  assumes "effectsOk fx"
  shows "effectsOk (powerToken fx eff)"
proof (cases "matchPower eff")
  case None
  then show ?thesis
    using assms by (simp add: powerToken_def effectsOk_other)
next
  case (Some m)
  obtain letters digits where m: "m = (letters, digits)" by (cases m)
  have amt: "natNum (case digits of Some ds \<Rightarrow> parseInt ds | None \<Rightarrow> Num 1)"
  proof (cases digits)
    case None
    then show ?thesis by (simp add: natNum_one)
  next
    case (Some ds)
    with \<open>matchPower eff = Some m\<close> m have "ds \<noteq> [] \<and> (\<forall>c \<in> set ds. isDigit c)"
      using matchPower_digits by simp
    then show ?thesis
      using Some parseInt_digits by simp
  qed
  show ?thesis
    using Some m effectsOk_addOwn [OF amt assms]
    by (simp add: powerToken_def Let_def effectsOk_other)
qed

lemma effectsOk_tokens: "effectsOk fx \<Longrightarrow> effectsOk (foldl powerToken fx effs)"
  by (induction effs arbitrary: fx) (simp_all add: effectsOk_powerToken)

lemma effectsOk_foldl:
  "effectsOk fx \<Longrightarrow>
   effectsOk (foldl (\<lambda>fx pow. foldl powerToken fx (map trim (split CHR '','' (power_effectType pow))))
                fx pows)"
  by (induction pows arbitrary: fx) (simp_all add: effectsOk_tokens)

lemma effectsOk_powerEffects: "effectsOk (powerEffects pows)"
  unfolding powerEffects_def
  by (rule effectsOk_foldl) (simp add: effectsOk_def noEffects_def natNum_zero)

lemma enemyOk_powersOnEnemy:
  assumes "effectsOk fx" and "enemyOk e"
  shows "enemyOk (powersOnEnemy fx e)"
  using assms
  by (simp add: powersOnEnemy_def Let_def enemyOk_def effectsOk_def natCounters_addStatus
      natCounters_upd natNum_one)

lemma playerOk_powersOnPlayer: "playerOk p \<Longrightarrow> playerOk (powersOnPlayer fx p)"
  by (rule playerOk_same [where p = p]) (simp_all add: powersOnPlayer_def Let_def cardsOf_def)

lemma gameOk_triggerPlayerPowers:
  assumes "isShuffle sh" and "gameOk g"
  shows "gameOk (triggerPlayerPowers sh cl g)"
  unfolding triggerPlayerPowers_def Let_def
  by (intro gameOk_if gameOk_player_update gameOk_enemy_update assms(2)
      playerOk_powersOnPlayer playerOk_drawCards [OF assms(1)]
      enemyOk_powersOnEnemy effectsOk_powerEffects)

subsection \<open>Turns\<close>

lemma gameOk_phase_update: "gameOk g \<Longrightarrow> gameOk (g\<lparr> phase := ph \<rparr>)"
  by (simp add: gameOk_def)

lemma playerOk_exhaustEthereal: "playerOk p \<Longrightarrow> playerOk (exhaustEthereal p)"
  by (rule playerOk_same [where p = p]) (auto simp: exhaustEthereal_def cardsOf_def)

lemma enemyOk_poisonTick: "enemyOk e \<Longrightarrow> enemyOk (poisonTick e)"
  by (simp add: poisonTick_def Let_def enemyOk_def)

lemma gameOk_endTurn: "gameOk g \<Longrightarrow> gameOk (endTurn g)"
  unfolding endTurn_def
  by (intro gameOk_player_update gameOk_enemy_update playerOk_exhaustEthereal enemyOk_poisonTick)
    (simp_all add: gameOk_phase)

lemma gameOk_enemyAttack: "gameOk g \<Longrightarrow> gameOk (enemyAttack cl g)"
  unfolding enemyAttack_def Let_def
  by (intro gameOk_if gameOk_player_update gameOk_enemy_update)
    (simp_all add: playerOk_fields enemyOk_fields)

lemma gameOk_enemyTurnTimer: "gameOk g \<Longrightarrow> gameOk (enemyTurnTimer cl g)"
  unfolding enemyTurnTimer_def
  by (intro gameOk_if gameOk_enemy_update gameOk_enemyAttack)
    (simp_all add: enemyOk_def natCounters_upd natNum_zero)

lemma playerOk_playerTurnReset: "playerOk p \<Longrightarrow> playerOk (playerTurnReset p)"
  by (simp add: playerTurnReset_def playerOk_def cardsOf_def natCounters_decrement)

lemma enemyOk_enemyTurnReset: "enemyOk e \<Longrightarrow> enemyOk (enemyTurnReset e)"
  by (simp add: enemyTurnReset_def enemyOk_def natCounters_decrement)

lemma gameOk_turnStartTimer:
  assumes "isShuffle sh" and "gameOk cl" and "gameOk g"
  shows "gameOk (turnStartTimer sh rnd cl g)"
  unfolding turnStartTimer_def Let_def
  by (intro gameOk_if gameOk_phase_update gameOk_player_update gameOk_enemy_update assms(2,3)
      gameOk_processRelicTrigger [OF assms(1)] gameOk_triggerPlayerPowers [OF assms(1)]
      playerOk_drawCards [OF assms(1)] playerOk_playerTurnReset enemyOk_enemyTurnReset)
    (simp_all add: enemyOk_def)

subsection \<open>Battles, rewards, the shop and the rest site\<close>

lemma enemyOk_battleEnemy: "enemyOk (battleEnemy node)"
  by (simp add: battleEnemy_def Let_def enemyOk_def natCounters_empty)

lemma playerOk_battlePlayer:
  assumes "isShuffle sh" and "playerOk p"
  shows "playerOk (battlePlayer sh p)"
proof (rule playerOk_mono [OF assms(2), where C = "{}" and R = "{}"])
  show "natCounters (statuses (battlePlayer sh p))"
    by (simp add: battlePlayer_def Let_def natCounters_empty)
  show "cardsOf (battlePlayer sh p) \<subseteq> cardsOf p \<union> {}"
    using shuffle_set [OF assms(1), of "deck p"]
    by (auto simp: battlePlayer_def Let_def cardsOf_def)
  show "set (relics (battlePlayer sh p)) \<subseteq> set (relics p) \<union> {}"
    by (simp add: battlePlayer_def Let_def)
qed simp_all

lemma gameOk_startBattle: "isShuffle sh \<Longrightarrow> gameOk g \<Longrightarrow> gameOk (startBattle sh node g)"
  unfolding startBattle_def
  by (intro gameOk_phase_update gameOk_player_update gameOk_enemy_update playerOk_battlePlayer
      enemyOk_battleEnemy)

lemma gameOk_selectPath: "isShuffle sh \<Longrightarrow> gameOk g \<Longrightarrow> gameOk (selectPath sh node g)"
  unfolding selectPath_def Let_def
  by (intro gameOk_if gameOk_startBattle) (simp_all add: gameOk_def)

lemma gameOk_startBattleTimer:
  "isShuffle sh \<Longrightarrow> gameOk cl \<Longrightarrow> gameOk g \<Longrightarrow> gameOk (startBattleTimer sh cl g)"
  unfolding startBattleTimer_def
  by (intro gameOk_player_update gameOk_processRelicTrigger playerOk_drawCards)

lemma gameOk_checkWin:
  assumes "isShuffle sh" and "gameOk cl" and "gameOk g"
  shows "gameOk (checkWin sh rnd cl g)"
  unfolding checkWin_def Let_def
  by (intro gameOk_if gameOk_phase_update gameOk_player_update assms(3) gameOk_processRelicTrigger [OF assms])
    (simp add: playerOk_fields)

lemma playerOk_add_card: "cardOk c \<Longrightarrow> playerOk p \<Longrightarrow> playerOk (p\<lparr> deck := deck p @ [c] \<rparr>)"
  by (rule playerOk_cards [where p = p and c = c]) (auto simp: cardsOf_def)

lemma playerOk_buy_card:
  "cardOk c \<Longrightarrow> playerOk p \<Longrightarrow> playerOk (p\<lparr> gold := x, deck := deck p @ [c] \<rparr>)"
  by (rule playerOk_cards [where p = p and c = c]) (auto simp: cardsOf_def)

lemma playerOk_buy_relic:
  "relicOk r \<Longrightarrow> playerOk p \<Longrightarrow> playerOk (p\<lparr> gold := x, relics := relics p @ [r] \<rparr>)"
  by (rule playerOk_mono [where p = p and C = "{}" and R = "{r}"])
    (auto simp: cardsOf_def playerOk_def)

lemma playerOk_add_relic: "relicOk r \<Longrightarrow> playerOk p \<Longrightarrow> playerOk (p\<lparr> relics := relics p @ [r] \<rparr>)"
  by (rule playerOk_mono [where p = p and C = "{}" and R = "{r}"])
    (auto simp: cardsOf_def playerOk_def)

lemma gameOk_takeReward: "contentCard c \<Longrightarrow> gameOk g \<Longrightarrow> gameOk (takeReward c g)"
  unfolding takeReward_def
  by (intro gameOk_phase_update gameOk_player_update playerOk_add_card contentCard_ok)

lemma gameOk_buyCard: "contentCard c \<Longrightarrow> gameOk g \<Longrightarrow> gameOk (buyCard c cl g)"
  unfolding buyCard_def
  by (intro gameOk_if gameOk_player_update)
    (simp_all add: playerOk_buy_card contentCard_ok)

lemma gameOk_applyRelicPickupEffect: "gameOk g \<Longrightarrow> gameOk (applyRelicPickupEffect r g)"
  unfolding applyRelicPickupEffect_def Let_def
  by (intro gameOk_if gameOk_player_update) (simp_all add: playerOk_fields)

lemma gameOk_collectRelic: "contentRelic r \<Longrightarrow> gameOk g \<Longrightarrow> gameOk (collectRelic r g)"
  unfolding collectRelic_def
  by (intro gameOk_applyRelicPickupEffect gameOk_player_update playerOk_add_relic contentRelic_ok)

lemma gameOk_buyRelic: "contentRelic r \<Longrightarrow> gameOk g \<Longrightarrow> gameOk (buyRelic r cl g)"
  unfolding buyRelic_def
  by (intro gameOk_if gameOk_applyRelicPickupEffect gameOk_player_update)
    (simp_all add: playerOk_buy_relic contentRelic_ok)

lemma gameOk_restHeal: "gameOk g \<Longrightarrow> gameOk (restHeal g)"
  unfolding restHeal_def
  by (intro gameOk_phase_update gameOk_player_update) (simp_all add: playerOk_fields)

lemma gameOk_restRemove: "gameOk g \<Longrightarrow> gameOk (restRemove g)"
  by (simp add: restRemove_def gameOk_selection)

lemma playerOk_initialPlayer: "playerOk initialPlayer"
  using contentCard_ok [OF contentCard.starting]
  by (simp add: playerOk_def initialPlayer_def cardsOf_def natCounters_empty)

lemma gameOk_initialGame: "gameOk initialGame"
  using playerOk_initialPlayer
  by (simp add: gameOk_def initialGame_def enemyOk_def initialEnemy_def natCounters_empty)

lemma gameOk_startAscension: "gameOk g \<Longrightarrow> gameOk (startAscension g)"
  using playerOk_initialPlayer by (simp add: startAscension_def gameOk_def)

lemma gameOk_menuShuffle: "isShuffle sh \<Longrightarrow> gameOk g \<Longrightarrow> gameOk (menuShuffle sh g)"
  unfolding menuShuffle_def
proof (intro gameOk_if gameOk_player_update)
  assume sh: "isShuffle sh" and pl: "playerOk (player g)"
  show "playerOk (player g\<lparr>drawPile := sh (deck (player g))\<rparr>)"
    using shuffle_set [OF sh, of "deck (player g)"]
    by (intro playerOk_same [OF pl]) (auto simp: cardsOf_def)
qed

lemma reachable_gameOk: "reachable g \<Longrightarrow> gameOk g"
proof (induction rule: reachable.induct)
  case mounted
  show ?case by (rule gameOk_initialGame)
next
  case (menu g sh)
  then show ?case by (intro gameOk_menuShuffle)
next
  case (ascend g)
  then show ?case by (intro gameOk_startAscension)
next
  case (path g sh node)
  then show ?case by (intro gameOk_selectPath)
next
  case (battle_timer g cl sh)
  then show ?case by (intro gameOk_startBattleTimer)
next
  case (play g cl sh index c)
  then show ?case by (intro gameOk_playCard)
next
  case (choose g cl sel c)
  then show ?case by (intro gameOk_selectCard)
next
  case (close_overlay g)
  then show ?case by (simp only: gameOk_selection)
next
  case (end_turn g)
  then show ?case by (intro gameOk_endTurn)
next
  case (enemy_timer g cl)
  then show ?case by (intro gameOk_enemyTurnTimer)
next
  case (loss_timer g)
  then show ?case unfolding lossTimer_def by (intro gameOk_phase_update)
next
  case (turn_timer g cl sh rnd)
  then show ?case by (intro gameOk_turnStartTimer)
next
  case (win g cl sh rnd)
  then show ?case by (intro gameOk_checkWin)
next
  case (rewards g)
  then show ?case by (intro gameOk_phase_update)
next
  case (to_map g)
  then show ?case by (intro gameOk_phase_update)
next
  case (reward g c)
  then show ?case by (intro gameOk_takeReward)
next
  case (elite_relic g r)
  then show ?case by (intro gameOk_collectRelic)
next
  case (buy_card g cl c)
  then show ?case by (intro gameOk_buyCard)
next
  case (buy_relic g cl r)
  then show ?case by (intro gameOk_buyRelic)
next
  case (rest g)
  then show ?case by (intro gameOk_restHeal)
next
  case (rest_remove g)
  then show ?case by (intro gameOk_restRemove)
qed

lemma identity_shuffle: "isShuffle (\<lambda>xs. xs)"
  by (simp add: isShuffle_def)

lemma firstHand_bash: "nth_opt (hand (player firstHand)) 0 = Some (createBash ''1'')"
  by code_simp

lemma afterBash_vulnerable: "statuses (enemy afterBash) ''vulnerable'' = Some (Num 2)"
  by code_simp

lemma reachable_afterBash: "reachable afterBash"
proof -
  have "reachable (startAscension initialGame)"
    by (intro reachable.ascend reachable.mounted)
  then have "reachable firstBattle"
    unfolding firstBattle_def by (intro reachable.path identity_shuffle)
  then have h: "reachable firstHand"
    unfolding firstHand_def by (intro reachable.battle_timer identity_shuffle)
  show ?thesis
    unfolding afterBash_def
    by (intro reachable.play h identity_shuffle firstHand_bash)
qed

lemma decrement_zero: "st k = Some (Num 0) \<Longrightarrow> decrement k st = st"
  by (simp add: decrement_def)

text \<open>
  Claim C10.  In every state the game can reach, every status counter of the player
  and of the enemy is a natural number, so it is never negative (and never
  \<open>NaN\<close>): the amounts that cards, powers and relics add to a counter are
  natural numbers, because the content service bounds them, and the decrements at
  the start of a turn skip a counter that is 0, so they leave the counters of such a
  state unchanged rather than lowering them below 0.
\<close>

theorem status_counters_nonnegative:
  assumes "reachable g"
  shows "(\<forall>k v. statuses (player g) k = Some v \<longrightarrow> (\<exists>n::nat. v = Num (real n))) \<and>
         (\<forall>k v. statuses (enemy g) k = Some v \<longrightarrow> (\<exists>n::nat. v = Num (real n))) \<and>
         (\<forall>k. statuses (player g) k = Some (Num 0) \<longrightarrow>
              decrement k (statuses (player g)) = statuses (player g)) \<and>
         (\<forall>k. statuses (enemy g) k = Some (Num 0) \<longrightarrow>
              decrement k (statuses (enemy g)) = statuses (enemy g))"
  using reachable_gameOk [OF assms] decrement_zero
  unfolding gameOk_def playerOk_def enemyOk_def natCounters_def natNum_def
  by blast

theorem status_counters_nonnegative_witness:
  "reachable afterBash \<and> statuses (enemy afterBash) ''vulnerable'' = Some (Num 2) \<and>
   (\<exists>n::nat. Num 2 = Num (real n))"
  using status_counters_nonnegative [OF reachable_afterBash, THEN conjunct2, THEN conjunct1,
      rule_format, OF afterBash_vulnerable]
    reachable_afterBash afterBash_vulnerable
  by simp

section \<open>AI Spire: properties of the content service\<close>




























text \<open>
  Claim C5, as stated: sanitizing the token string
  "POISON_4,fetch_draw_attack,bogus_token,energy_2" yields exactly
  "poison_4,fetch_draw_attack,energy_2".  The code does not return that string.
\<close>

theorem sanitize_special_effect_counterexample:
  "sanitizeSpecialEffect (Some (JStr ''POISON_4,fetch_draw_attack,bogus_token,energy_2''))
     \<noteq> Some ''poison_4,fetch_draw_attack,energy_2''"
  by code_simp

text \<open>
  Claim C5, amended: sanitizing that token string yields exactly
  "poison_4,fetch_draw_ATTACK,energy_2".  The unrecognized token is dropped, the
  recognized tokens are canonicalized and keep their order; the canonical form of a
  fetch token carries its card-type filter in upper case, the case of the allowed
  filters.
\<close>

theorem sanitize_special_effect_example:
  "sanitizeSpecialEffect (Some (JStr ''POISON_4,fetch_draw_attack,bogus_token,energy_2''))
     = Some ''poison_4,fetch_draw_ATTACK,energy_2''"
  by code_simp

lemma mock_cards_length: "length (mockGenerateCards level now) = 3"
  by (simp add: mockGenerateCards_def)

lemma mock_cards_damage:
  "map damage (mockGenerateCards level now) = [Some (jadd (Num 4) level), None, None]"
  by (simp add: mockGenerateCards_def)

lemma mock_first_name: "card_name (hd (mockGenerateCards level now)) = ''Venom Strike''"
  by (simp add: mockGenerateCards_def)

lemma mock_first_description:
  "card_description (hd (mockGenerateCards level now)) =
     ''Deal '' @ showNum (jadd (Num 4) level) @ '' dmg. Apply 4 Poison.''"
  by (simp add: mockGenerateCards_def)

lemma mock_first_level_invariant:
  "(hd (mockGenerateCards level now))\<lparr> damage := None, card_description := [] \<rparr> =
   (hd (mockGenerateCards level' now))\<lparr> damage := None, card_description := [] \<rparr>"
  by (simp add: mockGenerateCards_def)

lemma mock_rest_level_invariant:
  "tl (mockGenerateCards level now) = tl (mockGenerateCards level' now)"
  by (simp add: mockGenerateCards_def)


text \<open>
  Claim C6, as stated: on a missing API key, a non-JSON response or an empty
  sanitized result, \<^verbatim>\<open>generateRewardCards\<close> returns four mock cards, two of which
  scale their damage by 4 + level.  With no API key at level 1 the code does not
  return four cards.
\<close>

theorem reward_fallback_counterexample:
  "length (generateRewardCards [] (Num 1) (Num 0) (\<lambda>i. []) (\<lambda>i. Num 0) (Returns NoText)) \<noteq> 4"
  by (simp add: generateRewardCards_def mock_cards_length)

text \<open>
  Claim C6, amended: on a missing API key, a non-JSON response or an empty sanitized
  result, \<^verbatim>\<open>generateRewardCards\<close> returns the three cards of
  \<^verbatim>\<open>mockGenerateCards(level)\<close>.  One of them, the first, Venom Strike, has damage
  4 + level and says so in its description, "Deal (4 + level) dmg. Apply 4 Poison.";
  the other two have no damage.  Apart from the damage and the description of the
  first card the three cards are the same at every level: the first card's other
  fields are, and so are the other two cards with all their fields.
\<close>

theorem reward_fallback_mock:
  assumes "apiKey = [] \<or> call = Returns (Malformed err) \<or>
           (\<exists>cs. call = Returns (Parsed (JArr cs)) \<and>
                 sanitizeCards rnd (withGeneratedIds level gen cs) = [])"
  shows "generateRewardCards apiKey level now gen rnd call = mockGenerateCards level now \<and>
         length (mockGenerateCards level now) = 3 \<and>
         map damage (mockGenerateCards level now) = [Some (jadd (Num 4) level), None, None] \<and>
         card_name (hd (mockGenerateCards level now)) = ''Venom Strike'' \<and>
         card_description (hd (mockGenerateCards level now)) =
           ''Deal '' @ showNum (jadd (Num 4) level) @ '' dmg. Apply 4 Poison.'' \<and>
         (hd (mockGenerateCards level now))\<lparr> damage := None, card_description := [] \<rparr> =
           (hd (mockGenerateCards level' now))\<lparr> damage := None, card_description := [] \<rparr> \<and>
         tl (mockGenerateCards level now) = tl (mockGenerateCards level' now)"
proof -
  have "generateRewardCards apiKey level now gen rnd call = mockGenerateCards level now"
    using assms by (auto simp: generateRewardCards_def sanitizeCards_def withGeneratedIds_def)
  then show ?thesis
    using mock_cards_length mock_cards_damage mock_first_name mock_first_description
      mock_first_level_invariant mock_rest_level_invariant by blast
qed

theorem reward_fallback_mock_witness:
  "generateRewardCards ''key'' (Num 2) (Num 5) (\<lambda>i. ''x'') (\<lambda>i. Num 0)
     (Returns (Parsed (JArr [JObj [(''type'', JStr ''SPELL''), (''rarity'', JStr ''RARE'')]])))
   = mockGenerateCards (Num 2) (Num 5) \<and>
   card_description (hd (mockGenerateCards (Num 2) (Num 5))) = ''Deal 6 dmg. Apply 4 Poison.''"
proof -
  have "sanitizeCards (\<lambda>i. Num 0) (withGeneratedIds (Num 2) (\<lambda>i. ''x'')
          [JObj [(''type'', JStr ''SPELL''), (''rarity'', JStr ''RARE'')]]) = []"
    by code_simp
  moreover have "showNum (jadd (Num 4) (Num 2)) = ''6''"
    by code_simp
  ultimately show ?thesis
    using reward_fallback_mock
      [of "''key''" "Returns (Parsed (JArr [JObj [(''type'', JStr ''SPELL''),
             (''rarity'', JStr ''RARE'')]]))" _ "\<lambda>i. Num 0" "Num 2" "\<lambda>i. ''x''" "Num 5"]
    by simp
qed
section \<open>AI Alchemy: properties of reaction discovery\<close>

lemma discovery_error_cases:
  "onDiscoveryError err = Inl rateLimitError \<or> onDiscoveryError err = Inr None"
  by (simp add: onDiscoveryError_def Let_def)

lemma discovered_growth_bounded:
  assumes "discoverReaction apiKey call = Inr (Some r)"
    and "growthChance r = Some (JNum (Num g))"
  shows "g \<le> 0.15"
proof (cases "apiKey = []")
  case True
  with assms(1) show ?thesis
    by (simp add: discoverReaction_def onDiscoveryError_def Let_def split: if_splits)
next
  case False
  note key = this
  show ?thesis
  proof (cases call)
    case (Throws err)
    with key assms(1) show ?thesis
      using discovery_error_cases [of err] by (auto simp: discoverReaction_def)
  next
    case (Returns response)
    show ?thesis
    proof (cases response)
      case NoText
      with key Returns assms(1) show ?thesis by (simp add: discoverReaction_def)
    next
      case (Malformed err)
      with key Returns assms(1) show ?thesis
        using discovery_error_cases [of err] by (auto simp: discoverReaction_def)
    next
      case (Parsed data)
      show ?thesis
      proof (cases "data = JNull")
        case True
        with key Returns Parsed assms(1) show ?thesis
          by (simp add: discoverReaction_def onDiscoveryError_def Let_def split: if_splits)
      next
        case False
        then have "discoverReaction apiKey call =
            (if toBoolean (getProp data ''reactionOccurred'') \<and> toBoolean (getProp data ''result'')
             then
               (let result = getProp data ''result'';
                    gChance = field result ''growthChance'';
                    gChance = (case gChance of
                                 Some (JNum g) \<Rightarrow> (if jgt g (Num 0.15) then Some (JNum (Num 0.15))
                                                 else gChance)
                               | _ \<Rightarrow> gChance)
                in Inr (Some \<lparr> result_name = field result ''name'',
                               color = field result ''color'',
                               physics = field result ''physics'',
                               description = field result ''description'',
                               growthChance = gChance,
                               decayChance = field result ''decayChance'',
                               growthStyle = field result ''growthStyle'',
                               relatedElementId = field result ''relatedElementId'' \<rparr>))
             else Inr None)"
          using key Returns Parsed by (cases data) (simp_all add: discoverReaction_def)
        with assms show ?thesis
          by (auto simp: Let_def jgt_def split: if_splits option.splits json.splits jsnum.splits)
      qed
    qed
  qed
qed

lemma discovery_negative:
  assumes "apiKey \<noteq> []" and "data \<noteq> JNull"
    and "\<not> (toBoolean (getProp data ''reactionOccurred'') \<and> toBoolean (getProp data ''result''))"
  shows "discoverReaction apiKey (Returns (Parsed data)) = Inr None"
  using assms by (cases data) (auto simp: discoverReaction_def)

lemma discovery_malformed:
  assumes "apiKey \<noteq> []"
  shows "discoverReaction apiKey (Returns (Malformed err)) = onDiscoveryError err"
  using assms by (simp add: discoverReaction_def)

text \<open>
  Claim C8, as stated: \<^verbatim>\<open>discoverReaction\<close> never returns a growthChance above
  0.15 and returns nothing on a negative determination or an unparsable response.
  The last part fails: the syntax error of \<^verbatim>\<open>JSON.parse\<close> goes to the same handler
  as the errors of the model call, and a message that contains "429" (here the
  position of the error in the text) is thrown again as a rate limit.
\<close>

theorem discover_reaction_counterexample:
  "discoverReaction ''key''
     (Returns (Malformed \<lparr> message = Some ''Unterminated string in JSON at position 429'',
                           asJson = ''{}'' \<rparr>)) \<noteq> Inr None"
  by code_simp

text \<open>
  Claim C8, amended: whenever \<^verbatim>\<open>discoverReaction\<close> returns a proposed reaction, a
  numeric growthChance in it is at most 0.15 (a larger value is replaced by 0.15);
  it returns nothing on a negative determination; and on an unparsable response it
  returns nothing unless the message of the syntax error contains "429", "quota" or
  "RESOURCE_EXHAUSTED", in which case it throws the rate-limit error.
\<close>

theorem discover_reaction_clamps:
  "(\<forall>r g. discoverReaction apiKey call = Inr (Some r) \<and> growthChance r = Some (JNum (Num g))
          \<longrightarrow> g \<le> 0.15) \<and>
   (\<forall>data. apiKey \<noteq> [] \<and> data \<noteq> JNull \<and>
           \<not> (toBoolean (getProp data ''reactionOccurred'') \<and> toBoolean (getProp data ''result''))
          \<longrightarrow> discoverReaction apiKey (Returns (Parsed data)) = Inr None) \<and>
   (\<forall>(err::jsError) m. apiKey \<noteq> [] \<and> message err = Some m \<and> m \<noteq> []
          \<longrightarrow> discoverReaction apiKey (Returns (Malformed err)) =
              (if includesStr m ''429'' \<or> includesStr m ''quota'' \<or>
                  includesStr m ''RESOURCE_EXHAUSTED''
               then Inl rateLimitError else Inr None))"
proof (intro conjI allI impI)
  fix r g
  assume "discoverReaction apiKey call = Inr (Some r) \<and> growthChance r = Some (JNum (Num g))"
  then show "g \<le> 0.15"
    using discovered_growth_bounded by blast
next
  fix data
  assume "apiKey \<noteq> [] \<and> data \<noteq> JNull \<and>
          \<not> (toBoolean (getProp data ''reactionOccurred'') \<and> toBoolean (getProp data ''result''))"
  then show "discoverReaction apiKey (Returns (Parsed data)) = Inr None"
    using discovery_negative by blast
next
  fix err :: jsError and m
  assume "apiKey \<noteq> [] \<and> message err = Some m \<and> m \<noteq> []"
  then show "discoverReaction apiKey (Returns (Malformed err)) =
              (if includesStr m ''429'' \<or> includesStr m ''quota'' \<or>
                  includesStr m ''RESOURCE_EXHAUSTED''
               then Inl rateLimitError else Inr None)"
    by (simp add: discovery_malformed onDiscoveryError_def)
qed

theorem discover_reaction_clamps_witness:
  "growthChance (the (projr (discoverReaction ''key''
      (Returns (Parsed (JObj [(''reactionOccurred'', JBool True),
         (''result'', JObj [(''name'', JStr ''Mud''), (''growthChance'', JNum (Num 0.9))])])))))) =
     Some (JNum (Num 0.15)) \<and>
   discoverReaction ''key'' (Returns (Parsed (JObj [(''reactionOccurred'', JBool False)]))) =
     Inr None \<and>
   discoverReaction ''key''
     (Returns (Malformed \<lparr> message = Some ''Unexpected end of JSON input'', asJson = ''{}'' \<rparr>)) =
     Inr None"
proof -
  let ?call = "Returns (Parsed (JObj [(''reactionOccurred'', JBool True),
         (''result'', JObj [(''name'', JStr ''Mud''), (''growthChance'', JNum (Num 0.9))])]))"
  let ?err = "\<lparr> message = Some ''Unexpected end of JSON input'', asJson = ''{}'' \<rparr>"
  note th = discover_reaction_clamps [of "''key''" ?call]
  have a: "growthChance (the (projr (discoverReaction ''key'' ?call))) = Some (JNum (Num 0.15))"
    by (simp add: discoverReaction_def jgt_def)
  have "discoverReaction ''key'' (Returns (Parsed (JObj [(''reactionOccurred'', JBool False)]))) =
     Inr None"
    by (rule th [THEN conjunct2, THEN conjunct1, rule_format]) simp
  moreover have "discoverReaction ''key'' (Returns (Malformed ?err)) =
      (if includesStr ''Unexpected end of JSON input'' ''429'' \<or>
          includesStr ''Unexpected end of JSON input'' ''quota'' \<or>
          includesStr ''Unexpected end of JSON input'' ''RESOURCE_EXHAUSTED''
       then Inl rateLimitError else Inr None)"
    by (rule th [THEN conjunct2, THEN conjunct2, rule_format]) simp
  moreover have "\<not> (includesStr ''Unexpected end of JSON input'' ''429'' \<or>
          includesStr ''Unexpected end of JSON input'' ''quota'' \<or>
          includesStr ''Unexpected end of JSON input'' ''RESOURCE_EXHAUSTED'')"
    by code_simp
  ultimately show ?thesis using a by (simp del: includesStr.simps)
qed

section \<open>AI Alchemy: properties of the reaction cache\<close>

lemma pairKey_commute: "pairKey a b = pairKey b a"
  by (simp add: pairKey_def)

lemma queueReaction_cache: "reactionsCache (queueReaction i a b st) = reactionsCache st"
  by (simp add: queueReaction_def Let_def split: option.splits)

lemma beginRequest_cache: "reactionsCache (beginRequest k st) = reactionsCache st"
  by (simp add: beginRequest_def Let_def)

lemma endRequest_cache_dom:
  "dom (reactionsCache st) \<subseteq> dom (reactionsCache (endRequest elements k outcome st))"
  by (auto simp: endRequest_def Let_def split: sum.splits option.splits json.splits)

lemma resolveOne_cache_dom:
  "dom (reactionsCache st) \<subseteq> dom (reactionsCache (resolveOne elements st entry))"
  by (auto simp: resolveOne_def split: option.splits)

lemma foldl_resolveOne_cache_dom:
  "dom (reactionsCache st) \<subseteq> dom (reactionsCache (foldl (resolveOne elements) st entries))"
proof (induction entries arbitrary: st)
  case Nil
  show ?case by simp
next
  case (Cons entry entries)
  have "dom (reactionsCache st) \<subseteq> dom (reactionsCache (resolveOne elements st entry))"
    by (rule resolveOne_cache_dom)
  also have "\<dots> \<subseteq> dom (reactionsCache (foldl (resolveOne elements)
                          (resolveOne elements st entry) entries))"
    by (rule Cons.IH)
  finally show ?case by simp
qed

lemma resolvePending_cache_dom:
  "dom (reactionsCache st) \<subseteq> dom (reactionsCache (resolvePending elements st))"
  unfolding resolvePending_def by (rule foldl_resolveOne_cache_dom)

lemma ignore_cache_dom: "dom (reactionsCache st) \<subseteq> dom (reactionsCache (ignore a b st))"
  by (auto simp: ignore_def split: option.splits)

lemma evolves_cache_dom: "evolves s t \<Longrightarrow> dom (reactionsCache s) \<subseteq> dom (reactionsCache t)"
proof (induction rule: evolves.induct)
  case (start s)
  show ?case by simp
next
  case (queue s t i id1 id2)
  then show ?case by (simp add: queueReaction_cache)
next
  case (begin_request s t k)
  then show ?case by (simp add: beginRequest_cache)
next
  case (end_request s t elements k outcome)
  then show ?case using endRequest_cache_dom by blast
next
  case (resolve s t elements)
  then show ?case using resolvePending_cache_dom by blast
next
  case (exclude s t id1 id2)
  then show ?case using ignore_cache_dom by blast
next
  case (resume s t)
  then show ?case by simp
next
  case (physics s t g d)
  then show ?case by simp
qed

lemma queueReaction_cached_pending:
  assumes "pairKey a b \<in> dom (reactionsCache t)"
  shows "pendingReactions (queueReaction i a b t) = pendingReactions t"
  using assms by (auto simp: queueReaction_def Let_def)

lemma queueReaction_cached_positive:
  assumes "reactionsCache t (pairKey a b) = Some res" and "0 < res" and "a \<noteq> b"
  shows "queueReaction i a b t =
           t\<lparr> nextGrid := (nextGrid t)[i := toInt32 res], nextDensity := (nextDensity t)[i := 1] \<rparr>"
  using assms by (simp add: queueReaction_def)

lemma toInt32_id: "- (2 ^ 31) \<le> v \<Longrightarrow> v < 2 ^ 31 \<Longrightarrow> toInt32 v = v"
  by (simp add: toInt32_def)

text \<open>
  Claim C7.  Once the cache maps the key of an unordered pair of element ids to 0,
  then after any further history of the sandbox (ticks, requests, resolutions,
  exclusions) an adjacency of the two ids, in either order and at any cell, leaves
  the pending set as it is: the pair is never added to it again.  And whenever the
  cache holds a positive id for the pair, the call writes that id (an element id,
  below \<open>2\<^sup>3\<^sup>1\<close>) into the current cell of the next grid, with density 1, and
  changes nothing else.
\<close>

theorem reaction_cache_determinism:
  assumes "evolves s t"
  shows "(reactionsCache s (pairKey id1 id2) = Some 0 \<longrightarrow>
            pendingReactions (queueReaction i id1 id2 t) = pendingReactions t \<and>
            pendingReactions (queueReaction i id2 id1 t) = pendingReactions t) \<and>
         (reactionsCache t (pairKey id1 id2) = Some res \<and> 0 < res \<and> res < 2 ^ 31 \<and>
          id1 \<noteq> id2 \<and> i < length (nextGrid t) \<longrightarrow>
            queueReaction i id1 id2 t =
              t\<lparr> nextGrid := (nextGrid t)[i := res], nextDensity := (nextDensity t)[i := 1] \<rparr> \<and>
            nextGrid (queueReaction i id1 id2 t) ! i = res)"
proof (intro conjI impI)
  assume "reactionsCache s (pairKey id1 id2) = Some 0"
  then have "pairKey id1 id2 \<in> dom (reactionsCache s)" by blast
  with assms have k: "pairKey id1 id2 \<in> dom (reactionsCache t)"
    using evolves_cache_dom by blast
  then show "pendingReactions (queueReaction i id1 id2 t) = pendingReactions t"
    by (rule queueReaction_cached_pending)
  from k have "pairKey id2 id1 \<in> dom (reactionsCache t)"
    by (simp add: pairKey_commute)
  then show "pendingReactions (queueReaction i id2 id1 t) = pendingReactions t"
    by (rule queueReaction_cached_pending)
next
  assume a: "reactionsCache t (pairKey id1 id2) = Some res \<and> 0 < res \<and> res < 2 ^ 31 \<and>
          id1 \<noteq> id2 \<and> i < length (nextGrid t)"
  then have "toInt32 res = res" by (simp add: toInt32_id)
  with a show "queueReaction i id1 id2 t =
      t\<lparr> nextGrid := (nextGrid t)[i := res], nextDensity := (nextDensity t)[i := 1] \<rparr>"
    using queueReaction_cached_positive [of t id1 id2 res i] by simp
  with a show "nextGrid (queueReaction i id1 id2 t) ! i = res" by simp
qed

theorem reaction_cache_determinism_witness:
  "pendingReactions (queueReaction 2 7 3 (beginRequest ''1:2'' (queueReaction 0 1 2 exampleRefs))) =
     pendingReactions (beginRequest ''1:2'' (queueReaction 0 1 2 exampleRefs)) \<and>
   nextGrid (queueReaction 1 4 6 exampleRefs) ! 1 = 9"
proof -
  have k37: "pairKey 3 7 = ''3:7''" and k46: "pairKey 4 6 = ''4:6''"
    by code_simp+
  have e: "evolves exampleRefs (beginRequest ''1:2'' (queueReaction 0 1 2 exampleRefs))"
    by (intro evolves.intros)
  have "reactionsCache exampleRefs (pairKey 3 7) = Some 0"
    by (simp add: k37 exampleRefs_def)
  with reaction_cache_determinism [OF e, of 3 7 2]
  have a: "pendingReactions (queueReaction 2 7 3
             (beginRequest ''1:2'' (queueReaction 0 1 2 exampleRefs))) =
           pendingReactions (beginRequest ''1:2'' (queueReaction 0 1 2 exampleRefs))"
    by blast
  have "reactionsCache exampleRefs (pairKey 4 6) = Some 9 \<and> (0::int) < 9 \<and> (9::int) < 2 ^ 31 \<and>
        (4::int) \<noteq> 6 \<and> 1 < length (nextGrid exampleRefs)"
    by (simp add: k46 exampleRefs_def)
  with reaction_cache_determinism [OF evolves.start, of exampleRefs 4 6 1 9]
  have "nextGrid (queueReaction 1 4 6 exampleRefs) ! 1 = 9"
    by blast
  with a show ?thesis by simp
qed

section \<open>Cosmic Voyager: properties\<close>

lemma fallback_keys: "map fst FALLBACK_DESCRIPTIONS = narratedBodies"
  by (simp add: FALLBACK_DESCRIPTIONS_def narratedBodies_def)

lemma fallback_nonempty: "\<forall>(k, d) \<in> set FALLBACK_DESCRIPTIONS. d \<noteq> [] \<and> d \<noteq> communicationsDown"
  by (simp add: FALLBACK_DESCRIPTIONS_def communicationsDown_def)

text \<open>
  Claim C9.  For each of the eight planet names and "The Sun", when the model call
  fails (throws any error) the narration service returns the paragraph stored for that body in the
  built-in table; the paragraph is not empty and is not the generic
  communications-down message.  Nothing else in the request matters.
\<close>

theorem narration_fallback_complete:
  assumes "name request \<in> set narratedBodies"
  shows "\<exists>d. map_of FALLBACK_DESCRIPTIONS (name request) = Some d \<and>
             getPlanetDetails request (Throws err) = d \<and> d \<noteq> [] \<and> d \<noteq> communicationsDown"
proof -
  from assms have "name request \<in> fst ` set FALLBACK_DESCRIPTIONS"
    using fallback_keys by (metis set_map)
  then obtain d where d: "map_of FALLBACK_DESCRIPTIONS (name request) = Some d"
    by (metis domIff dom_map_of_conv_image_fst not_Some_eq)
  then have "(name request, d) \<in> set FALLBACK_DESCRIPTIONS"
    by (rule map_of_SomeD)
  with fallback_nonempty have ne: "d \<noteq> []" "d \<noteq> communicationsDown"
    by auto
  with d have "getPlanetDetails request (Throws err) = d"
    by (simp add: getPlanetDetails_def)
  with d ne show ?thesis by simp
qed

theorem narration_fallback_complete_witness:
  "getPlanetDetails \<lparr> name = ''The Sun'', bodyType = Some ''star'', fallbackText = None,
       mode = Some orbit, cameraDistance = None, sunAltitude = None,
       targetName = None \<rparr>
     (Throws \<lparr> message = Some ''fetch failed'', asJson = ''{}'' \<rparr>) \<noteq> communicationsDown"
  using narration_fallback_complete
    [of "\<lparr> name = ''The Sun'', bodyType = Some ''star'', fallbackText = None,
       mode = Some orbit, cameraDistance = None, sunAltitude = None,
       targetName = None \<rparr>"
     "\<lparr> message = Some ''fetch failed'', asJson = ''{}'' \<rparr>"]
  by (auto simp: narratedBodies_def)

end
